theory Spec2Isabelle
  imports Complex_Main "HOL-Library.Word" "HOL-Library.Sublist"
begin

section \<open>The usage notebook of the graph ConvNet library (\<^verbatim>\<open>cnn_graph/usage.ipynb\<close>)\<close>

text \<open>
  The notebook is a straight-line Python script: it draws a random data set, labels it,
  splits it, and hands it to the external modules \<^verbatim>\<open>graph\<close>, \<^verbatim>\<open>coarsening\<close> and
  \<^verbatim>\<open>models\<close>. The embedding follows the code cells one by one.

  \<^item> NumPy arrays are lists (a matrix is the list of its rows). Floating-point numbers are
    idealised as reals: rounding is not modelled.
  \<^item> The three calls of \<^verbatim>\<open>np.random.normal\<close> are inputs of the model (\<open>random_draws\<close>),
    indexed by position, so that the arrays have the shapes the script asks for.
  \<^item> The external library is a parameter (\<open>library\<close>): every function of it may raise,
    and returns \<open>Inl\<close> of the exception then.
  \<^item> A run of the script yields the list of the external calls it made, in order, and
    either the exception that ended it or the global variables at its end.
\<close>

subsection \<open>Constants of the script (lines 57--59)\<close>

definition d :: nat where "d = 100"
definition n :: nat where "n = 10000"
definition c :: nat where "c = 5"

subsection \<open>The NumPy operations the script uses\<close>

type_synonym vector = "real list"
type_synonym matrix = "real list list"
type_synonym labels = "8 word list"

text \<open>\<^verbatim>\<open>np.linspace(start, stop, num)\<close>: \<open>num\<close> evenly spaced points, both ends included.\<close>

definition np_linspace :: "real \<Rightarrow> real \<Rightarrow> nat \<Rightarrow> vector" where
  "np_linspace start stop num =
     map (\<lambda>i. start + real i * ((stop - start) / real (num - 1))) [0..<num]"

text \<open>\<^verbatim>\<open>a.repeat(k)\<close>: every element \<open>k\<close> times, in place.\<close>

definition np_repeat :: "nat \<Rightarrow> 'a list \<Rightarrow> 'a list" where
  "np_repeat k xs = concat (map (replicate k) xs)"

text \<open>\<^verbatim>\<open>X += v\<close> for a matrix and a row vector: the vector is added to every row.\<close>

definition add_to_rows :: "matrix \<Rightarrow> vector \<Rightarrow> matrix" where
  "add_to_rows X v = map (\<lambda>row. map2 (+) row v) X"

text \<open>\<^verbatim>\<open>X.dot(w)\<close> for a matrix and a vector.\<close>

definition dot :: "matrix \<Rightarrow> vector \<Rightarrow> vector" where
  "dot X w = map (\<lambda>row. sum_list (map2 (*) row w)) X"

text \<open>\<^verbatim>\<open>t.mean()\<close> and \<^verbatim>\<open>t.std()\<close> (the population standard deviation).\<close>

definition np_mean :: "vector \<Rightarrow> real" where
  "np_mean t = sum_list t / real (length t)"

definition np_std :: "vector \<Rightarrow> real" where
  "np_std t = sqrt (np_mean (map (\<lambda>x. (x - np_mean t)\<^sup>2) t))"

text \<open>\<^verbatim>\<open>y[mask] = v\<close>: the entries where the mask holds are overwritten.\<close>

definition mask_assign :: "bool list \<Rightarrow> 'a \<Rightarrow> 'a list \<Rightarrow> 'a list" where
  "mask_assign bs v ys = map2 (\<lambda>b y. if b then v else y) bs ys"

text \<open>\<^verbatim>\<open>np.unique(y)\<close>: the distinct values, sorted; with \<^verbatim>\<open>return_counts=True\<close>
  the second result counts each of them.\<close>

definition np_unique :: "labels \<Rightarrow> labels" where
  "np_unique y = sorted_list_of_set (set y)"

definition np_unique_counts :: "labels \<Rightarrow> nat list" where
  "np_unique_counts y = map (count_list y) (np_unique y)"

text \<open>Python's \<^verbatim>\<open>xs[a:b]\<close> for non-negative bounds.\<close>

definition slice :: "nat \<Rightarrow> nat \<Rightarrow> 'a list \<Rightarrow> 'a list" where
  "slice a b xs = take (b - a) (drop a xs)"

subsection \<open>Cell 2: the synthetic data (lines 57--76)\<close>

record random_draws =
  normal_X :: "nat \<Rightarrow> nat \<Rightarrow> real"
  normal_w :: "nat \<Rightarrow> real"
  normal_noise :: "nat \<Rightarrow> real"

definition draw_matrix :: "(nat \<Rightarrow> nat \<Rightarrow> real) \<Rightarrow> nat \<Rightarrow> nat \<Rightarrow> matrix" where
  "draw_matrix f rows cols = map (\<lambda>i. map (f i) [0..<cols]) [0..<rows]"

definition draw_vector :: "(nat \<Rightarrow> real) \<Rightarrow> nat \<Rightarrow> vector" where
  "draw_vector f k = map f [0..<k]"

text \<open>Lines 62--63: the data matrix, shifted community by community.\<close>

definition make_X :: "random_draws \<Rightarrow> matrix" where
  "make_X rnd =
     add_to_rows (draw_matrix (normal_X rnd) n d) (np_repeat (d div c) (np_linspace 0 1 c))"

text \<open>Lines 66--68: the noisy non-linear target.\<close>

definition make_w :: "random_draws \<Rightarrow> vector" where
  "make_w rnd = draw_vector (normal_w rnd) d"

definition make_t :: "random_draws \<Rightarrow> matrix \<Rightarrow> vector \<Rightarrow> vector" where
  "make_t rnd X w = map tanh (map2 (+) (dot X w) (draw_vector (normal_noise rnd) n))"

text \<open>
  Lines 73--75: the labels. The two masked assignments run one after the other, each
  with its bound: \<open>hi\<close> is \<^verbatim>\<open>t.mean() + 0.4 * t.std()\<close>, \<open>lo\<close> is
  \<^verbatim>\<open>t.mean() - 0.4 * t.std()\<close>.
\<close>

definition threshold_labels :: "real \<Rightarrow> real \<Rightarrow> vector \<Rightarrow> labels" where
  "threshold_labels hi lo t =
     (let y0 = replicate (length t) 1;
          y1 = mask_assign (map (\<lambda>x. x > hi) t) 0 y0;
          y2 = mask_assign (map (\<lambda>x. x < lo) t) 2 y1
      in y2)"

definition classify :: "vector \<Rightarrow> labels" where
  "classify t =
     threshold_labels (np_mean t + 0.4 * np_std t) (np_mean t - 0.4 * np_std t) t"

subsection \<open>Cell 3: the split (lines 94--103)\<close>

definition n_train :: nat where "n_train = n div 2"
definition n_val :: nat where "n_val = n div 10"

definition train_part :: "'a list \<Rightarrow> 'a list" where
  "train_part xs = slice 0 n_train xs"

definition val_part :: "'a list \<Rightarrow> 'a list" where
  "val_part xs = slice n_train (n_train + n_val) xs"

definition test_part :: "'a list \<Rightarrow> 'a list" where
  "test_part xs = drop (n_train + n_val) xs"

subsection \<open>The external library\<close>

text \<open>
  The parameter dictionary: the values the script stores are strings, integers, floats and
  lists of integers. \<open>dict_set\<close> is \<^verbatim>\<open>params[k] = v\<close>, \<open>dict_get\<close> is \<^verbatim>\<open>params[k]\<close>.
\<close>

datatype pval = PStr string | PInt int | PReal real | PList "int list"

type_synonym params = "(string \<times> pval) list"

fun dict_set :: "'k \<Rightarrow> 'a \<Rightarrow> ('k \<times> 'a) list \<Rightarrow> ('k \<times> 'a) list" where
  "dict_set k v [] = [(k, v)]"
| "dict_set k v ((k', v') # ps) =
     (if k = k' then (k, v) # ps else (k', v') # dict_set k v ps)"

definition dict_get :: "('k \<times> 'a) list \<Rightarrow> 'k \<Rightarrow> 'a option" where
  "dict_get ps k = map_of ps k"

text \<open>The calls the script makes to the outside, with their arguments.\<close>

datatype 'v event =
    Plt_figure
  | Plt_plot vector
  | Print_class_imbalance "nat list"
  | Graph_distance_scipy_spatial matrix nat string
  | Graph_adjacency 'v 'v
  | Astype_float32 'v
  | Print_graph_size nat nat
  | Plt_spy 'v
  | Coarsening_coarsen 'v nat bool
  | Coarsening_perm_data matrix 'v
  | Graph_laplacian 'v bool
  | Graph_plot_spectrum "'v list"
  | Models_cgcnn "'v list" params
  | Model_fit 'v matrix labels matrix labels
  | Plt_subplots
  | Ax1_plot 'v
  | Ax1_set_ylabel string
  | Ax1_twinx
  | Ax2_plot 'v
  | Ax2_set_ylabel string
  | Plt_show
  | Print_time_per_step real
  | Model_evaluate 'v matrix labels
  | Print_res 'v

text \<open>
  The functions of \<^verbatim>\<open>lib.graph\<close>, \<^verbatim>\<open>lib.coarsening\<close> and \<^verbatim>\<open>lib.models\<close> that the script
  calls, and the three members of the sparse matrix it touches (\<^verbatim>\<open>astype\<close>, \<^verbatim>\<open>shape\<close>,
  \<^verbatim>\<open>nnz\<close>). Their code is not part of the notebook, so they are parameters: \<open>'v\<close> is the
  type of the objects they exchange, \<open>'x\<close> the type of the exceptions they raise.
  \<open>fit\<close> trains the model object in place, so it returns the trained object as well.
  \<open>display\<close> stands for \<^verbatim>\<open>print\<close> and matplotlib: a call to them returns nothing, or it
  raises.
\<close>

record ('v, 'x) library =
  distance_scipy_spatial :: "matrix \<Rightarrow> nat \<Rightarrow> string \<Rightarrow> 'x + ('v \<times> 'v)"
  adjacency :: "'v \<Rightarrow> 'v \<Rightarrow> 'x + 'v"
  astype_float32 :: "'v \<Rightarrow> 'x + 'v"
  shape :: "'v \<Rightarrow> nat list"
  nnz :: "'v \<Rightarrow> nat"
  coarsen :: "'v \<Rightarrow> nat \<Rightarrow> bool \<Rightarrow> 'x + ('v list \<times> 'v)"
  perm_data :: "matrix \<Rightarrow> 'v \<Rightarrow> 'x + matrix"
  laplacian :: "'v \<Rightarrow> bool \<Rightarrow> 'x + 'v"
  plot_spectrum :: "'v list \<Rightarrow> 'x + unit"
  cgcnn :: "'v list \<Rightarrow> params \<Rightarrow> 'x + 'v"
  fit :: "'v \<Rightarrow> matrix \<Rightarrow> labels \<Rightarrow> matrix \<Rightarrow> labels \<Rightarrow> 'x + (('v \<times> 'v \<times> real) \<times> 'v)"
  evaluate :: "'v \<Rightarrow> matrix \<Rightarrow> labels \<Rightarrow> 'x + 'v list"
  display :: "'v event \<Rightarrow> 'x + unit"

subsection \<open>Runs: the calls made so far, and an exception or a value\<close>

datatype assertion = Shape_assertion | Class_count_assertion

datatype 'x error =
    AssertionError assertion
  | Python_error string
  | Raised 'x

type_synonym ('v, 'x, 'a) run = "'v event list \<times> ('x error + 'a)"

definition return_run :: "'a \<Rightarrow> ('v, 'x, 'a) run" where
  "return_run a = ([], Inr a)"

definition raise_run :: "'x error \<Rightarrow> ('v, 'x, 'a) run" where
  "raise_run e = ([], Inl e)"

text \<open>Sequencing: an exception ends the run, there is no handler anywhere.\<close>

definition bind_run :: "('v, 'x, 'a) run \<Rightarrow> ('a \<Rightarrow> ('v, 'x, 'b) run) \<Rightarrow> ('v, 'x, 'b) run" where
  "bind_run m f =
     (case m of
        (tr, Inl e) \<Rightarrow> (tr, Inl e)
      | (tr, Inr a) \<Rightarrow> (case f a of (tr', r) \<Rightarrow> (tr @ tr', r)))"

text \<open>A call into the library: it is recorded, and it returns or raises.\<close>

definition call :: "'v event \<Rightarrow> 'x + 'a \<Rightarrow> ('v, 'x, 'a) run" where
  "call ev res = ([ev], case res of Inl x \<Rightarrow> Inl (Raised x) | Inr a \<Rightarrow> Inr a)"

text \<open>A call to \<^verbatim>\<open>print\<close> or matplotlib: a call like the others, with no result.\<close>

definition emit :: "('v, 'x) library \<Rightarrow> 'v event \<Rightarrow> ('v, 'x, unit) run" where
  "emit lib ev = call ev (display lib ev)"

text \<open>\<^verbatim>\<open>assert cond\<close>.\<close>

definition py_assert :: "assertion \<Rightarrow> bool \<Rightarrow> ('v, 'x, unit) run" where
  "py_assert a cond = (if cond then return_run () else raise_run (AssertionError a))"

subsection \<open>Cell 2, with its plot and its printout\<close>

definition cell_data ::
  "('v, 'x) library \<Rightarrow> random_draws \<Rightarrow> ('v, 'x, matrix \<times> vector \<times> vector \<times> labels) run" where
  "cell_data lib rnd =
     (let X = make_X rnd; w = make_w rnd; t = make_t rnd X w in
      bind_run (emit lib Plt_figure) (\<lambda>_.
      bind_run (emit lib (Plt_plot t)) (\<lambda>_.
      (let y = classify t in
       bind_run (emit lib (Print_class_imbalance (np_unique_counts y))) (\<lambda>_.
       return_run (X, w, t, y))))))"

subsection \<open>Cell 4: the feature graph (lines 133--138)\<close>

definition cell_graph :: "('v, 'x) library \<Rightarrow> matrix \<Rightarrow> ('v, 'x, 'v \<times> 'v \<times> 'v) run" where
  "cell_graph lib X_train =
     bind_run (call (Graph_distance_scipy_spatial (transpose X_train) 10 ''euclidean'')
                 (distance_scipy_spatial lib (transpose X_train) 10 ''euclidean'')) (\<lambda>(dist, idx).
     bind_run (call (Graph_adjacency dist idx) (adjacency lib dist idx)) (\<lambda>A0.
     bind_run (call (Astype_float32 A0) (astype_float32 lib A0)) (\<lambda>A.
     bind_run (py_assert Shape_assertion (shape lib A = [d, d])) (\<lambda>_.
     bind_run (emit lib (Print_graph_size d (nnz lib A))) (\<lambda>_.
     bind_run (emit lib (Plt_spy A)) (\<lambda>_.
     return_run (dist, idx, A)))))))"

subsection \<open>Cell 5: coarsening (lines 162--166)\<close>

definition cell_coarsen ::
  "('v, 'x) library \<Rightarrow> 'v \<Rightarrow> matrix \<Rightarrow> matrix \<Rightarrow> matrix \<Rightarrow>
     ('v, 'x, 'v list \<times> 'v \<times> matrix \<times> matrix \<times> matrix) run" where
  "cell_coarsen lib A X_train X_val X_test =
     bind_run (call (Coarsening_coarsen A 3 False) (coarsen lib A 3 False)) (\<lambda>(graphs, perm).
     bind_run (call (Coarsening_perm_data X_train perm) (perm_data lib X_train perm)) (\<lambda>X_train.
     bind_run (call (Coarsening_perm_data X_val perm) (perm_data lib X_val perm)) (\<lambda>X_val.
     bind_run (call (Coarsening_perm_data X_test perm) (perm_data lib X_test perm)) (\<lambda>X_test.
     return_run (graphs, perm, X_train, X_val, X_test)))))"

subsection \<open>Cell 6: the Laplacians (lines 184--185)\<close>

text \<open>The list comprehension \<^verbatim>\<open>[graph.laplacian(A, normalized=True) for A in graphs]\<close>.\<close>

fun laplacians :: "('v, 'x) library \<Rightarrow> 'v list \<Rightarrow> ('v, 'x, 'v list) run" where
  "laplacians lib [] = return_run []"
| "laplacians lib (A # graphs) =
     bind_run (call (Graph_laplacian A True) (laplacian lib A True)) (\<lambda>l.
     bind_run (laplacians lib graphs) (\<lambda>ls.
     return_run (l # ls)))"

definition cell_laplacian :: "('v, 'x) library \<Rightarrow> 'v list \<Rightarrow> ('v, 'x, 'v list) run" where
  "cell_laplacian lib graphs =
     bind_run (laplacians lib graphs) (\<lambda>L.
     bind_run (call (Graph_plot_spectrum L) (plot_spectrum lib L)) (\<lambda>_.
     return_run L))"

subsection \<open>Cell 7: the parameters (lines 207--234)\<close>

text \<open>\<^verbatim>\<open>y.max()\<close> raises on an empty array.\<close>

definition y_max :: "labels \<Rightarrow> ('v, 'x, 8 word) run" where
  "y_max y = (if y = [] then raise_run (Python_error ''ValueError'') else return_run (Max (set y)))"

text \<open>
  \<^verbatim>\<open>n_train / params['batch_size']\<close>: the lookup, then Python 3's true division of two
  integers.
\<close>

definition decay_steps :: "params \<Rightarrow> ('v, 'x, real) run" where
  "decay_steps ps =
     (case dict_get ps ''batch_size'' of
        None \<Rightarrow> raise_run (Python_error ''KeyError'')
      | Some (PInt b) \<Rightarrow>
          (if b = 0 then raise_run (Python_error ''ZeroDivisionError'')
           else return_run (real n_train / real_of_int b))
      | Some (PReal b) \<Rightarrow>
          (if b = 0 then raise_run (Python_error ''ZeroDivisionError'')
           else return_run (real n_train / b))
      | Some _ \<Rightarrow> raise_run (Python_error ''TypeError''))"

text \<open>
  \<open>C\<close> is \<^verbatim>\<open>y.max() + 1\<close>: the sum of a \<^verbatim>\<open>uint8\<close> scalar and a Python integer is a
  64-bit integer in the NumPy of the notebook's Python 3.4, so it does not wrap.
\<close>

definition cell_params :: "labels \<Rightarrow> ('v, 'x, params \<times> int) run" where
  "cell_params y =
     (let ps = [];
          ps = dict_set ''dir_name'' (PStr ''demo'') ps;
          ps = dict_set ''num_epochs'' (PInt 40) ps;
          ps = dict_set ''batch_size'' (PInt 100) ps;
          ps = dict_set ''eval_frequency'' (PInt 200) ps;
          ps = dict_set ''filter'' (PStr ''chebyshev5'') ps;
          ps = dict_set ''brelu'' (PStr ''b1relu'') ps;
          ps = dict_set ''pool'' (PStr ''apool1'') ps
      in
      bind_run (y_max y) (\<lambda>m.
      (let C = uint m + 1 in
       bind_run (py_assert Class_count_assertion (C = int (length (np_unique y)))) (\<lambda>_.
       (let ps = dict_set ''F'' (PList [32, 64]) ps;
            ps = dict_set ''K'' (PList [20, 20]) ps;
            ps = dict_set ''p'' (PList [4, 2]) ps;
            ps = dict_set ''M'' (PList [512, C]) ps;
            ps = dict_set ''regularization'' (PReal (5 / 10 ^ 4)) ps;
            ps = dict_set ''dropout'' (PInt 1) ps;
            ps = dict_set ''learning_rate'' (PReal (1 / 10 ^ 3)) ps;
            ps = dict_set ''decay_rate'' (PReal 0.95) ps;
            ps = dict_set ''momentum'' (PReal 0.9) ps
        in
        bind_run (decay_steps ps) (\<lambda>ds.
        return_run (dict_set ''decay_steps'' (PReal ds) ps, C)))))))"

subsection \<open>Cell 8: the model and its training (lines 245--246)\<close>

definition cell_fit ::
  "('v, 'x) library \<Rightarrow> 'v list \<Rightarrow> params \<Rightarrow> matrix \<Rightarrow> labels \<Rightarrow> matrix \<Rightarrow> labels \<Rightarrow>
     ('v, 'x, 'v \<times> 'v \<times> 'v \<times> real) run" where
  "cell_fit lib L ps X_train y_train X_val y_val =
     bind_run (call (Models_cgcnn L ps) (cgcnn lib L ps)) (\<lambda>model.
     bind_run (call (Model_fit model X_train y_train X_val y_val)
                 (fit lib model X_train y_train X_val y_val)) (\<lambda>((accuracy, loss, t_step), model).
     return_run (model, accuracy, loss, t_step)))"

subsection \<open>Cells 9--11: the plots and the evaluation (lines 270--299)\<close>

definition cell_plot :: "('v, 'x) library \<Rightarrow> 'v \<Rightarrow> 'v \<Rightarrow> ('v, 'x, unit) run" where
  "cell_plot lib accuracy loss =
     bind_run (emit lib Plt_subplots) (\<lambda>_.
     bind_run (emit lib (Ax1_plot accuracy)) (\<lambda>_.
     bind_run (emit lib (Ax1_set_ylabel ''validation accuracy'')) (\<lambda>_.
     bind_run (emit lib Ax1_twinx) (\<lambda>_.
     bind_run (emit lib (Ax2_plot loss)) (\<lambda>_.
     bind_run (emit lib (Ax2_set_ylabel ''training loss'')) (\<lambda>_.
     emit lib Plt_show))))))"

definition cell_time :: "('v, 'x) library \<Rightarrow> real \<Rightarrow> ('v, 'x, unit) run" where
  "cell_time lib t_step = emit lib (Print_time_per_step (t_step * 1000))"

text \<open>\<^verbatim>\<open>res[0]\<close> raises on an empty result.\<close>

definition cell_evaluate ::
  "('v, 'x) library \<Rightarrow> 'v \<Rightarrow> matrix \<Rightarrow> labels \<Rightarrow> ('v, 'x, 'v list) run" where
  "cell_evaluate lib model X_test y_test =
     bind_run (call (Model_evaluate model X_test y_test) (evaluate lib model X_test y_test)) (\<lambda>res.
     (case res of
        [] \<Rightarrow> raise_run (Python_error ''IndexError'')
      | r0 # _ \<Rightarrow> bind_run (emit lib (Print_res r0)) (\<lambda>_. return_run res)))"

subsection \<open>The whole script\<close>

text \<open>The global variables when the last cell has run.\<close>

record 'v globals =
  var_X :: matrix
  var_w :: vector
  var_t :: vector
  var_y :: labels
  var_X_train :: matrix
  var_X_val :: matrix
  var_X_test :: matrix
  var_y_train :: labels
  var_y_val :: labels
  var_y_test :: labels
  var_dist :: 'v
  var_idx :: 'v
  var_A :: 'v
  var_graphs :: "'v list"
  var_perm :: 'v
  var_L :: "'v list"
  var_params :: params
  var_C :: int
  var_model :: 'v
  var_accuracy :: 'v
  var_loss :: 'v
  var_t_step :: real
  var_res :: "'v list"

definition script :: "('v, 'x) library \<Rightarrow> random_draws \<Rightarrow> ('v, 'x, 'v globals) run" where
  "script lib rnd =
     bind_run (cell_data lib rnd) (\<lambda>(X, w, t, y).
     (let X_train = train_part X; X_val = val_part X; X_test = test_part X;
          y_train = train_part y; y_val = val_part y; y_test = test_part y
      in
      bind_run (cell_graph lib X_train) (\<lambda>(dist, idx, A).
      bind_run (cell_coarsen lib A X_train X_val X_test) (\<lambda>(graphs, perm, X_train, X_val, X_test).
      bind_run (cell_laplacian lib graphs) (\<lambda>L.
      bind_run (cell_params y) (\<lambda>(ps, C).
      bind_run (cell_fit lib L ps X_train y_train X_val y_val) (\<lambda>(model, accuracy, loss, t_step).
      bind_run (cell_plot lib accuracy loss) (\<lambda>_.
      bind_run (cell_time lib t_step) (\<lambda>_.
      bind_run (cell_evaluate lib model X_test y_test) (\<lambda>res.
      return_run
        \<lparr>var_X = X, var_w = w, var_t = t, var_y = y,
         var_X_train = X_train, var_X_val = X_val, var_X_test = X_test,
         var_y_train = y_train, var_y_val = y_val, var_y_test = y_test,
         var_dist = dist, var_idx = idx, var_A = A,
         var_graphs = graphs, var_perm = perm, var_L = L,
         var_params = ps, var_C = C,
         var_model = model, var_accuracy = accuracy, var_loss = loss, var_t_step = t_step,
         var_res = res\<rparr>))))))))))"

subsection \<open>Reading a run\<close>

text \<open>The Python name of the function an event calls.\<close>

fun callee :: "'v event \<Rightarrow> string" where
  "callee Plt_figure = ''plt.figure''"
| "callee (Plt_plot t) = ''plt.plot''"
| "callee (Print_class_imbalance counts) = ''print''"
| "callee (Graph_distance_scipy_spatial X k metric) = ''graph.distance_scipy_spatial''"
| "callee (Graph_adjacency ds ix) = ''graph.adjacency''"
| "callee (Astype_float32 A) = ''astype''"
| "callee (Print_graph_size k m) = ''print''"
| "callee (Plt_spy A) = ''plt.spy''"
| "callee (Coarsening_coarsen A levels self_connections) = ''coarsening.coarsen''"
| "callee (Coarsening_perm_data X perm) = ''coarsening.perm_data''"
| "callee (Graph_laplacian A normalized) = ''graph.laplacian''"
| "callee (Graph_plot_spectrum L) = ''graph.plot_spectrum''"
| "callee (Models_cgcnn L ps) = ''models.cgcnn''"
| "callee (Model_fit model X_train y_train X_val y_val) = ''model.fit''"
| "callee Plt_subplots = ''plt.subplots''"
| "callee (Ax1_plot accuracy) = ''ax1.plot''"
| "callee (Ax1_set_ylabel s) = ''ax1.set_ylabel''"
| "callee Ax1_twinx = ''ax1.twinx''"
| "callee (Ax2_plot loss) = ''ax2.plot''"
| "callee (Ax2_set_ylabel s) = ''ax2.set_ylabel''"
| "callee Plt_show = ''plt.show''"
| "callee (Print_time_per_step ms) = ''print''"
| "callee (Model_evaluate model X_test y_test) = ''model.evaluate''"
| "callee (Print_res r) = ''print''"

text \<open>
  The calls of each cell, by name and in the order of the source. Only the number of calls
  of \<^verbatim>\<open>graph.laplacian\<close> depends on a value: the comprehension makes one per graph.
\<close>

definition steps_data :: "string list" where
  "steps_data = [''plt.figure'', ''plt.plot'', ''print'']"
definition steps_graph :: "string list" where
  "steps_graph = [''graph.distance_scipy_spatial'', ''graph.adjacency'', ''astype'',
     ''print'', ''plt.spy'']"
definition steps_coarsen :: "string list" where
  "steps_coarsen = [''coarsening.coarsen'', ''coarsening.perm_data'', ''coarsening.perm_data'',
     ''coarsening.perm_data'']"
definition steps_laplacian :: "nat \<Rightarrow> string list" where
  "steps_laplacian k = replicate k ''graph.laplacian'' @ [''graph.plot_spectrum'']"
definition steps_fit :: "string list" where
  "steps_fit = [''models.cgcnn'', ''model.fit'']"
definition steps_plot :: "string list" where
  "steps_plot = [''plt.subplots'', ''ax1.plot'', ''ax1.set_ylabel'', ''ax1.twinx'', ''ax2.plot'',
     ''ax2.set_ylabel'', ''plt.show'']"
definition steps_evaluate :: "string list" where
  "steps_evaluate = [''model.evaluate'', ''print'']"

definition steps :: "nat \<Rightarrow> string list" where
  "steps k = steps_data @ steps_graph @ steps_coarsen @ steps_laplacian k @ steps_fit
     @ steps_plot @ [''print''] @ steps_evaluate"

text \<open>
  A run follows a list of names when its calls carry these names, in this order: all of
  them when the run returns, the first ones when an exception ends it.
\<close>

definition follows :: "('v, 'x, 'a) run \<Rightarrow> string list \<Rightarrow> bool" where
  "follows m ks =
     (case snd m of
        Inl e \<Rightarrow> prefix (map callee (fst m)) ks
      | Inr a \<Rightarrow> map callee (fst m) = ks)"

text \<open>
  The exception a call raises, if it raises: the library functions are functions of
  their arguments, so an event determines the outcome of its call.
\<close>

definition exception_of :: "'x + 'a \<Rightarrow> 'x option" where
  "exception_of r = (case r of Inl x \<Rightarrow> Some x | Inr a \<Rightarrow> None)"

fun raised_by :: "('v, 'x) library \<Rightarrow> 'v event \<Rightarrow> 'x option" where
  "raised_by lib (Graph_distance_scipy_spatial X k metric) =
     exception_of (distance_scipy_spatial lib X k metric)"
| "raised_by lib (Graph_adjacency ds ix) = exception_of (adjacency lib ds ix)"
| "raised_by lib (Astype_float32 A) = exception_of (astype_float32 lib A)"
| "raised_by lib (Coarsening_coarsen A levels self_connections) =
     exception_of (coarsen lib A levels self_connections)"
| "raised_by lib (Coarsening_perm_data X perm) = exception_of (perm_data lib X perm)"
| "raised_by lib (Graph_laplacian A normalized) = exception_of (laplacian lib A normalized)"
| "raised_by lib (Graph_plot_spectrum L) = exception_of (plot_spectrum lib L)"
| "raised_by lib (Models_cgcnn L ps) = exception_of (cgcnn lib L ps)"
| "raised_by lib (Model_fit model X_train y_train X_val y_val) =
     exception_of (fit lib model X_train y_train X_val y_val)"
| "raised_by lib (Model_evaluate model X_test y_test) =
     exception_of (evaluate lib model X_test y_test)"
| "raised_by lib ev = exception_of (display lib ev)"

text \<open>
  A run stops at the first exception when every call but the last returned, and the
  last call either returned too or raised the exception the run ends with. A handler
  (\<^verbatim>\<open>try ... except\<close>) would let a run go on after a call that raised.
\<close>

definition stops_at_exception :: "('v, 'x) library \<Rightarrow> ('v, 'x, 'a) run \<Rightarrow> bool" where
  "stops_at_exception lib m =
     (case snd m of
        Inl (Raised x) \<Rightarrow>
          fst m \<noteq> [] \<and> (\<forall>e\<in>set (butlast (fst m)). raised_by lib e = None) \<and>
          raised_by lib (last (fst m)) = Some x
      | _ \<Rightarrow> (\<forall>e\<in>set (fst m). raised_by lib e = None))"

text \<open>The parameter dictionary at the end of cell 7, given the number of classes.\<close>

definition final_params :: "int \<Rightarrow> params" where
  "final_params C =
     [(''dir_name'', PStr ''demo''), (''num_epochs'', PInt 40), (''batch_size'', PInt 100),
      (''eval_frequency'', PInt 200), (''filter'', PStr ''chebyshev5''),
      (''brelu'', PStr ''b1relu''), (''pool'', PStr ''apool1''),
      (''F'', PList [32, 64]), (''K'', PList [20, 20]), (''p'', PList [4, 2]),
      (''M'', PList [512, C]), (''regularization'', PReal (5 / 10 ^ 4)),
      (''dropout'', PInt 1), (''learning_rate'', PReal (1 / 10 ^ 3)),
      (''decay_rate'', PReal 0.95), (''momentum'', PReal 0.9),
      (''decay_steps'', PReal 50)]"

text \<open>
  The calls of a run that returns, written with the variables at its end. Two objects
  are not kept in a variable: the adjacency matrix before its cast (\<open>A0\<close>) and the model
  object before its training (\<open>model0\<close>). \<^verbatim>\<open>X_train\<close>, \<^verbatim>\<open>X_val\<close> and \<^verbatim>\<open>X_test\<close> are
  rebound in cell 5; before it they are the three parts of \<^verbatim>\<open>X\<close>.
\<close>

definition complete_trace :: "('v, 'x) library \<Rightarrow> 'v globals \<Rightarrow> 'v \<Rightarrow> 'v \<Rightarrow> 'v event list" where
  "complete_trace lib g A0 model0 =
     [Plt_figure, Plt_plot (var_t g), Print_class_imbalance (np_unique_counts (var_y g)),
      Graph_distance_scipy_spatial (transpose (train_part (var_X g))) 10 ''euclidean'',
      Graph_adjacency (var_dist g) (var_idx g), Astype_float32 A0,
      Print_graph_size d (nnz lib (var_A g)), Plt_spy (var_A g),
      Coarsening_coarsen (var_A g) 3 False,
      Coarsening_perm_data (train_part (var_X g)) (var_perm g),
      Coarsening_perm_data (val_part (var_X g)) (var_perm g),
      Coarsening_perm_data (test_part (var_X g)) (var_perm g)]
     @ map (\<lambda>A. Graph_laplacian A True) (var_graphs g)
     @ [Graph_plot_spectrum (var_L g),
        Models_cgcnn (var_L g) (var_params g),
        Model_fit model0 (var_X_train g) (var_y_train g) (var_X_val g) (var_y_val g),
        Plt_subplots, Ax1_plot (var_accuracy g), Ax1_set_ylabel ''validation accuracy'',
        Ax1_twinx, Ax2_plot (var_loss g), Ax2_set_ylabel ''training loss'', Plt_show,
        Print_time_per_step (var_t_step g * 1000),
        Model_evaluate (var_model g) (var_X_test g) (var_y_test g),
        Print_res (hd (var_res g))]"

subsection \<open>A concrete run\<close>

text \<open>
  Random draws in which row \<open>i\<close> of the matrix holds the number \<open>i\<close>, the weights are zero
  and the noise is zero but for the samples 0 and 5000; and a library whose objects are
  numbers and whose \<^verbatim>\<open>perm_data\<close> rotates every row by the permutation. The run of the
  script on them is \<open>demo_trace\<close> and ends with the variables \<open>demo_globals\<close>.
\<close>

definition demo_draws :: random_draws where
  "demo_draws =
     \<lparr>normal_X = (\<lambda>i j. real i), normal_w = (\<lambda>j. 0),
      normal_noise = (\<lambda>i. if i = 0 then 1 else if i = 5000 then - 1 else 0)\<rparr>"

definition demo_library :: "(nat, string) library" where
  "demo_library =
     \<lparr>distance_scipy_spatial = (\<lambda>X k metric. Inr (1, 2)),
      adjacency = (\<lambda>ds ix. Inr (ds + ix)),
      astype_float32 = (\<lambda>A. Inr A),
      shape = (\<lambda>A. [100, 100]),
      nnz = (\<lambda>A. 1200),
      coarsen = (\<lambda>A levels self_connections. Inr ([A, A + 1, A + 2, A + 3], 7)),
      perm_data = (\<lambda>X perm. Inr (map (rotate perm) X)),
      laplacian = (\<lambda>A normalized. Inr (A + 10)),
      plot_spectrum = (\<lambda>L. Inr ()),
      cgcnn = (\<lambda>L ps. Inr 20),
      fit = (\<lambda>model X_train y_train X_val y_val. Inr ((21, 22, 1 / 2), model + 1)),
      evaluate = (\<lambda>model X_test y_test. Inr [30]),
      display = (\<lambda>ev. Inr ())\<rparr>"

definition demo_row :: vector where
  "demo_row = np_repeat 20 (np_linspace 0 1 5)"

definition demo_X :: matrix where
  "demo_X = map (\<lambda>i. map2 (+) (replicate 100 (real i)) demo_row) [0..<10000]"

definition demo_t :: vector where
  "demo_t = tanh 1 # (replicate 4999 0 @ - tanh 1 # replicate 4999 0)"

definition demo_y :: labels where
  "demo_y = 0 # (replicate 4999 1 @ 2 # replicate 4999 1)"

definition demo_globals :: "nat globals" where
  "demo_globals =
     \<lparr>var_X = demo_X,
      var_w = replicate 100 0,
      var_t = demo_t,
      var_y = demo_y,
      var_X_train = map (rotate 7) (take 5000 demo_X),
      var_X_val = map (rotate 7) (take 1000 (drop 5000 demo_X)),
      var_X_test = map (rotate 7) (drop 6000 demo_X),
      var_y_train = 0 # replicate 4999 1,
      var_y_val = 2 # replicate 999 1,
      var_y_test = replicate 4000 1,
      var_dist = 1, var_idx = 2, var_A = 3,
      var_graphs = [3, 4, 5, 6], var_perm = 7, var_L = [13, 14, 15, 16],
      var_params = final_params 3, var_C = 3,
      var_model = 21, var_accuracy = 21, var_loss = 22, var_t_step = 1 / 2,
      var_res = [30]\<rparr>"

text \<open>The calls of the run up to the first assertion, and all of them.\<close>

definition demo_trace_graph :: "nat event list" where
  "demo_trace_graph =
     [Plt_figure, Plt_plot demo_t, Print_class_imbalance [1, 9998, 1],
      Graph_distance_scipy_spatial (transpose (take 5000 demo_X)) 10 ''euclidean'',
      Graph_adjacency 1 2, Astype_float32 3]"

definition demo_trace :: "nat event list" where
  "demo_trace =
     demo_trace_graph @
     [Print_graph_size 100 1200, Plt_spy 3,
      Coarsening_coarsen 3 3 False,
      Coarsening_perm_data (take 5000 demo_X) 7,
      Coarsening_perm_data (take 1000 (drop 5000 demo_X)) 7,
      Coarsening_perm_data (drop 6000 demo_X) 7,
      Graph_laplacian 3 True, Graph_laplacian 4 True, Graph_laplacian 5 True,
      Graph_laplacian 6 True, Graph_plot_spectrum [13, 14, 15, 16],
      Models_cgcnn [13, 14, 15, 16] (final_params 3),
      Model_fit 20 (map (rotate 7) (take 5000 demo_X)) (0 # replicate 4999 1)
        (map (rotate 7) (take 1000 (drop 5000 demo_X))) (2 # replicate 999 1),
      Plt_subplots, Ax1_plot 21, Ax1_set_ylabel ''validation accuracy'', Ax1_twinx,
      Ax2_plot 22, Ax2_set_ylabel ''training loss'', Plt_show,
      Print_time_per_step 500,
      Model_evaluate 21 (map (rotate 7) (drop 6000 demo_X)) (replicate 4000 1),
      Print_res 30]"

text \<open>
  Four more libraries: one whose \<^verbatim>\<open>coarsen\<close> raises, one whose matrices are not square,
  one whose \<^verbatim>\<open>print\<close> raises after the first assertion, and one whose \<^verbatim>\<open>evaluate\<close> returns
  an empty result.
\<close>

definition demo_library_raising :: "(nat, string) library" where
  "demo_library_raising =
     demo_library\<lparr>coarsen := (\<lambda>A levels self_connections. Inl ''MemoryError'')\<rparr>"

definition demo_library_bad_shape :: "(nat, string) library" where
  "demo_library_bad_shape = demo_library\<lparr>shape := (\<lambda>A. [100, 99])\<rparr>"

definition demo_library_print_raises :: "(nat, string) library" where
  "demo_library_print_raises =
     demo_library\<lparr>display := (\<lambda>ev.
        case ev of Print_graph_size k m \<Rightarrow> Inl ''BrokenPipeError'' | _ \<Rightarrow> Inr ())\<rparr>"

definition demo_library_empty_result :: "(nat, string) library" where
  "demo_library_empty_result = demo_library\<lparr>evaluate := (\<lambda>model X_test y_test. Inr [])\<rparr>"

text \<open>
  Draws that are all zero: every label is 1, so that \<open>C\<close> is 2 where one value occurs.
\<close>

definition demo_draws_flat :: random_draws where
  "demo_draws_flat =
     \<lparr>normal_X = (\<lambda>i j. 0), normal_w = (\<lambda>j. 0), normal_noise = (\<lambda>i. 0)\<rparr>"

subsection \<open>Renaming the permutation\<close>

text \<open>
  To say that a value is used in some calls and nowhere else, the library is changed so
  that \<^verbatim>\<open>coarsen\<close> hands out a renamed permutation and \<^verbatim>\<open>perm_data\<close> undoes the renaming
  before it works. A script that passed the permutation to any other function, or looked
  into it, would behave differently with the changed library.
\<close>

definition relabel_library :: "('v \<Rightarrow> 'v) \<Rightarrow> ('v \<Rightarrow> 'v) \<Rightarrow> ('v, 'x) library \<Rightarrow> ('v, 'x) library" where
  "relabel_library f g lib =
     lib\<lparr>coarsen := (\<lambda>A levels self_connections.
             case coarsen lib A levels self_connections of
               Inl x \<Rightarrow> Inl x
             | Inr (graphs, perm) \<Rightarrow> Inr (graphs, f perm)),
         perm_data := (\<lambda>X perm. perm_data lib X (g perm))\<rparr>"

definition relabel_event :: "('v \<Rightarrow> 'v) \<Rightarrow> 'v event \<Rightarrow> 'v event" where
  "relabel_event f ev =
     (case ev of Coarsening_perm_data X perm \<Rightarrow> Coarsening_perm_data X (f perm) | _ \<Rightarrow> ev)"

definition relabel_run :: "('v \<Rightarrow> 'v) \<Rightarrow> ('v, 'x, 'v globals) run \<Rightarrow> ('v, 'x, 'v globals) run" where
  "relabel_run f m =
     (map (relabel_event f) (fst m),
      case snd m of Inl e \<Rightarrow> Inl e | Inr gl \<Rightarrow> Inr (gl\<lparr>var_perm := f (var_perm gl)\<rparr>))"

section \<open>Properties\<close>

subsection \<open>Runs that return\<close>

lemma bind_run_Inr:
  "bind_run m f = (tr, Inr b) \<longleftrightarrow>
     (\<exists>tr1 a tr2. m = (tr1, Inr a) \<and> f a = (tr2, Inr b) \<and> tr = tr1 @ tr2)"
  by (auto simp: bind_run_def split: prod.splits sum.splits)

lemma call_Inr: "call ev res = (tr, Inr a) \<longleftrightarrow> tr = [ev] \<and> res = Inr a"
  by (auto simp: call_def split: sum.splits)

lemma emit_Inr: "emit lib ev = (tr, Inr u) \<longleftrightarrow> tr = [ev] \<and> display lib ev = Inr ()"
  by (auto simp: emit_def call_def split: sum.splits)

lemma py_assert_Inr: "py_assert a cond = (tr, Inr u) \<longleftrightarrow> tr = [] \<and> cond"
  by (auto simp: py_assert_def return_run_def raise_run_def)

lemma return_run_Inr: "return_run a = (tr, Inr b) \<longleftrightarrow> tr = [] \<and> a = b"
  by (auto simp: return_run_def)

lemma raise_run_Inr: "raise_run e \<noteq> (tr, Inr b)"
  by (auto simp: raise_run_def)

lemmas run_Inr = bind_run_Inr call_Inr emit_Inr py_assert_Inr return_run_Inr raise_run_Inr

lemma cell_data_Inr:
  "cell_data lib rnd = (tr, Inr (X, w, t, y)) \<longleftrightarrow>
     X = make_X rnd \<and> w = make_w rnd \<and> t = make_t rnd X w \<and> y = classify t \<and>
     tr = [Plt_figure, Plt_plot t, Print_class_imbalance (np_unique_counts y)] \<and>
     (\<forall>e\<in>set tr. display lib e = Inr ())"
  by (auto simp: cell_data_def Let_def run_Inr)

lemma cell_graph_Inr:
  "cell_graph lib X_train = (tr, Inr (dst, ix, A)) \<longleftrightarrow>
     (\<exists>A0. distance_scipy_spatial lib (transpose X_train) 10 ''euclidean'' = Inr (dst, ix) \<and>
        adjacency lib dst ix = Inr A0 \<and> astype_float32 lib A0 = Inr A \<and>
        shape lib A = [d, d] \<and>
        display lib (Print_graph_size d (nnz lib A)) = Inr () \<and> display lib (Plt_spy A) = Inr () \<and>
        tr = [Graph_distance_scipy_spatial (transpose X_train) 10 ''euclidean'',
              Graph_adjacency dst ix, Astype_float32 A0,
              Print_graph_size d (nnz lib A), Plt_spy A])"
  by (auto simp: cell_graph_def run_Inr)

lemma cell_coarsen_Inr:
  "cell_coarsen lib A X1 X2 X3 = (tr, Inr (graphs, perm, X1', X2', X3')) \<longleftrightarrow>
     coarsen lib A 3 False = Inr (graphs, perm) \<and>
     perm_data lib X1 perm = Inr X1' \<and> perm_data lib X2 perm = Inr X2' \<and>
     perm_data lib X3 perm = Inr X3' \<and>
     tr = [Coarsening_coarsen A 3 False, Coarsening_perm_data X1 perm,
           Coarsening_perm_data X2 perm, Coarsening_perm_data X3 perm]"
  by (auto simp: cell_coarsen_def run_Inr)

lemma laplacians_Inr:
  "laplacians lib graphs = (tr, Inr L) \<longleftrightarrow>
     map (\<lambda>A. laplacian lib A True) graphs = map Inr L \<and>
     tr = map (\<lambda>A. Graph_laplacian A True) graphs"
proof (induction graphs arbitrary: tr L)
  case Nil
  then show ?case by (auto simp: run_Inr)
next
  case (Cons A graphs)
  show ?case
    by (cases L) (auto simp: run_Inr Cons.IH)
qed

lemma cell_laplacian_Inr:
  "cell_laplacian lib graphs = (tr, Inr L) \<longleftrightarrow>
     map (\<lambda>A. laplacian lib A True) graphs = map Inr L \<and>
     plot_spectrum lib L = Inr () \<and>
     tr = map (\<lambda>A. Graph_laplacian A True) graphs @ [Graph_plot_spectrum L]"
  by (auto simp: cell_laplacian_def run_Inr laplacians_Inr)

lemma y_max_Inr: "y_max y = (tr, Inr m) \<longleftrightarrow> tr = [] \<and> y \<noteq> [] \<and> m = Max (set y)"
  by (auto simp: y_max_def run_Inr)

lemma cell_params_Inr:
  "cell_params y = (tr, Inr (ps, C)) \<longleftrightarrow>
     y \<noteq> [] \<and> C = uint (Max (set y)) + 1 \<and> C = int (length (np_unique y)) \<and>
     ps = final_params C \<and> tr = []"
  by (auto simp: cell_params_def Let_def run_Inr y_max_Inr decay_steps_def dict_get_def
        final_params_def n_train_def n_def)

lemma cell_fit_Inr:
  "cell_fit lib L ps X1 y1 X2 y2 = (tr, Inr (model, accuracy, loss, t_step)) \<longleftrightarrow>
     (\<exists>model0. cgcnn lib L ps = Inr model0 \<and>
        fit lib model0 X1 y1 X2 y2 = Inr ((accuracy, loss, t_step), model) \<and>
        tr = [Models_cgcnn L ps, Model_fit model0 X1 y1 X2 y2])"
  by (auto simp: cell_fit_def run_Inr)

lemma cell_plot_Inr:
  "cell_plot lib accuracy loss = (tr, Inr u) \<longleftrightarrow>
     tr = [Plt_subplots, Ax1_plot accuracy, Ax1_set_ylabel ''validation accuracy'', Ax1_twinx,
           Ax2_plot loss, Ax2_set_ylabel ''training loss'', Plt_show] \<and>
     (\<forall>e\<in>set tr. display lib e = Inr ())"
  by (auto simp: cell_plot_def run_Inr)

lemma cell_time_Inr:
  "cell_time lib t_step = (tr, Inr u) \<longleftrightarrow>
     tr = [Print_time_per_step (t_step * 1000)] \<and>
     display lib (Print_time_per_step (t_step * 1000)) = Inr ()"
  by (auto simp: cell_time_def run_Inr)

lemma cell_evaluate_Inr:
  "cell_evaluate lib model X3 y3 = (tr, Inr res) \<longleftrightarrow>
     evaluate lib model X3 y3 = Inr res \<and> res \<noteq> [] \<and>
     display lib (Print_res (hd res)) = Inr () \<and>
     tr = [Model_evaluate model X3 y3, Print_res (hd res)]"
proof (cases "evaluate lib model X3 y3")
  case (Inl x)
  then show ?thesis
    by (simp add: cell_evaluate_def bind_run_def call_def)
next
  case (Inr r)
  then show ?thesis
    by (cases r)
      (auto simp: cell_evaluate_def bind_run_def call_def emit_def return_run_def raise_run_def
        split: sum.splits)
qed

lemmas cell_Inr = cell_data_Inr cell_graph_Inr cell_coarsen_Inr cell_laplacian_Inr
  cell_params_Inr cell_fit_Inr cell_plot_Inr cell_time_Inr cell_evaluate_Inr

lemma script_Inr:
  assumes "script lib rnd = (tr, Inr g)"
  shows "\<exists>A0 model0.
     var_X g = make_X rnd \<and> var_w g = make_w rnd \<and>
     var_t g = make_t rnd (var_X g) (var_w g) \<and> var_y g = classify (var_t g) \<and>
     var_y_train g = train_part (var_y g) \<and> var_y_val g = val_part (var_y g) \<and>
     var_y_test g = test_part (var_y g) \<and>
     distance_scipy_spatial lib (transpose (train_part (var_X g))) 10 ''euclidean''
       = Inr (var_dist g, var_idx g) \<and>
     adjacency lib (var_dist g) (var_idx g) = Inr A0 \<and>
     astype_float32 lib A0 = Inr (var_A g) \<and>
     shape lib (var_A g) = [d, d] \<and>
     coarsen lib (var_A g) 3 False = Inr (var_graphs g, var_perm g) \<and>
     perm_data lib (train_part (var_X g)) (var_perm g) = Inr (var_X_train g) \<and>
     perm_data lib (val_part (var_X g)) (var_perm g) = Inr (var_X_val g) \<and>
     perm_data lib (test_part (var_X g)) (var_perm g) = Inr (var_X_test g) \<and>
     map (\<lambda>A. laplacian lib A True) (var_graphs g) = map Inr (var_L g) \<and>
     plot_spectrum lib (var_L g) = Inr () \<and>
     var_y g \<noteq> [] \<and> var_C g = uint (Max (set (var_y g))) + 1 \<and>
     var_C g = int (length (np_unique (var_y g))) \<and>
     var_params g = final_params (var_C g) \<and>
     cgcnn lib (var_L g) (var_params g) = Inr model0 \<and>
     fit lib model0 (var_X_train g) (var_y_train g) (var_X_val g) (var_y_val g)
       = Inr ((var_accuracy g, var_loss g, var_t_step g), var_model g) \<and>
     evaluate lib (var_model g) (var_X_test g) (var_y_test g) = Inr (var_res g) \<and>
     var_res g \<noteq> [] \<and>
     tr = complete_trace lib g A0 model0"
  using assms
  unfolding script_def Let_def
  by (clarsimp simp: bind_run_Inr return_run_Inr cell_Inr complete_trace_def)

lemma length_np_linspace: "length (np_linspace a b k) = k"
  by (simp add: np_linspace_def)

lemma length_np_repeat: "length (np_repeat k xs) = k * length xs"
  by (induction xs) (simp_all add: np_repeat_def)

lemma length_add_to_rows: "length (add_to_rows X v) = length X"
  by (simp add: add_to_rows_def)

lemma length_draw_matrix: "length (draw_matrix f rows cols) = rows"
  by (simp add: draw_matrix_def)

lemma length_make_X: "length (make_X rnd) = n"
  by (simp add: make_X_def length_add_to_rows length_draw_matrix)

lemma length_make_t: "length (make_t rnd (make_X rnd) w) = n"
  by (simp add: make_t_def dot_def draw_vector_def length_make_X)

lemma length_mask_assign: "length (mask_assign bs v ys) = min (length bs) (length ys)"
  by (simp add: mask_assign_def)

lemma nth_mask_assign:
  "i < length bs \<Longrightarrow> i < length ys \<Longrightarrow>
     mask_assign bs v ys ! i = (if bs ! i then v else ys ! i)"
  by (simp add: mask_assign_def)

lemma length_threshold_labels: "length (threshold_labels hi lo t) = length t"
  by (simp add: threshold_labels_def Let_def length_mask_assign)

lemma nth_threshold_labels:
  "i < length t \<Longrightarrow>
     threshold_labels hi lo t ! i = (if t ! i < lo then 2 else if t ! i > hi then 0 else 1)"
  by (simp add: threshold_labels_def Let_def length_mask_assign nth_mask_assign)

lemma length_classify: "length (classify t) = length t"
  by (simp add: classify_def length_threshold_labels)

lemma nth_classify:
  "i < length t \<Longrightarrow>
     classify t ! i =
       (if t ! i < np_mean t - 0.4 * np_std t then 2
        else if t ! i > np_mean t + 0.4 * np_std t then 0 else 1)"
  by (simp add: classify_def nth_threshold_labels)

lemma np_std_nonneg: "0 \<le> np_std t"
  by (auto simp: np_std_def np_mean_def intro!: divide_nonneg_nonneg sum_list_nonneg)

lemma length_np_unique: "length (np_unique y) = card (set y)"
  by (simp add: np_unique_def)

lemma unat_image_interval: "unat ` {0..m::8 word} = {0..unat m}"
proof (intro equalityI subsetI)
  fix k assume "k \<in> unat ` {0..m}"
  then show "k \<in> {0..unat m}" by (auto simp: word_le_nat_alt)
next
  fix k assume k: "k \<in> {0..unat m}"
  then have "k \<le> unat m" by simp
  then have u: "unat (of_nat k :: 8 word) = k" by (rule le_unat_uoi)
  with k have "(of_nat k :: 8 word) \<le> m" by (simp add: word_le_nat_alt)
  with u show "k \<in> unat ` {0..m}" by (metis atLeastAtMost_iff image_eqI word_zero_le)
qed

lemma class_count_iff:
  assumes "y \<noteq> []"
  shows "uint (Max (set y)) + 1 = int (length (np_unique y)) \<longleftrightarrow> set y = {0..Max (set y)}"
proof -
  let ?S = "set y" and ?m = "Max (set y)"
  have fin: "finite ?S" and ne: "?S \<noteq> {}" using assms by auto
  have sub: "?S \<subseteq> {0..?m}" using fin by auto
  have card_img: "card (unat ` ?S) = card ?S"
    by (rule card_image) (rule inj_on_subset [OF inj_unsigned subset_UNIV])
  have lhs: "uint ?m + 1 = int (length (np_unique y)) \<longleftrightarrow> card ?S = unat ?m + 1"
  proof -
    have "uint ?m + 1 = int (unat ?m + 1)" by simp
    then show ?thesis by (simp only: length_np_unique of_nat_eq_iff) (rule eq_commute)
  qed
  show ?thesis
  proof
    assume "uint ?m + 1 = int (length (np_unique y))"
    with lhs card_img have "card (unat ` ?S) = card {0..unat ?m}" by simp
    moreover have "unat ` ?S \<subseteq> {0..unat ?m}"
      using sub unat_image_interval [of ?m] by blast
    ultimately have "unat ` ?S = {0..unat ?m}"
      by (intro card_subset_eq) auto
    with unat_image_interval [of ?m] have "unat ` ?S = unat ` {0..?m}" by simp
    then show "?S = {0..?m}" by (simp add: inj_image_eq_iff)
  next
    assume eq: "?S = {0..?m}"
    have "card ?S = card (unat ` {0..?m})" using card_img eq by simp
    then have "card ?S = unat ?m + 1" by (simp add: unat_image_interval)
    with lhs show "uint ?m + 1 = int (length (np_unique y))" by simp
  qed
qed

lemma map2_add_replicate_zero:
  "length v = k \<Longrightarrow> map2 (+) (replicate k (0::real)) v = v"
  by (simp add: list_eq_iff_nth_eq)

lemma sum_map2_mult_zero: "sum_list (map2 (*) v (replicate k (0::real))) = 0"
proof -
  have "map2 (*) v (replicate k (0::real)) = replicate (min (length v) k) 0"
    by (simp add: list_eq_iff_nth_eq)
  then show ?thesis by (simp add: sum_list_replicate)
qed

lemma dot_zero: "dot X (replicate k 0) = replicate (length X) 0"
  by (simp add: dot_def sum_map2_mult_zero map_replicate_const)

lemma length_demo_row: "length demo_row = 100"
  by (simp add: demo_row_def length_np_repeat length_np_linspace)

lemma add_to_rows_draw:
  "add_to_rows (draw_matrix (\<lambda>i j. real i) k m) v
     = map (\<lambda>i. map2 (+) (replicate m (real i)) v) [0..<k]"
  by (simp add: add_to_rows_def draw_matrix_def map_replicate_const o_def)

lemma make_X_demo: "make_X demo_draws = demo_X"
proof -
  have "np_repeat (d div c) (np_linspace 0 1 c) = demo_row"
    by (simp add: demo_row_def d_def c_def)
  then have "make_X demo_draws = map (\<lambda>i. map2 (+) (replicate d (real i)) demo_row) [0..<n]"
    by (simp add: make_X_def demo_draws_def add_to_rows_draw)
  then show ?thesis
    unfolding demo_X_def n_def d_def .
qed

lemma length_demo_X: "length demo_X = 10000"
  using length_make_X [of demo_draws] unfolding make_X_demo n_def .

lemma make_w_demo: "make_w demo_draws = replicate 100 0"
  by (simp add: make_w_def demo_draws_def draw_vector_def map_replicate_const d_def)

lemma draw_noise_general:
  "draw_vector (\<lambda>i. if i = 0 then 1 else if i = Suc k then - 1 else 0) (Suc (Suc (k + m)))
     = 1 # (replicate k 0 @ - 1 # replicate m 0)"
  by (auto simp: draw_vector_def list_eq_iff_nth_eq nth_Cons nth_append split: nat.splits)

lemma draw_noise_demo:
  "draw_vector (normal_noise demo_draws) n = 1 # (replicate 4999 0 @ - 1 # replicate 4999 0)"
proof -
  have "(5000::nat) = Suc 4999" by simp
  then have f: "normal_noise demo_draws = (\<lambda>i. if i = 0 then 1 else if i = Suc 4999 then - 1 else 0)"
    by (simp only: demo_draws_def random_draws.select_convs)
  have k: "n = Suc (Suc (4999 + 4999))" by (simp add: n_def)
  show ?thesis unfolding f k by (rule draw_noise_general)
qed

lemma make_t_demo: "make_t demo_draws demo_X (replicate 100 0) = demo_t"
proof -
  have "dot demo_X (replicate 100 0) = replicate 10000 0"
    by (simp add: dot_zero length_demo_X)
  moreover have "map2 (+) (replicate 10000 (0::real)) (1 # (replicate 4999 0 @ - 1 # replicate 4999 0))
      = 1 # (replicate 4999 0 @ - 1 # replicate 4999 0)"
    by (rule map2_add_replicate_zero) simp
  ultimately show ?thesis
    by (simp add: make_t_def draw_noise_demo demo_t_def)
qed

lemma classify_map:
  "classify t =
     map (\<lambda>x. if x < np_mean t - 0.4 * np_std t then 2
               else if x > np_mean t + 0.4 * np_std t then 0 else 1) t"
  by (simp add: list_eq_iff_nth_eq length_classify nth_classify)

lemma classify_spike:
  assumes "0 < a"
  shows "classify (a # (replicate k 0 @ - a # replicate m 0))
     = 0 # (replicate k 1 @ 2 # replicate m 1)"
proof -
  let ?t = "a # (replicate k 0 @ - a # replicate m 0)"
  have mean: "np_mean ?t = 0"
    by (simp add: np_mean_def sum_list_replicate)
  have "np_mean (map (\<lambda>x. (x - np_mean ?t)\<^sup>2) ?t) = 2 * a\<^sup>2 / (real k + real m + 2)"
    unfolding mean by (simp add: np_mean_def sum_list_replicate)
  also have "\<dots> \<le> 2 * a\<^sup>2 / 2"
    by (rule divide_left_mono) simp_all
  finally have "np_mean (map (\<lambda>x. (x - np_mean ?t)\<^sup>2) ?t) \<le> a\<^sup>2" by simp
  then have "np_std ?t \<le> sqrt (a\<^sup>2)"
    unfolding np_std_def by (rule real_sqrt_le_mono)
  with assms have hi: "np_std ?t \<le> a" by simp
  have lo: "0 \<le> np_std ?t" by (rule np_std_nonneg)
  show ?thesis
    using hi lo assms
    by (subst classify_map) (simp only: mean, simp)
qed

lemma classify_demo: "classify demo_t = demo_y"
  unfolding demo_t_def demo_y_def by (rule classify_spike) simp

lemma np_unique_demo: "np_unique demo_y = [0, 1, 2]"
  by (simp add: np_unique_def demo_y_def insert_commute)

lemma count_list_replicate: "count_list (replicate k x) y = (if x = y then k else 0)"
  by (induction k) auto

lemma count_list_app: "count_list (xs @ ys) x = count_list xs x + count_list ys x"
  by (induction xs) auto

lemma np_unique_counts_demo: "np_unique_counts demo_y = [1, 9998, 1]"
  by (simp add: np_unique_counts_def np_unique_demo)
    (simp add: demo_y_def count_list_replicate count_list_app)

lemma split_parts:
  "train_part xs = take 5000 xs"
  "val_part xs = take 1000 (drop 5000 xs)"
  "test_part xs = drop 6000 xs"
  by (simp_all add: train_part_def val_part_def test_part_def slice_def n_train_def n_val_def
        n_def)

lemma split_y_demo:
  "train_part demo_y = 0 # replicate 4999 1"
  "val_part demo_y = 2 # replicate 999 1"
  "test_part demo_y = replicate 4000 1"
  by (simp_all add: split_parts demo_y_def)

lemma cell_data_demo:
  assumes "display lib Plt_figure = Inr ()" "display lib (Plt_plot demo_t) = Inr ()"
    "display lib (Print_class_imbalance [1, 9998, 1]) = Inr ()"
  shows "cell_data lib demo_draws =
     ([Plt_figure, Plt_plot demo_t, Print_class_imbalance [1, 9998, 1]],
      Inr (demo_X, replicate 100 0, demo_t, demo_y))"
  using assms
  by (simp add: cell_data_Inr make_X_demo make_w_demo make_t_demo classify_demo
        np_unique_counts_demo)

lemma cell_graph_demo:
  assumes "distance_scipy_spatial lib = distance_scipy_spatial demo_library"
    "adjacency lib = adjacency demo_library" "astype_float32 lib = astype_float32 demo_library"
    "shape lib = shape demo_library" "nnz lib = nnz demo_library"
    "display lib = display demo_library"
  shows "cell_graph lib X =
     ([Graph_distance_scipy_spatial (transpose X) 10 ''euclidean'',
       Graph_adjacency 1 2, Astype_float32 3, Print_graph_size 100 1200, Plt_spy 3],
      Inr (1, 2, 3))"
  by (simp add: cell_graph_Inr assms demo_library_def d_def)

lemma cell_coarsen_demo:
  assumes "coarsen lib = coarsen demo_library" "perm_data lib = perm_data demo_library"
  shows "cell_coarsen lib 3 X1 X2 X3 =
     ([Coarsening_coarsen 3 3 False, Coarsening_perm_data X1 7,
       Coarsening_perm_data X2 7, Coarsening_perm_data X3 7],
      Inr ([3, 4, 5, 6], 7, map (rotate 7) X1, map (rotate 7) X2, map (rotate 7) X3))"
  by (simp add: cell_coarsen_Inr assms demo_library_def)

lemma cell_laplacian_demo:
  assumes "laplacian lib = laplacian demo_library"
    "plot_spectrum lib = plot_spectrum demo_library"
  shows "cell_laplacian lib [3, 4, 5, 6] =
     ([Graph_laplacian 3 True, Graph_laplacian 4 True, Graph_laplacian 5 True,
       Graph_laplacian 6 True, Graph_plot_spectrum [13, 14, 15, 16]],
      Inr [13, 14, 15, 16])"
  by (simp add: cell_laplacian_Inr assms demo_library_def)

lemma cell_params_demo: "cell_params demo_y = ([], Inr (final_params 3, 3))"
  by (simp add: cell_params_Inr np_unique_demo) (simp add: demo_y_def)

lemma cell_fit_demo:
  assumes "cgcnn lib = cgcnn demo_library" "fit lib = fit demo_library"
  shows "cell_fit lib L ps X1 y1 X2 y2 =
     ([Models_cgcnn L ps, Model_fit 20 X1 y1 X2 y2], Inr (21, 21, 22, 1 / 2))"
  by (simp add: cell_fit_Inr assms demo_library_def)

lemma cell_plot_demo:
  assumes "display lib = display demo_library"
  shows "cell_plot lib accuracy loss =
     ([Plt_subplots, Ax1_plot accuracy, Ax1_set_ylabel ''validation accuracy'', Ax1_twinx,
       Ax2_plot loss, Ax2_set_ylabel ''training loss'', Plt_show], Inr ())"
  by (simp add: cell_plot_Inr assms demo_library_def)

lemma cell_time_demo:
  assumes "display lib = display demo_library"
  shows "cell_time lib t_step = ([Print_time_per_step (t_step * 1000)], Inr ())"
  by (simp add: cell_time_Inr assms demo_library_def)

lemma cell_evaluate_demo:
  assumes "evaluate lib = evaluate demo_library" "display lib = display demo_library"
  shows "cell_evaluate lib model X3 y3 =
     ([Model_evaluate model X3 y3, Print_res 30], Inr [30])"
  by (simp add: cell_evaluate_Inr assms demo_library_def)

lemmas cell_demo = cell_graph_demo cell_coarsen_demo cell_laplacian_demo cell_params_demo
  cell_fit_demo cell_plot_demo cell_time_demo cell_evaluate_demo

lemma script_demo: "script demo_library demo_draws = (demo_trace, Inr demo_globals)"
proof -
  have "cell_data demo_library demo_draws =
     ([Plt_figure, Plt_plot demo_t, Print_class_imbalance [1, 9998, 1]],
      Inr (demo_X, replicate 100 0, demo_t, demo_y))"
    by (rule cell_data_demo) (simp_all add: demo_library_def)
  then show ?thesis
    unfolding script_def Let_def
    by (simp add: split_parts(1,2,3) [of demo_X] split_y_demo cell_demo bind_run_def
        return_run_def demo_trace_def demo_trace_graph_def demo_globals_def)
qed

subsection \<open>The calls and the result of a run\<close>

lemma fst_bind_run:
  "fst (bind_run m f) = fst m @ (case snd m of Inl e \<Rightarrow> [] | Inr a \<Rightarrow> fst (f a))"
  by (auto simp: bind_run_def split: prod.splits sum.splits)

lemma snd_bind_run:
  "snd (bind_run m f) = (case snd m of Inl e \<Rightarrow> Inl e | Inr a \<Rightarrow> snd (f a))"
  by (auto simp: bind_run_def split: prod.splits sum.splits)

lemma fst_snd_basic:
  "fst (call ev r) = [ev]"
  "snd (call ev r) = (case r of Inl x \<Rightarrow> Inl (Raised x) | Inr a \<Rightarrow> Inr a)"
  "fst (emit lib ev) = [ev]"
  "snd (emit lib ev) = (case display lib ev of Inl x \<Rightarrow> Inl (Raised x) | Inr a \<Rightarrow> Inr a)"
  "fst (py_assert a b) = []"
  "snd (py_assert a b) = (if b then Inr () else Inl (AssertionError a))"
  "fst (return_run v) = []" "snd (return_run v) = Inr v"
  "fst (raise_run e) = []" "snd (raise_run e) = Inl e"
  by (simp_all add: call_def emit_def py_assert_def return_run_def raise_run_def)

lemmas run_proj = fst_bind_run snd_bind_run fst_snd_basic

lemma laplacians_events:
  "e \<in> set (fst (laplacians lib gs)) \<Longrightarrow> \<exists>A. e = Graph_laplacian A True"
  by (induction gs) (auto simp: run_proj split: sum.splits)

lemma follows_bind:
  assumes "follows m ks1" and "\<And>a. snd m = Inr a \<Longrightarrow> follows (f a) ks2"
  shows "follows (bind_run m f) (ks1 @ ks2)"
proof (cases "snd m")
  case (Inl e)
  with assms(1) show ?thesis
    by (simp add: follows_def run_proj)
next
  case (Inr a)
  from assms(1) Inr have 1: "map callee (fst m) = ks1" by (simp add: follows_def)
  from assms(2) [OF Inr] have 2: "follows (f a) ks2" .
  show ?thesis
  proof (cases "snd (f a)")
    case (Inl e)
    with 1 2 Inr show ?thesis by (simp add: follows_def run_proj)
  next
    case (Inr b)
    with 1 2 \<open>snd m = Inr a\<close> show ?thesis by (simp add: follows_def run_proj)
  qed
qed

lemma follows_call: "callee ev = k \<Longrightarrow> follows (call ev r) [k]"
  by (simp add: follows_def run_proj split: sum.splits)

lemma follows_emit: "callee ev = k \<Longrightarrow> follows (emit lib ev) [k]"
  by (simp add: follows_def run_proj split: sum.splits)

lemma follows_nil:
  "follows (return_run a) []" "follows (raise_run e) []" "follows (py_assert as b) []"
  by (simp_all add: follows_def run_proj)

lemma follows_bind_nil:
  assumes "follows m []" and "\<And>a. snd m = Inr a \<Longrightarrow> follows (f a) ks"
  shows "follows (bind_run m f) ks"
  using follows_bind [OF assms] by simp

lemma follows_bind_one:
  assumes "follows m [k]" and "\<And>a. snd m = Inr a \<Longrightarrow> follows (f a) ks"
  shows "follows (bind_run m f) (k # ks)"
  using follows_bind [OF assms] by simp

lemma follows_bind_last:
  assumes "follows m [k]" and "\<And>a. snd m = Inr a \<Longrightarrow> follows (f a) []"
  shows "follows (bind_run m f) [k]"
  using follows_bind [OF assms] by simp

lemma follows_cell_data: "follows (cell_data lib rnd) steps_data"
  unfolding cell_data_def Let_def steps_data_def
  by (intro follows_bind_one follows_emit follows_nil) simp_all

lemma follows_cell_graph: "follows (cell_graph lib X) steps_graph"
  unfolding cell_graph_def steps_graph_def
  apply (rule follows_bind_one, rule follows_call, simp, clarsimp)
  apply (rule follows_bind_one, rule follows_call, simp)
  apply (rule follows_bind_one, rule follows_call, simp)
  apply (rule follows_bind_nil, rule follows_nil)
  apply (rule follows_bind_one, rule follows_emit, simp)
  apply (rule follows_bind_last, rule follows_emit, simp)
  apply (rule follows_nil)
  done

subsection \<open>The labels\<close>

text \<open>
  Claim C9. After lines 73--75, every sample \<open>i\<close> has label 0 if \<open>t[i]\<close> is above
  \<open>mean + 0.4 std\<close>, label 2 if it is below \<open>mean - 0.4 std\<close>, and label 1 otherwise. The
  standard deviation is not negative, so a sample is never above the first bound and
  below the second: exactly one rule applies, and every label is 0, 1 or 2. The three
  rules need of the two bounds only that the lower one is not above the upper one, which
  rounded sums and differences keep.
\<close>

theorem classify_thresholds:
  "length (classify t) = length t \<and> 0 \<le> np_std t \<and>
   (\<forall>i<length t.
      (np_mean t + 0.4 * np_std t < t ! i \<longrightarrow> classify t ! i = 0) \<and>
      (t ! i < np_mean t - 0.4 * np_std t \<longrightarrow> classify t ! i = 2) \<and>
      (\<not> np_mean t + 0.4 * np_std t < t ! i \<and> \<not> t ! i < np_mean t - 0.4 * np_std t
         \<longrightarrow> classify t ! i = 1) \<and>
      \<not> (np_mean t + 0.4 * np_std t < t ! i \<and> t ! i < np_mean t - 0.4 * np_std t) \<and>
      classify t ! i \<in> {0, 1, 2}) \<and>
   (lo \<le> hi \<longrightarrow>
      (\<forall>i<length t.
         (hi < t ! i \<longrightarrow> threshold_labels hi lo t ! i = 0) \<and>
         (t ! i < lo \<longrightarrow> threshold_labels hi lo t ! i = 2) \<and>
         (\<not> hi < t ! i \<and> \<not> t ! i < lo \<longrightarrow> threshold_labels hi lo t ! i = 1)))"
proof -
  have s: "0 \<le> np_std t" by (rule np_std_nonneg)
  have "\<not> (np_mean t + 0.4 * np_std t < x \<and> x < np_mean t - 0.4 * np_std t)" for x
    using s by linarith
  with s have 1: "length (classify t) = length t \<and> 0 \<le> np_std t \<and>
   (\<forall>i<length t.
      (np_mean t + 0.4 * np_std t < t ! i \<longrightarrow> classify t ! i = 0) \<and>
      (t ! i < np_mean t - 0.4 * np_std t \<longrightarrow> classify t ! i = 2) \<and>
      (\<not> np_mean t + 0.4 * np_std t < t ! i \<and> \<not> t ! i < np_mean t - 0.4 * np_std t
         \<longrightarrow> classify t ! i = 1) \<and>
      \<not> (np_mean t + 0.4 * np_std t < t ! i \<and> t ! i < np_mean t - 0.4 * np_std t) \<and>
      classify t ! i \<in> {0, 1, 2})"
    by (auto simp: length_classify nth_classify)
  have 2: "lo \<le> hi \<longrightarrow>
      (\<forall>i<length t.
         (hi < t ! i \<longrightarrow> threshold_labels hi lo t ! i = 0) \<and>
         (t ! i < lo \<longrightarrow> threshold_labels hi lo t ! i = 2) \<and>
         (\<not> hi < t ! i \<and> \<not> t ! i < lo \<longrightarrow> threshold_labels hi lo t ! i = 1))"
    by (auto simp: nth_threshold_labels)
  from 1 2 show ?thesis by blast
qed

theorem classify_thresholds_witness:
  "np_mean [2, - 2, 0, 0, 0, 0, 0, 0] = 0 \<and> np_std [2, - 2, 0, 0, 0, 0, 0, 0] = 1 \<and>
   classify [2, - 2, 0, 0, 0, 0, 0, 0] ! 0 = 0 \<and>
   classify [2, - 2, 0, 0, 0, 0, 0, 0] ! 1 = 2 \<and>
   classify [2, - 2, 0, 0, 0, 0, 0, 0] ! 2 = 1 \<and>
   threshold_labels (1 / 2) (- 1 / 2) [2, - 2, 0] ! 0 = 0 \<and>
   threshold_labels (1 / 2) (- 1 / 2) [2, - 2, 0] ! 1 = 2 \<and>
   threshold_labels (1 / 2) (- 1 / 2) [2, - 2, 0] ! 2 = 1"
proof -
  let ?t = "[2, - 2, 0, 0, 0, 0, 0, 0] :: real list"
  have m: "np_mean ?t = 0" by (simp add: np_mean_def)
  have s: "np_std ?t = 1" by (simp add: np_std_def np_mean_def)
  have all: "\<forall>i<length ?t.
      (np_mean ?t + 0.4 * np_std ?t < ?t ! i \<longrightarrow> classify ?t ! i = 0) \<and>
      (?t ! i < np_mean ?t - 0.4 * np_std ?t \<longrightarrow> classify ?t ! i = 2) \<and>
      (\<not> np_mean ?t + 0.4 * np_std ?t < ?t ! i \<and> \<not> ?t ! i < np_mean ?t - 0.4 * np_std ?t
         \<longrightarrow> classify ?t ! i = 1)"
    using classify_thresholds [of ?t] by blast
  have "classify ?t ! 0 = 0" using all [rule_format, of 0] by (simp add: m s)
  moreover have "classify ?t ! 1 = 2" using all [rule_format, of 1] by (simp add: m s)
  moreover have "classify ?t ! 2 = 1" using all [rule_format, of 2] by (simp add: m s)
  moreover have th: "\<forall>i<length [2, - 2, 0 :: real].
         (1 / 2 < [2, - 2, 0 :: real] ! i \<longrightarrow>
            threshold_labels (1 / 2) (- 1 / 2) [2, - 2, 0] ! i = 0) \<and>
         ([2, - 2, 0 :: real] ! i < - 1 / 2 \<longrightarrow>
            threshold_labels (1 / 2) (- 1 / 2) [2, - 2, 0] ! i = 2) \<and>
         (\<not> 1 / 2 < [2, - 2, 0 :: real] ! i \<and> \<not> [2, - 2, 0 :: real] ! i < - 1 / 2 \<longrightarrow>
            threshold_labels (1 / 2) (- 1 / 2) [2, - 2, 0] ! i = 1)"
    using classify_thresholds [of "[2, - 2, 0]" "- 1 / 2" "1 / 2"] by simp
  moreover have "threshold_labels (1 / 2) (- 1 / 2) [2, - 2, 0] ! 0 = 0"
    using th [rule_format, of 0] by simp
  moreover have "threshold_labels (1 / 2) (- 1 / 2) [2, - 2, 0] ! 1 = 2"
    using th [rule_format, of 1] by simp
  moreover have "threshold_labels (1 / 2) (- 1 / 2) [2, - 2, 0] ! 2 = 1"
    using th [rule_format, of 2] by simp
  ultimately show ?thesis using m s by simp
qed

subsection \<open>The number of classes\<close>

lemma cell_params_fail:
  assumes "y \<noteq> []" and "uint (Max (set y)) + 1 \<noteq> int (length (np_unique y))"
  shows "cell_params y = ([], Inl (AssertionError Class_count_assertion))"
  using assms
  by (simp add: cell_params_def Let_def y_max_def bind_run_def return_run_def raise_run_def
      py_assert_def)

text \<open>
  Claim C10. \<open>C\<close> is \<^verbatim>\<open>y.max() + 1\<close>. For a non-empty label array the assertion
  \<^verbatim>\<open>C == np.unique(y).size\<close> holds exactly when the labels that occur are all of
  \<open>0, ..., y.max()\<close>. Cell 7 ends with an \<^verbatim>\<open>AssertionError\<close> otherwise, in particular
  whenever label 0 does not occur (labels 1 and 2 alone give \<open>C = 3\<close> and two distinct
  values). So when cell 7 returns, and when the whole script does, the labels are a
  range that starts at 0.
\<close>

theorem class_count_assertion:
  fixes lib :: "('v, 'x) library"
  shows
  "(y \<noteq> [] \<longrightarrow>
      (uint (Max (set y)) + 1 = int (length (np_unique y)) \<longleftrightarrow> set y = {0..Max (set y)})) \<and>
   (y \<noteq> [] \<and> set y \<noteq> {0..Max (set y)} \<longrightarrow>
      (cell_params y :: ('v, 'x, params \<times> int) run)
        = ([], Inl (AssertionError Class_count_assertion))) \<and>
   (y \<noteq> [] \<and> 0 \<notin> set y \<longrightarrow>
      (cell_params y :: ('v, 'x, params \<times> int) run)
        = ([], Inl (AssertionError Class_count_assertion))) \<and>
   (\<forall>tr ps C. (cell_params y :: ('v, 'x, params \<times> int) run) = (tr, Inr (ps, C)) \<longrightarrow>
      C = uint (Max (set y)) + 1 \<and> set y = {0..Max (set y)}) \<and>
   (\<forall>tr g. script lib rnd = (tr, Inr g) \<longrightarrow>
      var_C g = uint (Max (set (var_y g))) + 1 \<and>
      set (var_y g) = {0..Max (set (var_y g))})"
proof (intro conjI impI allI)
  assume "y \<noteq> []"
  then show "uint (Max (set y)) + 1 = int (length (np_unique y)) \<longleftrightarrow> set y = {0..Max (set y)}"
    by (rule class_count_iff)
next
  assume "y \<noteq> [] \<and> set y \<noteq> {0..Max (set y)}"
  then show "(cell_params y :: ('v, 'x, params \<times> int) run)
      = ([], Inl (AssertionError Class_count_assertion))"
    by (simp add: cell_params_fail class_count_iff)
next
  assume a: "y \<noteq> [] \<and> 0 \<notin> set y"
  then have "set y \<noteq> {0..Max (set y)}" by (metis atLeastAtMost_iff word_zero_le)
  with a show "(cell_params y :: ('v, 'x, params \<times> int) run)
      = ([], Inl (AssertionError Class_count_assertion))"
    by (simp add: cell_params_fail class_count_iff)
next
  fix tr ps C
  assume "(cell_params y :: ('v, 'x, params \<times> int) run) = (tr, Inr (ps, C))"
  then have "y \<noteq> []" "C = uint (Max (set y)) + 1" "C = int (length (np_unique y))"
    by (simp_all add: cell_params_Inr)
  then show "C = uint (Max (set y)) + 1" "set y = {0..Max (set y)}"
    using class_count_iff [of y] by simp_all
next
  fix tr g
  assume "script lib rnd = (tr, Inr g)"
  from script_Inr [OF this]
  have "var_y g \<noteq> []" "var_C g = uint (Max (set (var_y g))) + 1"
    "var_C g = int (length (np_unique (var_y g)))"
    by blast+
  then show "var_C g = uint (Max (set (var_y g))) + 1"
    "set (var_y g) = {0..Max (set (var_y g))}"
    using class_count_iff [of "var_y g"] by simp_all
qed

theorem class_count_assertion_witness:
  "[1, 2] \<noteq> ([] :: labels) \<and> 0 \<notin> set [1, 2 :: 8 word] \<and>
   uint (Max (set [1, 2 :: 8 word])) + 1 = 3 \<and> length (np_unique [1, 2]) = 2 \<and>
   set [1, 2 :: 8 word] \<noteq> {0..Max (set [1, 2])} \<and>
   (cell_params [1, 2] :: (nat, string, params \<times> int) run)
     = ([], Inl (AssertionError Class_count_assertion)) \<and>
   script demo_library demo_draws = (demo_trace, Inr demo_globals) \<and>
   var_C demo_globals = 3 \<and> set (var_y demo_globals) = {0..2}"
proof -
  note th = class_count_assertion [where y = "[1, 2]" and lib = demo_library and rnd = demo_draws]
  have ne: "[1, 2] \<noteq> ([] :: labels)" "0 \<notin> set [1, 2 :: 8 word]" by simp_all
  have mx: "Max (set [1, 2 :: 8 word]) = 2" by simp
  have sz: "length (np_unique [1, 2]) = 2" by (simp add: np_unique_def)
  from th ne have "uint (Max (set [1, 2 :: 8 word])) + 1 = int (length (np_unique [1, 2]))
      \<longleftrightarrow> set [1, 2 :: 8 word] = {0..Max (set [1, 2])}"
    by blast
  then have neq: "set [1, 2 :: 8 word] \<noteq> {0..Max (set [1, 2])}"
    unfolding sz mx by simp
  from th ne have fail: "(cell_params [1, 2] :: (nat, string, params \<times> int) run)
     = ([], Inl (AssertionError Class_count_assertion))"
    by blast
  from th script_demo
  have ok: "var_C demo_globals = uint (Max (set (var_y demo_globals))) + 1"
    "set (var_y demo_globals) = {0..Max (set (var_y demo_globals))}"
    by blast+
  have "Max (set (var_y demo_globals)) = 2" by (simp add: demo_globals_def demo_y_def)
  with ok have "var_C demo_globals = 3" "set (var_y demo_globals) = {0..2}" by simp_all
  with ne mx sz neq fail script_demo show ?thesis by simp
qed

subsection \<open>The calls of a run that returns\<close>

lemma filter_complete_trace:
  "[e \<leftarrow> complete_trace lib g A0 model0. callee e = ''graph.distance_scipy_spatial'']
     = [Graph_distance_scipy_spatial (transpose (train_part (var_X g))) 10 ''euclidean'']"
  "[e \<leftarrow> complete_trace lib g A0 model0. callee e = ''graph.adjacency'']
     = [Graph_adjacency (var_dist g) (var_idx g)]"
  "[e \<leftarrow> complete_trace lib g A0 model0. callee e = ''astype''] = [Astype_float32 A0]"
  "[e \<leftarrow> complete_trace lib g A0 model0. callee e = ''plt.spy''] = [Plt_spy (var_A g)]"
  "[e \<leftarrow> complete_trace lib g A0 model0. callee e = ''coarsening.coarsen'']
     = [Coarsening_coarsen (var_A g) 3 False]"
  "[e \<leftarrow> complete_trace lib g A0 model0. callee e = ''coarsening.perm_data'']
     = [Coarsening_perm_data (train_part (var_X g)) (var_perm g),
        Coarsening_perm_data (val_part (var_X g)) (var_perm g),
        Coarsening_perm_data (test_part (var_X g)) (var_perm g)]"
  "[e \<leftarrow> complete_trace lib g A0 model0. callee e = ''graph.laplacian'']
     = map (\<lambda>A. Graph_laplacian A True) (var_graphs g)"
  "[e \<leftarrow> complete_trace lib g A0 model0. callee e = ''graph.plot_spectrum'']
     = [Graph_plot_spectrum (var_L g)]"
  "[e \<leftarrow> complete_trace lib g A0 model0. callee e = ''models.cgcnn'']
     = [Models_cgcnn (var_L g) (var_params g)]"
  "[e \<leftarrow> complete_trace lib g A0 model0. callee e = ''model.fit'']
     = [Model_fit model0 (var_X_train g) (var_y_train g) (var_X_val g) (var_y_val g)]"
  "[e \<leftarrow> complete_trace lib g A0 model0. callee e = ''model.evaluate'']
     = [Model_evaluate (var_model g) (var_X_test g) (var_y_test g)]"
  by (simp_all add: complete_trace_def filter_map o_def)

text \<open>
  Claim C2. In a run that returns, the pair that \<^verbatim>\<open>graph.distance_scipy_spatial\<close> returned
  for \<^verbatim>\<open>X_train.T\<close>, \<open>k = 10\<close> and the Euclidean metric is what \<^verbatim>\<open>graph.adjacency\<close> is
  called with; the result of that call, cast by \<^verbatim>\<open>astype\<close>, is the variable \<open>A\<close>, which has
  shape \<open>(d, d)\<close> with \<open>d = 100\<close>, and it is this \<open>A\<close> that is printed, plotted and
  coarsened.
\<close>

theorem adjacency_from_distance:
  assumes "script lib rnd = (tr, Inr g)"
  shows "\<exists>A0.
     d = 100 \<and>
     distance_scipy_spatial lib (transpose (train_part (var_X g))) 10 ''euclidean''
       = Inr (var_dist g, var_idx g) \<and>
     adjacency lib (var_dist g) (var_idx g) = Inr A0 \<and>
     astype_float32 lib A0 = Inr (var_A g) \<and>
     shape lib (var_A g) = [100, 100] \<and>
     [e \<leftarrow> tr. callee e = ''graph.distance_scipy_spatial'']
       = [Graph_distance_scipy_spatial (transpose (train_part (var_X g))) 10 ''euclidean''] \<and>
     [e \<leftarrow> tr. callee e = ''graph.adjacency''] = [Graph_adjacency (var_dist g) (var_idx g)] \<and>
     [e \<leftarrow> tr. callee e = ''astype''] = [Astype_float32 A0] \<and>
     [e \<leftarrow> tr. callee e = ''plt.spy''] = [Plt_spy (var_A g)] \<and>
     [e \<leftarrow> tr. callee e = ''coarsening.coarsen''] = [Coarsening_coarsen (var_A g) 3 False] \<and>
     Print_graph_size 100 (nnz lib (var_A g)) \<in> set tr \<and>
     coarsen lib (var_A g) 3 False = Inr (var_graphs g, var_perm g)"
proof -
  from script_Inr [OF assms] obtain A0 model0 where
    calls: "distance_scipy_spatial lib (transpose (train_part (var_X g))) 10 ''euclidean''
       = Inr (var_dist g, var_idx g)"
      "adjacency lib (var_dist g) (var_idx g) = Inr A0"
      "astype_float32 lib A0 = Inr (var_A g)"
      "shape lib (var_A g) = [d, d]"
      "coarsen lib (var_A g) 3 False = Inr (var_graphs g, var_perm g)"
    and tr: "tr = complete_trace lib g A0 model0"
    by blast
  have "Print_graph_size 100 (nnz lib (var_A g)) \<in> set tr"
    unfolding tr by (simp add: complete_trace_def d_def)
  with calls show ?thesis
    unfolding tr by (auto simp: d_def filter_complete_trace)
qed

theorem adjacency_from_distance_witness:
  "script demo_library demo_draws = (demo_trace, Inr demo_globals) \<and>
   shape demo_library (var_A demo_globals) = [100, 100] \<and>
   [e \<leftarrow> demo_trace. callee e = ''graph.adjacency'']
     = [Graph_adjacency (var_dist demo_globals) (var_idx demo_globals)] \<and>
   [e \<leftarrow> demo_trace. callee e = ''coarsening.coarsen'']
     = [Coarsening_coarsen (var_A demo_globals) 3 False]"
  using adjacency_from_distance [OF script_demo] script_demo by blast

text \<open>
  Claim C4. In a run that returns, \<open>L\<close> holds the results of
  \<^verbatim>\<open>graph.laplacian(A, normalized=True)\<close> for the graphs that \<^verbatim>\<open>coarsening.coarsen\<close>
  returned, one per graph and in their order, and \<open>L\<close> is the first argument of the one call
  of \<^verbatim>\<open>models.cgcnn\<close>.
\<close>

theorem laplacian_per_graph:
  assumes "script lib rnd = (tr, Inr g)"
  shows "coarsen lib (var_A g) 3 False = Inr (var_graphs g, var_perm g) \<and>
     length (var_L g) = length (var_graphs g) \<and>
     (\<forall>i<length (var_graphs g). laplacian lib (var_graphs g ! i) True = Inr (var_L g ! i)) \<and>
     [e \<leftarrow> tr. callee e = ''graph.laplacian'']
       = map (\<lambda>A. Graph_laplacian A True) (var_graphs g) \<and>
     [e \<leftarrow> tr. callee e = ''models.cgcnn''] = [Models_cgcnn (var_L g) (var_params g)] \<and>
     (\<exists>model0. cgcnn lib (var_L g) (var_params g) = Inr model0)"
proof -
  from script_Inr [OF assms] obtain A0 model0 where
    calls: "coarsen lib (var_A g) 3 False = Inr (var_graphs g, var_perm g)"
      "map (\<lambda>A. laplacian lib A True) (var_graphs g) = map Inr (var_L g)"
      "cgcnn lib (var_L g) (var_params g) = Inr model0"
    and tr: "tr = complete_trace lib g A0 model0"
    by blast
  from calls(2) have len: "length (var_L g) = length (var_graphs g)"
    by (metis length_map)
  have "laplacian lib (var_graphs g ! i) True = Inr (var_L g ! i)" if "i < length (var_graphs g)" for i
    using calls(2) that len by (metis nth_map)
  with calls len show ?thesis
    unfolding tr by (auto simp: filter_complete_trace)
qed

theorem laplacian_per_graph_witness:
  "script demo_library demo_draws = (demo_trace, Inr demo_globals) \<and>
   length (var_L demo_globals) = length (var_graphs demo_globals) \<and>
   (2::nat) < length (var_graphs demo_globals) \<and>
   laplacian demo_library (var_graphs demo_globals ! 2) True = Inr (var_L demo_globals ! 2) \<and>
   [e \<leftarrow> demo_trace. callee e = ''models.cgcnn'']
     = [Models_cgcnn (var_L demo_globals) (var_params demo_globals)]"
proof -
  have 2: "(2::nat) < length (var_graphs demo_globals)" by (simp add: demo_globals_def)
  with laplacian_per_graph [OF script_demo] script_demo show ?thesis by blast
qed

subsection \<open>The split\<close>

lemma split_concat: "train_part xs @ val_part xs @ test_part xs = xs"
proof -
  have "take n_train xs @ take n_val (drop n_train xs) @ drop (n_train + n_val) xs = xs"
    by (metis append_assoc append_take_drop_id take_add)
  then show ?thesis
    by (simp add: train_part_def val_part_def test_part_def slice_def)
qed

lemma split_sizes: "n = 10000" "n_train = 5000" "n_val = 1000"
  by (simp_all add: n_def n_train_def n_val_def)

lemma split_nth:
  assumes "length xs = n"
  shows "i < 5000 \<Longrightarrow> train_part xs ! i = xs ! i"
    and "i < 1000 \<Longrightarrow> val_part xs ! i = xs ! (5000 + i)"
    and "i < 4000 \<Longrightarrow> test_part xs ! i = xs ! (6000 + i)"
    and "length (train_part xs) = 5000"
    and "length (val_part xs) = 1000"
    and "length (test_part xs) = 4000"
  using assms
  by (simp_all add: train_part_def val_part_def test_part_def slice_def split_sizes)

lemma demo_X_nth:
  "i < 10000 \<Longrightarrow> demo_X ! i = map2 (+) (replicate 100 (real i)) demo_row"
  unfolding demo_X_def by (subst nth_map_upt) simp_all

lemma demo_X_distinct:
  assumes "i < 10000" "j < 10000" "i \<noteq> j"
  shows "demo_X ! i \<noteq> demo_X ! j"
proof
  assume "demo_X ! i = demo_X ! j"
  with assms have "map2 (+) (replicate 100 (real i)) demo_row
      = map2 (+) (replicate 100 (real j)) demo_row"
    by (simp add: demo_X_nth)
  then have "map2 (+) (replicate 100 (real i)) demo_row ! 0
      = map2 (+) (replicate 100 (real j)) demo_row ! 0"
    by simp
  then have "real i = real j"
    by (simp add: length_demo_row)
  with assms show False by simp
qed

text \<open>
  Claim C8. With \<open>n = 10000\<close>, \<open>n_train = 5000\<close> and \<open>n_val = 1000\<close>, the script splits
  \<open>X\<close> into its rows \<open>[0, 5000)\<close>, \<open>[5000, 6000)\<close> and \<open>[6000, 10000)\<close> and \<open>y\<close> at the same
  places. In a run that returns, \<^verbatim>\<open>X_train\<close>, \<^verbatim>\<open>X_val\<close> and \<^verbatim>\<open>X_test\<close> as lines 97--99
  bind them are what the distance call and the three calls of \<^verbatim>\<open>perm_data\<close> receive, and
  \<^verbatim>\<open>y_train\<close>, \<^verbatim>\<open>y_val\<close> and \<^verbatim>\<open>y_test\<close> are the variables at the end, passed to \<^verbatim>\<open>fit\<close>
  and \<^verbatim>\<open>evaluate\<close>. The three parts have the lengths 5000, 1000 and 4000, their
  concatenation is the whole, and row \<open>i\<close> of a part and label \<open>i\<close> of the same part come
  from the same row of the data set.
\<close>

theorem split_partition:
  "n = 10000 \<and> n_train = 5000 \<and> n_val = 1000 \<and>
   (\<forall>tr g. script lib rnd = (tr, Inr g) \<longrightarrow>
      (let X = var_X g; y = var_y g;
           X_train = take 5000 X; X_val = take 1000 (drop 5000 X); X_test = drop 6000 X
       in
       X = make_X rnd \<and> y = classify (make_t rnd X (make_w rnd)) \<and>
       length X = 10000 \<and> length y = 10000 \<and>
       [e \<leftarrow> tr. callee e = ''graph.distance_scipy_spatial'']
         = [Graph_distance_scipy_spatial (transpose X_train) 10 ''euclidean''] \<and>
       [e \<leftarrow> tr. callee e = ''coarsening.perm_data'']
         = [Coarsening_perm_data X_train (var_perm g), Coarsening_perm_data X_val (var_perm g),
            Coarsening_perm_data X_test (var_perm g)] \<and>
       perm_data lib X_train (var_perm g) = Inr (var_X_train g) \<and>
       perm_data lib X_val (var_perm g) = Inr (var_X_val g) \<and>
       perm_data lib X_test (var_perm g) = Inr (var_X_test g) \<and>
       var_y_train g = take 5000 y \<and> var_y_val g = take 1000 (drop 5000 y) \<and>
       var_y_test g = drop 6000 y \<and>
       (\<exists>model0. [e \<leftarrow> tr. callee e = ''model.fit'']
          = [Model_fit model0 (var_X_train g) (var_y_train g) (var_X_val g) (var_y_val g)]) \<and>
       [e \<leftarrow> tr. callee e = ''model.evaluate'']
         = [Model_evaluate (var_model g) (var_X_test g) (var_y_test g)] \<and>
       X_train @ X_val @ X_test = X \<and>
       var_y_train g @ var_y_val g @ var_y_test g = y \<and>
       length X_train = 5000 \<and> length X_val = 1000 \<and> length X_test = 4000 \<and>
       length (var_y_train g) = 5000 \<and> length (var_y_val g) = 1000 \<and>
       length (var_y_test g) = 4000 \<and>
       (\<forall>i<5000. X_train ! i = X ! i \<and> var_y_train g ! i = y ! i) \<and>
       (\<forall>i<1000. X_val ! i = X ! (5000 + i) \<and> var_y_val g ! i = y ! (5000 + i)) \<and>
       (\<forall>i<4000. X_test ! i = X ! (6000 + i) \<and> var_y_test g ! i = y ! (6000 + i))))"
proof (intro conjI allI impI)
  show "n = 10000" "n_train = 5000" "n_val = 1000" by (rule split_sizes)+
next
  fix tr g
  assume "script lib rnd = (tr, Inr g)"
  from script_Inr [OF this] obtain A0 model0 where
    vars: "var_X g = make_X rnd" "var_w g = make_w rnd"
      "var_t g = make_t rnd (var_X g) (var_w g)" "var_y g = classify (var_t g)"
      "var_y_train g = train_part (var_y g)" "var_y_val g = val_part (var_y g)"
      "var_y_test g = test_part (var_y g)"
    and calls: "perm_data lib (train_part (var_X g)) (var_perm g) = Inr (var_X_train g)"
      "perm_data lib (val_part (var_X g)) (var_perm g) = Inr (var_X_val g)"
      "perm_data lib (test_part (var_X g)) (var_perm g) = Inr (var_X_test g)"
    and tr: "tr = complete_trace lib g A0 model0"
    by blast
  have X: "length (var_X g) = n"
    using vars by (simp add: length_make_X)
  have y: "length (var_y g) = n"
    using vars by (simp add: length_classify length_make_t)
  have fit: "\<exists>model0. [e \<leftarrow> tr. callee e = ''model.fit'']
      = [Model_fit model0 (var_X_train g) (var_y_train g) (var_X_val g) (var_y_val g)]"
    unfolding tr by (simp only: filter_complete_trace) blast
  have filters:
    "[e \<leftarrow> tr. callee e = ''graph.distance_scipy_spatial'']
       = [Graph_distance_scipy_spatial (transpose (take 5000 (var_X g))) 10 ''euclidean'']"
    "[e \<leftarrow> tr. callee e = ''coarsening.perm_data'']
       = [Coarsening_perm_data (take 5000 (var_X g)) (var_perm g),
          Coarsening_perm_data (take 1000 (drop 5000 (var_X g))) (var_perm g),
          Coarsening_perm_data (drop 6000 (var_X g)) (var_perm g)]"
    "[e \<leftarrow> tr. callee e = ''model.evaluate'']
       = [Model_evaluate (var_model g) (var_X_test g) (var_y_test g)]"
    unfolding tr by (simp_all only: filter_complete_trace split_parts)
  have parts: "var_y_train g = take 5000 (var_y g)" "var_y_val g = take 1000 (drop 5000 (var_y g))"
    "var_y_test g = drop 6000 (var_y g)"
    using vars by (simp_all only: split_parts)
  show "let X = var_X g; y = var_y g;
           X_train = take 5000 X; X_val = take 1000 (drop 5000 X); X_test = drop 6000 X
       in
       X = make_X rnd \<and> y = classify (make_t rnd X (make_w rnd)) \<and>
       length X = 10000 \<and> length y = 10000 \<and>
       [e \<leftarrow> tr. callee e = ''graph.distance_scipy_spatial'']
         = [Graph_distance_scipy_spatial (transpose X_train) 10 ''euclidean''] \<and>
       [e \<leftarrow> tr. callee e = ''coarsening.perm_data'']
         = [Coarsening_perm_data X_train (var_perm g), Coarsening_perm_data X_val (var_perm g),
            Coarsening_perm_data X_test (var_perm g)] \<and>
       perm_data lib X_train (var_perm g) = Inr (var_X_train g) \<and>
       perm_data lib X_val (var_perm g) = Inr (var_X_val g) \<and>
       perm_data lib X_test (var_perm g) = Inr (var_X_test g) \<and>
       var_y_train g = take 5000 y \<and> var_y_val g = take 1000 (drop 5000 y) \<and>
       var_y_test g = drop 6000 y \<and>
       (\<exists>model0. [e \<leftarrow> tr. callee e = ''model.fit'']
          = [Model_fit model0 (var_X_train g) (var_y_train g) (var_X_val g) (var_y_val g)]) \<and>
       [e \<leftarrow> tr. callee e = ''model.evaluate'']
         = [Model_evaluate (var_model g) (var_X_test g) (var_y_test g)] \<and>
       X_train @ X_val @ X_test = X \<and>
       var_y_train g @ var_y_val g @ var_y_test g = y \<and>
       length X_train = 5000 \<and> length X_val = 1000 \<and> length X_test = 4000 \<and>
       length (var_y_train g) = 5000 \<and> length (var_y_val g) = 1000 \<and>
       length (var_y_test g) = 4000 \<and>
       (\<forall>i<5000. X_train ! i = X ! i \<and> var_y_train g ! i = y ! i) \<and>
       (\<forall>i<1000. X_val ! i = X ! (5000 + i) \<and> var_y_val g ! i = y ! (5000 + i)) \<and>
       (\<forall>i<4000. X_test ! i = X ! (6000 + i) \<and> var_y_test g ! i = y ! (6000 + i))"
    unfolding Let_def
    using split_nth [OF X, unfolded split_parts] split_nth [OF y, unfolded split_parts]
      split_concat [of "var_X g", unfolded split_parts]
      split_concat [of "var_y g", unfolded split_parts]
      X y vars(1,2,3,4) calls [unfolded split_parts] fit filters parts
    by (simp add: split_sizes)
qed

theorem split_partition_witness:
  "script demo_library demo_draws = (demo_trace, Inr demo_globals) \<and>
   var_X demo_globals = demo_X \<and> var_y demo_globals = demo_y \<and>
   take 5000 demo_X ! 7 = demo_X ! 7 \<and>
   take 1000 (drop 5000 demo_X) ! 7 = demo_X ! 5007 \<and>
   drop 6000 demo_X ! 7 = demo_X ! 6007 \<and>
   demo_X ! 7 \<noteq> demo_X ! 5007 \<and> demo_X ! 5007 \<noteq> demo_X ! 6007 \<and>
   demo_X ! 7 \<noteq> demo_X ! 6007 \<and>
   var_y_train demo_globals ! 0 = demo_y ! 0 \<and> demo_y ! 0 = 0 \<and>
   var_y_val demo_globals ! 0 = demo_y ! 5000 \<and> demo_y ! 5000 = 2 \<and>
   var_y_test demo_globals ! 0 = demo_y ! 6000 \<and> demo_y ! 6000 = 1 \<and>
   [e \<leftarrow> demo_trace. callee e = ''coarsening.perm_data'']
     = [Coarsening_perm_data (take 5000 demo_X) 7,
        Coarsening_perm_data (take 1000 (drop 5000 demo_X)) 7,
        Coarsening_perm_data (drop 6000 demo_X) 7]"
proof -
  have v: "var_X demo_globals = demo_X" "var_y demo_globals = demo_y"
    "var_perm demo_globals = 7"
    by (simp_all add: demo_globals_def)
  note th = split_partition [of demo_library demo_draws, THEN conjunct2, THEN conjunct2,
      THEN conjunct2, rule_format, OF script_demo, unfolded Let_def v]
  have X: "take 5000 demo_X ! 7 = demo_X ! 7"
    "take 1000 (drop 5000 demo_X) ! 7 = demo_X ! 5007"
    "drop 6000 demo_X ! 7 = demo_X ! 6007"
    using th by (auto dest!: spec [of _ "7::nat"])
  have y: "var_y_train demo_globals ! 0 = demo_y ! 0"
    "var_y_val demo_globals ! 0 = demo_y ! 5000"
    "var_y_test demo_globals ! 0 = demo_y ! 6000"
    using th by (auto dest!: spec [of _ "0::nat"])
  have p: "[e \<leftarrow> demo_trace. callee e = ''coarsening.perm_data'']
     = [Coarsening_perm_data (take 5000 demo_X) 7,
        Coarsening_perm_data (take 1000 (drop 5000 demo_X)) 7,
        Coarsening_perm_data (drop 6000 demo_X) 7]"
    using th by blast
  have l: "demo_y ! 0 = 0" "demo_y ! 5000 = 2" "demo_y ! 6000 = 1"
    by (simp_all add: demo_y_def nth_append)
  have dist: "demo_X ! 7 \<noteq> demo_X ! 5007" "demo_X ! 5007 \<noteq> demo_X ! 6007"
    "demo_X ! 7 \<noteq> demo_X ! 6007"
    by (rule demo_X_distinct; simp)+
  from v X y p l dist script_demo show ?thesis by simp
qed

subsection \<open>The order of the calls in every run\<close>

lemma follows_cell_coarsen: "follows (cell_coarsen lib A X1 X2 X3) steps_coarsen"
  unfolding cell_coarsen_def steps_coarsen_def
  apply (rule follows_bind_one, rule follows_call, simp, clarsimp)
  apply (rule follows_bind_one, rule follows_call, simp)
  apply (rule follows_bind_one, rule follows_call, simp)
  apply (rule follows_bind_last, rule follows_call, simp)
  apply (rule follows_nil)
  done

lemma follows_laplacians:
  "follows (laplacians lib gs) (replicate (length gs) ''graph.laplacian'')"
proof (induction gs)
  case Nil
  show ?case by (simp add: follows_nil)
next
  case (Cons A gs)
  have "follows (bind_run (laplacians lib gs) (\<lambda>ls. return_run (l # ls)))
      (replicate (length gs) ''graph.laplacian'' @ [])" for l
    by (rule follows_bind [OF Cons.IH]) (rule follows_nil)
  then have "follows (bind_run (laplacians lib gs) (\<lambda>ls. return_run (l # ls)))
      (replicate (length gs) ''graph.laplacian'')" for l
    by simp
  then show ?case
    by (simp add: follows_bind_one follows_call)
qed

lemma follows_cell_laplacian:
  "follows (cell_laplacian lib gs) (steps_laplacian (length gs))"
  unfolding cell_laplacian_def steps_laplacian_def
  apply (rule follows_bind [OF follows_laplacians])
  apply (rule follows_bind_last, rule follows_call, simp)
  apply (rule follows_nil)
  done

lemma follows_cell_params: "follows (cell_params y) []"
  by (simp add: follows_def cell_params_def Let_def run_proj y_max_def decay_steps_def
      split: sum.splits option.splits pval.splits)

lemma follows_cell_fit: "follows (cell_fit lib L ps X1 y1 X2 y2) steps_fit"
  unfolding cell_fit_def steps_fit_def
  apply (rule follows_bind_one, rule follows_call, simp)
  apply (rule follows_bind_last, rule follows_call, simp, clarsimp)
  apply (rule follows_nil)
  done

lemma follows_cell_plot: "follows (cell_plot lib accuracy loss) steps_plot"
  unfolding cell_plot_def steps_plot_def
  by (intro follows_bind_one follows_emit) simp_all

lemma follows_cell_time: "follows (cell_time lib t_step) [''print'']"
  unfolding cell_time_def by (rule follows_emit) simp

lemma follows_cell_evaluate: "follows (cell_evaluate lib model X3 y3) steps_evaluate"
  unfolding cell_evaluate_def steps_evaluate_def
  apply (rule follows_bind_one, rule follows_call, simp)
  subgoal for res
    apply (cases res)
     apply (simp add: follows_def run_proj)
    apply simp
    apply (rule follows_bind_last, rule follows_emit, simp)
    apply (rule follows_nil)
    done
  done

lemma follows_weaken:
  "follows m ks \<Longrightarrow> snd m = Inl e \<Longrightarrow> follows m (ks @ ks')"
  by (simp add: follows_def)

lemma follows_bind_ex:
  assumes "follows m ks1" and "\<And>a. snd m = Inr a \<Longrightarrow> \<exists>k. follows (f a) (h k)"
  shows "\<exists>k. follows (bind_run m f) (ks1 @ h k)"
proof (cases "snd m")
  case (Inl e)
  with assms(1) have "follows (bind_run m f) (ks1 @ h undefined)"
    by (simp add: follows_def run_proj)
  then show ?thesis ..
next
  case (Inr a)
  from assms(2) [OF Inr] obtain k where "follows (f a) (h k)" ..
  with assms(1) Inr have "follows (bind_run m f) (ks1 @ h k)"
    by (intro follows_bind) auto
  then show ?thesis ..
qed

lemma follows_script: "\<exists>k. follows (script lib rnd) (steps k)"
  unfolding script_def Let_def steps_def
  apply (rule follows_bind_ex [OF follows_cell_data], clarsimp)
  apply (rule follows_bind_ex [OF follows_cell_graph], clarsimp)
  apply (rule follows_bind_ex [OF follows_cell_coarsen], clarsimp)
  subgoal for X w t y ds ix A graphs perm X1 X2 X3
    apply (rule exI [of _ "length graphs"])
    apply (rule follows_bind [OF follows_cell_laplacian])
    apply (rule follows_bind_nil [OF follows_cell_params], clarsimp)
    apply (rule follows_bind [OF follows_cell_fit], clarsimp)
    apply (rule follows_bind [OF follows_cell_plot])
    apply (rule follows_bind_one [OF follows_cell_time])
    apply (rule follows_bind [where ?ks2.0 = "[]", simplified, OF follows_cell_evaluate])
    apply (rule follows_nil)
    done
  done

lemma callee_complete_trace:
  "map callee (complete_trace lib g A0 model0) = steps (length (var_graphs g))"
  by (simp add: complete_trace_def steps_def steps_data_def steps_graph_def steps_coarsen_def
      steps_laplacian_def steps_fit_def steps_plot_def steps_evaluate_def o_def
      map_replicate_const)

subsection \<open>No call after an exception\<close>

lemma stops_bind:
  assumes "stops_at_exception lib m"
    and "\<And>a. snd m = Inr a \<Longrightarrow> stops_at_exception lib (f a)"
  shows "stops_at_exception lib (bind_run m f)"
proof (cases "snd m")
  case (Inl e)
  then have "fst (bind_run m f) = fst m" "snd (bind_run m f) = Inl e"
    by (simp_all add: run_proj)
  with assms(1) Inl show ?thesis
    by (simp add: stops_at_exception_def split: error.splits)
next
  case (Inr a)
  from assms(1) Inr have 1: "\<forall>e\<in>set (fst m). raised_by lib e = None"
    by (simp add: stops_at_exception_def)
  from assms(2) [OF Inr] have 2: "stops_at_exception lib (f a)" .
  show ?thesis
  proof (cases "\<exists>x. snd (f a) = Inl (Raised x)")
    case True
    then obtain x where x: "snd (f a) = Inl (Raised x)" ..
    with 2 have ne: "fst (f a) \<noteq> []"
      and bl: "\<forall>e\<in>set (butlast (fst (f a))). raised_by lib e = None"
      and la: "raised_by lib (last (fst (f a))) = Some x"
      by (simp_all add: stops_at_exception_def)
    from ne have "butlast (fst m @ fst (f a)) = fst m @ butlast (fst (f a))"
      by (simp add: butlast_append)
    with 1 ne bl la x Inr show ?thesis
      by (auto simp: stops_at_exception_def run_proj)
  next
    case False
    with 2 have "\<forall>e\<in>set (fst (f a)). raised_by lib e = None"
      by (auto simp: stops_at_exception_def split: sum.splits error.splits)
    with 1 False Inr show ?thesis
      by (auto simp: stops_at_exception_def run_proj split: sum.splits error.splits)
  qed
qed

lemma stops_call:
  "raised_by lib ev = exception_of r \<Longrightarrow> stops_at_exception lib (call ev r)"
  by (simp add: stops_at_exception_def run_proj exception_of_def split: sum.splits)

lemma stops_emit:
  "raised_by lib ev = exception_of (display lib ev) \<Longrightarrow> stops_at_exception lib (emit lib ev)"
  unfolding emit_def by (rule stops_call)

lemma stops_nil:
  "stops_at_exception lib (return_run a)"
  "stops_at_exception lib (py_assert as b)"
  "stops_at_exception lib (raise_run (Python_error s))"
  by (simp_all add: stops_at_exception_def run_proj)

lemmas stops_intros = stops_bind stops_call stops_emit stops_nil

lemma stops_cell_data: "stops_at_exception lib (cell_data lib rnd)"
  unfolding cell_data_def Let_def by (intro stops_intros) simp_all

lemma stops_cell_graph: "stops_at_exception lib (cell_graph lib X)"
  unfolding cell_graph_def
  apply (rule stops_bind, rule stops_call, simp, clarsimp)
  apply (intro stops_intros)
      apply simp_all
  done

lemma stops_cell_coarsen: "stops_at_exception lib (cell_coarsen lib A X1 X2 X3)"
  unfolding cell_coarsen_def
  apply (rule stops_bind, rule stops_call, simp, clarsimp)
  apply (intro stops_intros)
      apply simp_all
  done

lemma stops_laplacians: "stops_at_exception lib (laplacians lib gs)"
  by (induction gs) (auto intro!: stops_intros)

lemma stops_cell_laplacian: "stops_at_exception lib (cell_laplacian lib gs)"
  unfolding cell_laplacian_def
  by (intro stops_intros stops_laplacians) simp_all

lemma stops_cell_params: "stops_at_exception lib (cell_params y)"
  by (simp add: stops_at_exception_def follows_cell_params [unfolded follows_def]
      cell_params_def Let_def run_proj y_max_def decay_steps_def
      split: sum.splits option.splits pval.splits error.splits)

lemma stops_cell_fit: "stops_at_exception lib (cell_fit lib L ps X1 y1 X2 y2)"
  unfolding cell_fit_def
  apply (rule stops_bind, rule stops_call, simp)
  apply (rule stops_bind, rule stops_call, simp, clarsimp)
  apply (rule stops_nil)
  done

lemma stops_cell_plot: "stops_at_exception lib (cell_plot lib accuracy loss)"
  unfolding cell_plot_def by (intro stops_intros) simp_all

lemma stops_cell_time: "stops_at_exception lib (cell_time lib t_step)"
  unfolding cell_time_def by (intro stops_intros) simp_all

lemma stops_cell_evaluate: "stops_at_exception lib (cell_evaluate lib model X3 y3)"
  unfolding cell_evaluate_def
  apply (rule stops_bind, rule stops_call, simp)
  subgoal for res
    by (cases res) (auto intro!: stops_intros)
  done

lemma stops_script: "stops_at_exception lib (script lib rnd)"
  unfolding script_def Let_def
  apply (rule stops_bind [OF stops_cell_data], clarsimp)
  apply (rule stops_bind [OF stops_cell_graph], clarsimp)
  apply (rule stops_bind [OF stops_cell_coarsen], clarsimp)
  apply (rule stops_bind [OF stops_cell_laplacian])
  apply (rule stops_bind [OF stops_cell_params], clarsimp)
  apply (rule stops_bind [OF stops_cell_fit], clarsimp)
  apply (rule stops_bind [OF stops_cell_plot])
  apply (rule stops_bind [OF stops_cell_time])
  apply (rule stops_bind [OF stops_cell_evaluate])
  apply (rule stops_nil)
  done

subsection \<open>Runs that end with an exception\<close>

lemma mem_bind:
  "e \<in> set (fst (bind_run m f)) \<longleftrightarrow>
     e \<in> set (fst m) \<or> (\<exists>a. snd m = Inr a \<and> e \<in> set (fst (f a)))"
  by (auto simp: run_proj split: sum.splits)

lemma snd_bind_Inl:
  "snd (bind_run m f) = Inl e \<longleftrightarrow>
     snd m = Inl e \<or> (\<exists>a. snd m = Inr a \<and> snd (f a) = Inl e)"
  by (auto simp: run_proj split: sum.splits)

lemma mem_follows: "follows m ks \<Longrightarrow> e \<in> set (fst m) \<Longrightarrow> callee e \<in> set ks"
  by (auto simp: follows_def prefix_def split: sum.splits)

lemma snd_cell_data_Inr:
  assumes "snd (cell_data lib rnd) = Inr a"
  shows "a = (make_X rnd, make_w rnd, make_t rnd (make_X rnd) (make_w rnd),
     classify (make_t rnd (make_X rnd) (make_w rnd)))"
  using assms by (auto simp: cell_data_def Let_def run_proj split: sum.splits)

lemma mem_cell_data:
  "e \<in> set (fst (cell_data lib rnd)) \<Longrightarrow>
     e = Plt_figure \<or> (\<exists>t. e = Plt_plot t) \<or> (\<exists>counts. e = Print_class_imbalance counts)"
  by (auto simp: cell_data_def Let_def run_proj split: sum.splits)

lemma mem_cell_time:
  "e \<in> set (fst (cell_time lib t_step)) \<Longrightarrow> \<exists>ms. e = Print_time_per_step ms"
  by (simp add: cell_time_def run_proj)

lemma snd_cell_data_Inl:
  "snd (cell_data lib rnd) = Inl e \<Longrightarrow> \<exists>x. e = Raised x"
  by (auto simp: cell_data_def Let_def run_proj split: sum.splits)

lemma snd_cell_plot_Inl:
  "snd (cell_plot lib accuracy loss) = Inl e \<Longrightarrow> \<exists>x. e = Raised x"
  by (auto simp: cell_plot_def run_proj split: sum.splits)

lemma snd_cell_time_Inl:
  "snd (cell_time lib t_step) = Inl e \<Longrightarrow> \<exists>x. e = Raised x"
  by (auto simp: cell_time_def run_proj split: sum.splits)

lemma fst_cell_params: "fst (cell_params y) = []"
  using follows_cell_params [of y]
  by (auto simp: follows_def split: sum.splits)

lemma cell_graph_cases:
  obtains
    (distance_raises) x where
      "cell_graph lib X =
         ([Graph_distance_scipy_spatial (transpose X) 10 ''euclidean''], Inl (Raised x))"
  | (adjacency_raises) ds ix x where
      "cell_graph lib X =
         ([Graph_distance_scipy_spatial (transpose X) 10 ''euclidean'', Graph_adjacency ds ix],
          Inl (Raised x))"
  | (astype_raises) ds ix A0 x where
      "astype_float32 lib A0 = Inl x"
      "cell_graph lib X =
         ([Graph_distance_scipy_spatial (transpose X) 10 ''euclidean'', Graph_adjacency ds ix,
           Astype_float32 A0], Inl (Raised x))"
  | (assertion_fails) ds ix A0 A where
      "astype_float32 lib A0 = Inr A" "shape lib A \<noteq> [d, d]"
      "cell_graph lib X =
         ([Graph_distance_scipy_spatial (transpose X) 10 ''euclidean'', Graph_adjacency ds ix,
           Astype_float32 A0], Inl (AssertionError Shape_assertion))"
  | (print_raises) ds ix A0 A x where
      "astype_float32 lib A0 = Inr A" "shape lib A = [d, d]"
      "cell_graph lib X =
         ([Graph_distance_scipy_spatial (transpose X) 10 ''euclidean'', Graph_adjacency ds ix,
           Astype_float32 A0, Print_graph_size d (nnz lib A)], Inl (Raised x))"
  | (spy_raises) ds ix A0 A x where
      "astype_float32 lib A0 = Inr A" "shape lib A = [d, d]"
      "cell_graph lib X =
         ([Graph_distance_scipy_spatial (transpose X) 10 ''euclidean'', Graph_adjacency ds ix,
           Astype_float32 A0, Print_graph_size d (nnz lib A), Plt_spy A], Inl (Raised x))"
  | (returns) ds ix A0 A where
      "astype_float32 lib A0 = Inr A" "shape lib A = [d, d]"
      "cell_graph lib X =
         ([Graph_distance_scipy_spatial (transpose X) 10 ''euclidean'', Graph_adjacency ds ix,
           Astype_float32 A0, Print_graph_size d (nnz lib A), Plt_spy A], Inr (ds, ix, A))"
proof (cases "distance_scipy_spatial lib (transpose X) 10 ''euclidean''")
  case (Inl x)
  then show ?thesis
    by (intro distance_raises [of x]) (simp add: cell_graph_def bind_run_def call_def)
next
  case (Inr p)
  obtain ds ix where p: "p = (ds, ix)" by (cases p)
  show ?thesis
  proof (cases "adjacency lib ds ix")
    case (Inl x)
    with Inr p show ?thesis
      by (intro adjacency_raises [of ds ix x]) (simp add: cell_graph_def bind_run_def call_def)
  next
    case A0: (Inr A0)
    show ?thesis
    proof (cases "astype_float32 lib A0")
      case (Inl x)
      with Inr p A0 show ?thesis
        by (intro astype_raises [of A0 x ds ix])
          (simp_all add: cell_graph_def bind_run_def call_def)
    next
      case A: (Inr A)
      show ?thesis
      proof (cases "shape lib A = [d, d]")
        case True
        show ?thesis
        proof (cases "display lib (Print_graph_size d (nnz lib A))")
          case (Inl x)
          with Inr p A0 A True show ?thesis
            by (intro print_raises [of A0 A ds ix x])
              (simp_all add: cell_graph_def bind_run_def call_def py_assert_def return_run_def
                emit_def)
        next
          case pr: (Inr u)
          show ?thesis
          proof (cases "display lib (Plt_spy A)")
            case (Inl x)
            with Inr p A0 A True pr show ?thesis
              by (intro spy_raises [of A0 A ds ix x])
                (simp_all add: cell_graph_def bind_run_def call_def py_assert_def return_run_def
                  emit_def)
          next
            case sp: (Inr u')
            with Inr p A0 A True pr show ?thesis
              by (intro returns [of A0 A ds ix])
                (simp_all add: cell_graph_def bind_run_def call_def py_assert_def return_run_def
                  emit_def)
          qed
        qed
      next
        case False
        with Inr p A0 A show ?thesis
          by (intro assertion_fails [of A0 A ds ix])
            (simp_all add: cell_graph_def bind_run_def call_def py_assert_def raise_run_def)
      qed
    qed
  qed
qed

lemma mem_cell_graph:
  assumes "e \<in> set (fst (cell_graph lib X))" and "callee e \<in> {''print'', ''plt.spy''}"
  shows "\<exists>A0 A. Astype_float32 A0 \<in> set (fst (cell_graph lib X)) \<and>
      astype_float32 lib A0 = Inr A \<and> shape lib A = [d, d] \<and>
      (e = Print_graph_size d (nnz lib A) \<or> e = Plt_spy A)"
  using assms by (cases lib X rule: cell_graph_cases) auto

lemma snd_cell_graph_Inr:
  assumes "snd (cell_graph lib X) = Inr (ds, ix, A)"
  shows "\<exists>A0. Astype_float32 A0 \<in> set (fst (cell_graph lib X)) \<and>
      astype_float32 lib A0 = Inr A \<and> shape lib A = [d, d]"
  using assms by (cases lib X rule: cell_graph_cases) auto

lemma snd_cell_graph_assert:
  assumes "snd (cell_graph lib X) = Inl (AssertionError a)"
  shows "a = Shape_assertion \<and>
     (\<exists>A0 A. Astype_float32 A0 \<in> set (fst (cell_graph lib X)) \<and>
        astype_float32 lib A0 = Inr A \<and> shape lib A \<noteq> [d, d])"
  using assms by (cases lib X rule: cell_graph_cases) auto

lemma snd_cell_params_assert:
  assumes "snd (cell_params y :: ('v, 'x, params \<times> int) run) = Inl (AssertionError a)"
  shows "a = Class_count_assertion \<and> uint (Max (set y)) + 1 \<noteq> int (length (np_unique y))"
  using assms
  by (auto simp: cell_params_def Let_def run_proj y_max_def decay_steps_def dict_get_def
      split: sum.splits if_splits)

lemma snd_cell_params_Inr:
  assumes "snd (cell_params y :: ('v, 'x, params \<times> int) run) = Inr (ps, C)"
  shows "y \<noteq> [] \<and> uint (Max (set y)) + 1 = int (length (np_unique y))"
proof -
  obtain tr r where m: "(cell_params y :: ('v, 'x, params \<times> int) run) = (tr, r)"
    by (cases "cell_params y :: ('v, 'x, params \<times> int) run")
  with assms have "(cell_params y :: ('v, 'x, params \<times> int) run) = (tr, Inr (ps, C))"
    by simp
  then show ?thesis
    by (subst (asm) cell_params_Inr) auto
qed

lemma no_assert_cell_coarsen:
  "snd (cell_coarsen lib A X1 X2 X3) \<noteq> Inl (AssertionError a)"
  by (auto simp: cell_coarsen_def run_proj split: sum.splits)

lemma no_assert_laplacians: "snd (laplacians lib gs) \<noteq> Inl (AssertionError a)"
  by (induction gs) (auto simp: run_proj split: sum.splits)

lemma no_assert_cell_laplacian: "snd (cell_laplacian lib gs) \<noteq> Inl (AssertionError a)"
  using no_assert_laplacians [of lib gs a]
  by (auto simp: cell_laplacian_def run_proj split: sum.splits)

lemma no_assert_cell_fit:
  "snd (cell_fit lib L ps X1 y1 X2 y2) \<noteq> Inl (AssertionError a)"
  by (auto simp: cell_fit_def run_proj split: sum.splits)

lemma no_assert_cell_evaluate:
  "snd (cell_evaluate lib model X3 y3) \<noteq> Inl (AssertionError a)"
  by (auto simp: cell_evaluate_def run_proj split: sum.splits list.splits)

lemma snd_cell_graph_python:
  "snd (cell_graph lib X) \<noteq> Inl (Python_error s)"
  by (cases lib X rule: cell_graph_cases) auto

lemma snd_cell_params_python:
  assumes "snd (cell_params y :: ('v, 'x, params \<times> int) run) = Inl (Python_error s)"
  shows "y = []"
  using assms
  by (auto simp: cell_params_def Let_def run_proj y_max_def decay_steps_def dict_get_def
      split: sum.splits if_splits)

lemma snd_cell_params_Inl:
  "snd (cell_params y :: ('v, 'x, params \<times> int) run) \<noteq> Inl (Raised x)"
  by (auto simp: cell_params_def Let_def run_proj y_max_def decay_steps_def dict_get_def
      split: sum.splits if_splits)

lemma no_python_cell_coarsen:
  "snd (cell_coarsen lib A X1 X2 X3) \<noteq> Inl (Python_error s)"
  by (auto simp: cell_coarsen_def run_proj split: sum.splits)

lemma no_python_laplacians: "snd (laplacians lib gs) \<noteq> Inl (Python_error s)"
  by (induction gs) (auto simp: run_proj split: sum.splits)

lemma no_python_cell_laplacian: "snd (cell_laplacian lib gs) \<noteq> Inl (Python_error s)"
  using no_python_laplacians [of lib gs s]
  by (auto simp: cell_laplacian_def run_proj split: sum.splits)

lemma no_python_cell_fit:
  "snd (cell_fit lib L ps X1 y1 X2 y2) \<noteq> Inl (Python_error s)"
  by (auto simp: cell_fit_def run_proj split: sum.splits)

lemma cell_evaluate_cases:
  obtains
    (evaluate_raises) x where
      "evaluate lib model X3 y3 = Inl x"
      "cell_evaluate lib model X3 y3 = ([Model_evaluate model X3 y3], Inl (Raised x))"
  | (index_error)
      "evaluate lib model X3 y3 = Inr []"
      "cell_evaluate lib model X3 y3
         = ([Model_evaluate model X3 y3], Inl (Python_error ''IndexError''))"
  | (print_raises) res x where
      "evaluate lib model X3 y3 = Inr res" "res \<noteq> []"
      "display lib (Print_res (hd res)) = Inl x"
      "cell_evaluate lib model X3 y3
         = ([Model_evaluate model X3 y3, Print_res (hd res)], Inl (Raised x))"
  | (returns) res where
      "evaluate lib model X3 y3 = Inr res" "res \<noteq> []"
      "display lib (Print_res (hd res)) = Inr ()"
      "cell_evaluate lib model X3 y3
         = ([Model_evaluate model X3 y3, Print_res (hd res)], Inr res)"
proof (cases "evaluate lib model X3 y3")
  case (Inl x)
  then show ?thesis
    by (intro evaluate_raises [of x]) (simp_all add: cell_evaluate_def bind_run_def call_def)
next
  case (Inr res)
  show ?thesis
  proof (cases res)
    case Nil
    with Inr show ?thesis
      by (intro index_error)
        (simp_all add: cell_evaluate_def bind_run_def call_def raise_run_def)
  next
    case (Cons r0 rs)
    show ?thesis
    proof (cases "display lib (Print_res r0)")
      case (Inl x)
      with Inr Cons show ?thesis
        by (intro print_raises [of res x])
          (simp_all add: cell_evaluate_def bind_run_def call_def emit_def)
    next
      case r: (Inr u)
      with Inr Cons show ?thesis
        by (intro returns [of res])
          (simp_all add: cell_evaluate_def bind_run_def call_def emit_def return_run_def)
    qed
  qed
qed

lemma mem_plot_spectrum:
  assumes "Graph_plot_spectrum L \<in> set (fst (cell_laplacian lib gs))"
  shows "snd (cell_laplacian lib gs)
     = (case plot_spectrum lib L of Inl x \<Rightarrow> Inl (Raised x) | Inr u \<Rightarrow> Inr L)"
  using assms
  by (auto simp: cell_laplacian_def mem_bind run_proj dest: laplacians_events
      split: sum.splits)

lemma not_mem_cell_calls:
  "callee e \<notin> set steps_coarsen \<Longrightarrow> e \<notin> set (fst (cell_coarsen lib A X1 X2 X3))"
  "callee e \<notin> set (steps_laplacian (length gs)) \<Longrightarrow> e \<notin> set (fst (cell_laplacian lib gs))"
  "callee e \<notin> set steps_fit \<Longrightarrow> e \<notin> set (fst (cell_fit lib L ps X1 y1 X2 y2))"
  "callee e \<notin> set steps_graph \<Longrightarrow> e \<notin> set (fst (cell_graph lib X))"
  "callee e \<notin> set steps_evaluate \<Longrightarrow> e \<notin> set (fst (cell_evaluate lib model X3 y3))"
  "callee e \<notin> set steps_data \<Longrightarrow> e \<notin> set (fst (cell_data lib rnd))"
  "callee e \<notin> set steps_plot \<Longrightarrow> e \<notin> set (fst (cell_plot lib accuracy loss))"
  by (blast dest: mem_follows [OF follows_cell_coarsen] mem_follows [OF follows_cell_laplacian]
      mem_follows [OF follows_cell_fit] mem_follows [OF follows_cell_graph]
      mem_follows [OF follows_cell_evaluate] mem_follows [OF follows_cell_data]
      mem_follows [OF follows_cell_plot])+

lemma not_mem_cell_time:
  "callee e \<noteq> ''print'' \<Longrightarrow> e \<notin> set (fst (cell_time lib t_step))"
  by (auto dest: mem_cell_time)

lemmas not_mem_cell = not_mem_cell_calls not_mem_cell_time

lemma mem_cell_evaluate:
  "e \<in> set (fst (cell_evaluate lib model X3 y3)) \<Longrightarrow>
     e = Model_evaluate model X3 y3 \<or> (\<exists>r. e = Print_res r)"
  by (auto simp: cell_evaluate_def run_proj split: sum.splits list.splits)

lemmas steps_defs = steps_data_def steps_graph_def steps_coarsen_def steps_laplacian_def
  steps_fit_def steps_plot_def steps_evaluate_def

lemma labels_nonempty: "classify (make_t rnd (make_X rnd) w) \<noteq> []"
proof
  assume "classify (make_t rnd (make_X rnd) w) = []"
  then have "length (classify (make_t rnd (make_X rnd) w)) = 0" by simp
  then show False by (simp only: length_classify length_make_t n_def)
qed

lemma script_past_shape_assertion:
  assumes "Print_graph_size k m \<in> set (fst (script lib rnd))"
  shows "\<exists>A0 A. Astype_float32 A0 \<in> set (fst (script lib rnd)) \<and>
      astype_float32 lib A0 = Inr A \<and> shape lib A = [d, d] \<and> k = d \<and> m = nnz lib A"
proof -
  let ?X = "train_part (make_X rnd)"
  from assms have "(\<exists>a. snd (cell_data lib rnd) = Inr a) \<and>
      Print_graph_size k m \<in> set (fst (cell_graph lib ?X))"
    unfolding script_def Let_def
    by (auto simp: mem_bind fst_cell_params not_mem_cell steps_defs fst_snd_basic
        dest: snd_cell_data_Inr mem_cell_data mem_cell_time mem_cell_evaluate)
  then obtain a where a: "snd (cell_data lib rnd) = Inr a"
    and g: "Print_graph_size k m \<in> set (fst (cell_graph lib ?X))"
    by blast
  from mem_cell_graph [OF g] obtain A0 A where
    *: "Astype_float32 A0 \<in> set (fst (cell_graph lib ?X))"
      "astype_float32 lib A0 = Inr A" "shape lib A = [d, d]" "k = d" "m = nnz lib A"
    by auto
  from *(1) have "Astype_float32 A0 \<in> set (fst (script lib rnd))"
    unfolding script_def Let_def snd_cell_data_Inr [OF a, symmetric]
    using a snd_cell_data_Inr [OF a] by (simp add: mem_bind)
  with * show ?thesis by blast
qed


lemma script_past_class_count_assertion:
  assumes "Models_cgcnn L ps \<in> set (fst (script lib rnd))"
  shows "uint (Max (set (classify (make_t rnd (make_X rnd) (make_w rnd))))) + 1
     = int (length (np_unique (classify (make_t rnd (make_X rnd) (make_w rnd)))))"
  using assms
  unfolding script_def Let_def
  by (auto simp: mem_bind fst_cell_params not_mem_cell steps_defs fst_snd_basic
      dest: snd_cell_data_Inr mem_cell_data mem_cell_time mem_cell_evaluate
        snd_cell_params_Inr)

lemma script_assertion_error:
  fixes lib :: "('v, 'x) library"
  assumes "snd (script lib rnd) = Inl (AssertionError a)"
  shows "a = Shape_assertion \<and>
       (\<exists>A0 A. Astype_float32 A0 \<in> set (fst (script lib rnd)) \<and>
          astype_float32 lib A0 = Inr A \<and> shape lib A \<noteq> [d, d]) \<or>
     a = Class_count_assertion \<and>
       uint (Max (set (classify (make_t rnd (make_X rnd) (make_w rnd))))) + 1
         \<noteq> int (length (np_unique (classify (make_t rnd (make_X rnd) (make_w rnd)))))"
proof -
  let ?X = "train_part (make_X rnd)"
  let ?y = "classify (make_t rnd (make_X rnd) (make_w rnd))"
  from assms have "(\<exists>r. snd (cell_data lib rnd) = Inr r) \<and>
     (snd (cell_graph lib ?X) = Inl (AssertionError a) \<or>
      snd (cell_params ?y :: ('v, 'x, params \<times> int) run) = Inl (AssertionError a))"
    unfolding script_def Let_def
    by (auto simp: snd_bind_Inl fst_snd_basic
        no_assert_cell_coarsen no_assert_cell_laplacian no_assert_cell_fit
        no_assert_cell_evaluate
        dest: snd_cell_data_Inr snd_cell_data_Inl snd_cell_plot_Inl snd_cell_time_Inl)
  then obtain r where r: "snd (cell_data lib rnd) = Inr r"
    and "snd (cell_graph lib ?X) = Inl (AssertionError a) \<or>
      snd (cell_params ?y :: ('v, 'x, params \<times> int) run) = Inl (AssertionError a)"
    by blast
  from this(2) show ?thesis
  proof
    assume g: "snd (cell_graph lib ?X) = Inl (AssertionError a)"
    from snd_cell_graph_assert [OF g] obtain A0 A where
      *: "a = Shape_assertion" "Astype_float32 A0 \<in> set (fst (cell_graph lib ?X))"
        "astype_float32 lib A0 = Inr A" "shape lib A \<noteq> [d, d]"
      by auto
    from *(2) have "Astype_float32 A0 \<in> set (fst (script lib rnd))"
      unfolding script_def Let_def
      using r snd_cell_data_Inr [OF r] by (simp add: mem_bind)
    with * show ?thesis by blast
  next
    assume "snd (cell_params ?y :: ('v, 'x, params \<times> int) run) = Inl (AssertionError a)"
    from snd_cell_params_assert [OF this] show ?thesis by simp
  qed
qed

lemma script_shape_assertion_fails:
  assumes "Astype_float32 A0 \<in> set (fst (script lib rnd))"
    and "astype_float32 lib A0 = Inr A" and "shape lib A \<noteq> [d, d]"
  shows "snd (script lib rnd) = Inl (AssertionError Shape_assertion)"
proof -
  let ?X = "train_part (make_X rnd)"
  from assms(1) have "(\<exists>r. snd (cell_data lib rnd) = Inr r) \<and>
      Astype_float32 A0 \<in> set (fst (cell_graph lib ?X))"
    unfolding script_def Let_def
    by (auto simp: mem_bind fst_cell_params not_mem_cell steps_defs fst_snd_basic
        dest: snd_cell_data_Inr)
  then obtain r where r: "snd (cell_data lib rnd) = Inr r"
    and g: "Astype_float32 A0 \<in> set (fst (cell_graph lib ?X))"
    by blast
  from g assms(2,3) have "snd (cell_graph lib ?X) = Inl (AssertionError Shape_assertion)"
    by (cases lib ?X rule: cell_graph_cases) auto
  then show ?thesis
    unfolding script_def Let_def
    using r snd_cell_data_Inr [OF r] by (simp add: snd_bind_run)
qed

lemma snd_Inr_iff: "snd m = Inr a \<longleftrightarrow> (\<exists>tr. m = (tr, Inr a))"
  by (cases m) auto

lemma snd_cell_data_iff:
  "snd (cell_data lib rnd) = Inr (X, w, t, y) \<longleftrightarrow>
     X = make_X rnd \<and> w = make_w rnd \<and> t = make_t rnd X w \<and> y = classify t \<and>
     display lib Plt_figure = Inr () \<and> display lib (Plt_plot t) = Inr () \<and>
     display lib (Print_class_imbalance (np_unique_counts y)) = Inr ()"
  by (auto simp: snd_Inr_iff cell_data_Inr)

lemma no_error_cell_data:
  "snd (cell_data lib rnd) \<noteq> Inl (Python_error s)"
  "snd (cell_data lib rnd) \<noteq> Inl (AssertionError a)"
  by (auto dest: snd_cell_data_Inl)

lemma no_error_cell_plot:
  "snd (cell_plot lib accuracy loss) \<noteq> Inl (Python_error s)"
  "snd (cell_plot lib accuracy loss) \<noteq> Inl (AssertionError a)"
  by (auto dest: snd_cell_plot_Inl)

lemma no_error_cell_time:
  "snd (cell_time lib t_step) \<noteq> Inl (Python_error s)"
  "snd (cell_time lib t_step) \<noteq> Inl (AssertionError a)"
  by (auto dest: snd_cell_time_Inl)

lemma no_python_cell_params:
  "snd (cell_params (classify (make_t rnd (make_X rnd) w)) :: ('v, 'x, params \<times> int) run)
     \<noteq> Inl (Python_error s)"
  using snd_cell_params_python [of "classify (make_t rnd (make_X rnd) w)" s]
    labels_nonempty [of rnd w]
  by blast

lemma not_print_res:
  "Print_res r \<notin> set (fst (cell_data lib rnd))"
  "Print_res r \<notin> set (fst (cell_graph lib X))"
  "Print_res r \<notin> set (fst (cell_time lib t_step))"
    apply (auto dest: mem_cell_data mem_cell_time)[1]
   apply (cases lib X rule: cell_graph_cases; auto)
  apply (auto dest: mem_cell_data mem_cell_time)[1]
  done

lemma snd_cell_evaluate_python:
  assumes "snd (cell_evaluate lib model X3 y3) = Inl (Python_error s)"
  shows "s = ''IndexError'' \<and> evaluate lib model X3 y3 = Inr [] \<and>
     fst (cell_evaluate lib model X3 y3) = [Model_evaluate model X3 y3]"
  using assms by (cases lib model X3 y3 rule: cell_evaluate_cases) auto

lemma mem_print_res:
  assumes "Print_res r \<in> set (fst (cell_evaluate lib model X3 y3))"
  shows "\<exists>res. Model_evaluate model X3 y3 \<in> set (fst (cell_evaluate lib model X3 y3)) \<and>
     evaluate lib model X3 y3 = Inr res \<and> res \<noteq> [] \<and> r = hd res"
  using assms by (cases lib model X3 y3 rule: cell_evaluate_cases) auto

text \<open>What holds of the whole run when the cells before some cell have returned.\<close>

lemma script_at_laplacian:
  fixes lib :: "('v, 'x) library"
  assumes "snd (cell_data lib rnd) = Inr (X, w, t, y)"
    and "snd (cell_graph lib (train_part X)) = Inr (ds, ix, A)"
    and "snd (cell_coarsen lib A (train_part X) (val_part X) (test_part X))
       = Inr (gs, perm, X1, X2, X3)"
    and "snd (cell_laplacian lib gs) = Inr L"
  shows "snd (cell_params y :: ('v, 'x, params \<times> int) run) = Inl err
     \<Longrightarrow> snd (script lib rnd) = Inl err"
  using assms unfolding script_def Let_def by (simp add: snd_bind_run)

lemma script_at_evaluate:
  fixes lib :: "('v, 'x) library"
  assumes "snd (cell_data lib rnd) = Inr (X, w, t, y)"
    and "snd (cell_graph lib (train_part X)) = Inr (ds, ix, A)"
    and "snd (cell_coarsen lib A (train_part X) (val_part X) (test_part X))
       = Inr (gs, perm, X1, X2, X3)"
    and "snd (cell_laplacian lib gs) = Inr L"
    and "snd (cell_params y :: ('v, 'x, params \<times> int) run) = Inr (ps, C)"
    and "snd (cell_fit lib L ps X1 (train_part y) X2 (val_part y))
       = Inr (model, accuracy, loss, t_step)"
    and "snd (cell_plot lib accuracy loss) = Inr ()"
    and "snd (cell_time lib t_step) = Inr ()"
  shows "snd (cell_evaluate lib model X3 (test_part y)) = Inl err
       \<Longrightarrow> snd (script lib rnd) = Inl err"
    and "e \<in> set (fst (cell_evaluate lib model X3 (test_part y)))
       \<Longrightarrow> e \<in> set (fst (script lib rnd))"
  using assms unfolding script_def Let_def
  by (simp_all add: snd_bind_run fst_bind_run)

lemma script_class_count_assertion_fails:
  fixes lib :: "('v, 'x) library"
  assumes "Graph_plot_spectrum L \<in> set (fst (script lib rnd))"
    and "plot_spectrum lib L = Inr ()"
    and "uint (Max (set (classify (make_t rnd (make_X rnd) (make_w rnd))))) + 1
       \<noteq> int (length (np_unique (classify (make_t rnd (make_X rnd) (make_w rnd)))))"
  shows "snd (script lib rnd) = Inl (AssertionError Class_count_assertion)"
proof -
  let ?y = "classify (make_t rnd (make_X rnd) (make_w rnd))"
  have p: "snd (cell_params ?y :: ('v, 'x, params \<times> int) run)
      = Inl (AssertionError Class_count_assertion)"
    by (simp add: cell_params_fail [OF labels_nonempty assms(3)])
  from assms(1) have "\<exists>X w t ds ix A gs perm X1 X2 X3.
      snd (cell_data lib rnd) = Inr (X, w, t, ?y) \<and>
      snd (cell_graph lib (train_part X)) = Inr (ds, ix, A) \<and>
      snd (cell_coarsen lib A (train_part X) (val_part X) (test_part X))
        = Inr (gs, perm, X1, X2, X3) \<and>
      Graph_plot_spectrum L \<in> set (fst (cell_laplacian lib gs))"
    unfolding script_def Let_def
    by (auto simp: mem_bind fst_cell_params not_mem_cell steps_defs fst_snd_basic
        snd_cell_data_iff)
  then obtain X w t ds ix A gs perm X1 X2 X3 where
    1: "snd (cell_data lib rnd) = Inr (X, w, t, ?y)"
      "snd (cell_graph lib (train_part X)) = Inr (ds, ix, A)"
      "snd (cell_coarsen lib A (train_part X) (val_part X) (test_part X))
        = Inr (gs, perm, X1, X2, X3)"
    and 2: "Graph_plot_spectrum L \<in> set (fst (cell_laplacian lib gs))"
    by blast
  from mem_plot_spectrum [OF 2] assms(2) have "snd (cell_laplacian lib gs) = Inr L"
    by simp
  from script_at_laplacian [OF 1 this p] show ?thesis .
qed

lemma cell_evaluate_empty:
  "evaluate lib model X3 y3 = Inr [] \<Longrightarrow>
     cell_evaluate lib model X3 y3
       = ([Model_evaluate model X3 y3], Inl (Python_error ''IndexError''))"
  by (simp add: cell_evaluate_def bind_run_def call_def raise_run_def)

lemma script_index_error:
  fixes lib :: "('v, 'x) library"
  assumes "Model_evaluate model X3 y3 \<in> set (fst (script lib rnd))"
    and "evaluate lib model X3 y3 = Inr []"
  shows "snd (script lib rnd) = Inl (Python_error ''IndexError'')"
  using assms(1) cell_evaluate_empty [OF assms(2)]
  unfolding script_def Let_def
  by (auto simp: mem_bind snd_bind_run fst_cell_params not_mem_cell steps_defs fst_snd_basic
      dest: snd_cell_data_Inr mem_cell_evaluate)

lemma script_python_error:
  fixes lib :: "('v, 'x) library"
  assumes "snd (script lib rnd) = Inl (Python_error s)"
  shows "s = ''IndexError'' \<and>
     (\<exists>model X3 y3. Model_evaluate model X3 y3 \<in> set (fst (script lib rnd)) \<and>
        evaluate lib model X3 y3 = Inr [])"
proof -
  from assms have "\<exists>X w t y ds ix A gs perm X1 X2 X3 L ps C model accuracy loss t_step.
      snd (cell_data lib rnd) = Inr (X, w, t, y) \<and>
      snd (cell_graph lib (train_part X)) = Inr (ds, ix, A) \<and>
      snd (cell_coarsen lib A (train_part X) (val_part X) (test_part X))
        = Inr (gs, perm, X1, X2, X3) \<and>
      snd (cell_laplacian lib gs) = Inr L \<and>
      snd (cell_params y :: ('v, 'x, params \<times> int) run) = Inr (ps, C) \<and>
      snd (cell_fit lib L ps X1 (train_part y) X2 (val_part y))
        = Inr (model, accuracy, loss, t_step) \<and>
      snd (cell_plot lib accuracy loss) = Inr () \<and>
      snd (cell_time lib t_step) = Inr () \<and>
      snd (cell_evaluate lib model X3 (test_part y)) = Inl (Python_error s)"
    unfolding script_def Let_def
    by (auto simp: snd_bind_Inl fst_snd_basic snd_cell_data_iff no_error_cell_data
        no_error_cell_plot no_error_cell_time no_python_cell_params
        snd_cell_graph_python no_python_cell_coarsen no_python_cell_laplacian
        no_python_cell_fit)
  then obtain X w t y ds ix A gs perm X1 X2 X3 L ps C model accuracy loss t_step where
    1: "snd (cell_data lib rnd) = Inr (X, w, t, y)"
      "snd (cell_graph lib (train_part X)) = Inr (ds, ix, A)"
      "snd (cell_coarsen lib A (train_part X) (val_part X) (test_part X))
        = Inr (gs, perm, X1, X2, X3)"
      "snd (cell_laplacian lib gs) = Inr L"
      "snd (cell_params y :: ('v, 'x, params \<times> int) run) = Inr (ps, C)"
      "snd (cell_fit lib L ps X1 (train_part y) X2 (val_part y))
        = Inr (model, accuracy, loss, t_step)"
      "snd (cell_plot lib accuracy loss) = Inr ()"
      "snd (cell_time lib t_step) = Inr ()"
    and 2: "snd (cell_evaluate lib model X3 (test_part y)) = Inl (Python_error s)"
    by blast
  from snd_cell_evaluate_python [OF 2] have s: "s = ''IndexError''"
    and r: "evaluate lib model X3 (test_part y) = Inr []"
    and "Model_evaluate model X3 (test_part y)
      \<in> set (fst (cell_evaluate lib model X3 (test_part y)))"
    by simp_all
  from script_at_evaluate(2) [OF 1 this(3)] s r show ?thesis by blast
qed

lemma script_past_index:
  fixes lib :: "('v, 'x) library"
  assumes "Print_res r \<in> set (fst (script lib rnd))"
  shows "\<exists>model X3 y3 res. Model_evaluate model X3 y3 \<in> set (fst (script lib rnd)) \<and>
     evaluate lib model X3 y3 = Inr res \<and> res \<noteq> [] \<and> r = hd res"
proof -
  from assms have "\<exists>X w t y ds ix A gs perm X1 X2 X3 L ps C model accuracy loss t_step.
      snd (cell_data lib rnd) = Inr (X, w, t, y) \<and>
      snd (cell_graph lib (train_part X)) = Inr (ds, ix, A) \<and>
      snd (cell_coarsen lib A (train_part X) (val_part X) (test_part X))
        = Inr (gs, perm, X1, X2, X3) \<and>
      snd (cell_laplacian lib gs) = Inr L \<and>
      snd (cell_params y :: ('v, 'x, params \<times> int) run) = Inr (ps, C) \<and>
      snd (cell_fit lib L ps X1 (train_part y) X2 (val_part y))
        = Inr (model, accuracy, loss, t_step) \<and>
      snd (cell_plot lib accuracy loss) = Inr () \<and>
      snd (cell_time lib t_step) = Inr () \<and>
      Print_res r \<in> set (fst (cell_evaluate lib model X3 (test_part y)))"
    unfolding script_def Let_def
    by (auto simp: mem_bind fst_cell_params not_mem_cell steps_defs fst_snd_basic
        snd_cell_data_iff not_print_res)
  then obtain X w t y ds ix A gs perm X1 X2 X3 L ps C model accuracy loss t_step where
    1: "snd (cell_data lib rnd) = Inr (X, w, t, y)"
      "snd (cell_graph lib (train_part X)) = Inr (ds, ix, A)"
      "snd (cell_coarsen lib A (train_part X) (val_part X) (test_part X))
        = Inr (gs, perm, X1, X2, X3)"
      "snd (cell_laplacian lib gs) = Inr L"
      "snd (cell_params y :: ('v, 'x, params \<times> int) run) = Inr (ps, C)"
      "snd (cell_fit lib L ps X1 (train_part y) X2 (val_part y))
        = Inr (model, accuracy, loss, t_step)"
      "snd (cell_plot lib accuracy loss) = Inr ()"
      "snd (cell_time lib t_step) = Inr ()"
    and 2: "Print_res r \<in> set (fst (cell_evaluate lib model X3 (test_part y)))"
    by blast
  from mem_print_res [OF 2] obtain res where
    m: "Model_evaluate model X3 (test_part y)
      \<in> set (fst (cell_evaluate lib model X3 (test_part y)))"
    and r: "evaluate lib model X3 (test_part y) = Inr res" "res \<noteq> []" "r = hd res"
    by blast
  from script_at_evaluate(2) [OF 1 m] r show ?thesis by blast
qed

lemma script_returns:
  assumes "snd (script lib rnd) = Inr g"
  shows "shape lib (var_A g) = [d, d] \<and>
     var_y g = classify (make_t rnd (make_X rnd) (make_w rnd)) \<and>
     var_C g = uint (Max (set (var_y g))) + 1 \<and>
     var_C g = int (length (np_unique (var_y g))) \<and> var_res g \<noteq> [] \<and>
     (\<forall>e\<in>set (fst (script lib rnd)). raised_by lib e = None)"
proof -
  from assms obtain tr where tr: "script lib rnd = (tr, Inr g)"
    by (auto simp: snd_Inr_iff)
  from script_Inr [OF tr] have "shape lib (var_A g) = [d, d]"
    "var_y g = classify (make_t rnd (make_X rnd) (make_w rnd))"
    "var_C g = uint (Max (set (var_y g))) + 1"
    "var_C g = int (length (np_unique (var_y g)))" "var_res g \<noteq> []"
    by auto
  moreover from stops_script [of lib rnd] assms
  have "\<forall>e\<in>set (fst (script lib rnd)). raised_by lib e = None"
    by (simp add: stops_at_exception_def)
  ultimately show ?thesis by simp
qed

lemma script_raised:
  assumes "e \<in> set (fst (script lib rnd))" and "raised_by lib e = Some x"
  shows "snd (script lib rnd) = Inl (Raised x) \<and> e = last (fst (script lib rnd))"
proof -
  let ?tr = "fst (script lib rnd)"
  from assms have ne: "?tr \<noteq> []" by auto
  then have set: "set ?tr = insert (last ?tr) (set (butlast ?tr))"
    by (metis append_butlast_last_id list.simps(15) rotate1.simps(2) set_rotate1)
  show ?thesis
  proof (cases "snd (script lib rnd)")
    case (Inr g)
    with stops_script [of lib rnd] assms show ?thesis
      by (auto simp: stops_at_exception_def)
  next
    case (Inl err)
    show ?thesis
    proof (cases err)
      case (Raised x')
      with Inl stops_script [of lib rnd]
      have "\<forall>e\<in>set (butlast ?tr). raised_by lib e = None"
        and "raised_by lib (last ?tr) = Some x'"
        by (simp_all add: stops_at_exception_def)
      with assms set Inl Raised show ?thesis by auto
    next
      case (AssertionError a)
      with Inl stops_script [of lib rnd] assms show ?thesis
        by (auto simp: stops_at_exception_def)
    next
      case (Python_error s)
      with Inl stops_script [of lib rnd] assms show ?thesis
        by (auto simp: stops_at_exception_def)
    qed
  qed
qed

subsection \<open>Error handling\<close>

lemma cell_data_demo_library:
  assumes "display lib = display demo_library"
  shows "cell_data lib demo_draws =
     ([Plt_figure, Plt_plot demo_t, Print_class_imbalance [1, 9998, 1]],
      Inr (demo_X, replicate 100 0, demo_t, demo_y))"
  by (rule cell_data_demo) (simp_all add: assms demo_library_def)

lemma script_demo_raising:
  "script demo_library_raising demo_draws =
     (demo_trace_graph @ [Print_graph_size 100 1200, Plt_spy 3, Coarsening_coarsen 3 3 False],
      Inl (Raised ''MemoryError''))"
proof -
  have c: "cell_coarsen demo_library_raising 3 X1 X2 X3 =
     ([Coarsening_coarsen 3 3 False], Inl (Raised ''MemoryError''))" for X1 X2 X3
    by (simp add: cell_coarsen_def bind_run_def call_def demo_library_raising_def
        demo_library_def)
  have dt: "cell_data demo_library_raising demo_draws =
     ([Plt_figure, Plt_plot demo_t, Print_class_imbalance [1, 9998, 1]],
      Inr (demo_X, replicate 100 0, demo_t, demo_y))"
    by (rule cell_data_demo_library) (simp add: demo_library_raising_def)
  have g: "cell_graph demo_library_raising X =
     ([Graph_distance_scipy_spatial (transpose X) 10 ''euclidean'',
       Graph_adjacency 1 2, Astype_float32 3, Print_graph_size 100 1200, Plt_spy 3],
      Inr (1, 2, 3))" for X
    by (rule cell_graph_demo) (simp_all add: demo_library_raising_def)
  show ?thesis
    unfolding script_def Let_def
    by (simp add: dt g split_parts(1,2,3) [of demo_X] split_y_demo c bind_run_def
        demo_trace_graph_def)
qed

lemma script_demo_bad_shape:
  "script demo_library_bad_shape demo_draws =
     (demo_trace_graph, Inl (AssertionError Shape_assertion))"
proof -
  have g: "cell_graph demo_library_bad_shape X =
     ([Graph_distance_scipy_spatial (transpose X) 10 ''euclidean'',
       Graph_adjacency 1 2, Astype_float32 3], Inl (AssertionError Shape_assertion))" for X
    by (simp add: cell_graph_def bind_run_def call_def py_assert_def raise_run_def
        demo_library_bad_shape_def demo_library_def d_def)
  have dt: "cell_data demo_library_bad_shape demo_draws =
     ([Plt_figure, Plt_plot demo_t, Print_class_imbalance [1, 9998, 1]],
      Inr (demo_X, replicate 100 0, demo_t, demo_y))"
    by (rule cell_data_demo_library) (simp add: demo_library_bad_shape_def)
  show ?thesis
    unfolding script_def Let_def
    by (simp add: dt split_parts(1,2,3) [of demo_X] split_y_demo g bind_run_def
        demo_trace_graph_def)
qed

lemma script_demo_print_raises:
  "script demo_library_print_raises demo_draws =
     (demo_trace_graph @ [Print_graph_size 100 1200], Inl (Raised ''BrokenPipeError''))"
proof -
  have dt: "cell_data demo_library_print_raises demo_draws =
     ([Plt_figure, Plt_plot demo_t, Print_class_imbalance [1, 9998, 1]],
      Inr (demo_X, replicate 100 0, demo_t, demo_y))"
    by (rule cell_data_demo) (simp_all add: demo_library_print_raises_def)
  have g: "cell_graph demo_library_print_raises X =
     ([Graph_distance_scipy_spatial (transpose X) 10 ''euclidean'',
       Graph_adjacency 1 2, Astype_float32 3, Print_graph_size 100 1200],
      Inl (Raised ''BrokenPipeError''))" for X
    by (simp add: cell_graph_def bind_run_def call_def emit_def py_assert_def return_run_def
        demo_library_print_raises_def demo_library_def d_def)
  show ?thesis
    unfolding script_def Let_def
    by (simp add: dt split_parts(1,2,3) [of demo_X] split_y_demo g bind_run_def
        demo_trace_graph_def)
qed

lemma script_demo_empty_result:
  "script demo_library_empty_result demo_draws =
     (butlast demo_trace, Inl (Python_error ''IndexError''))"
proof -
  have e: "cell_evaluate demo_library_empty_result model X3 y3 =
     ([Model_evaluate model X3 y3], Inl (Python_error ''IndexError''))" for model X3 y3
    by (rule cell_evaluate_empty) (simp add: demo_library_empty_result_def)
  note l = demo_library_empty_result_def
  have c: "cell_data demo_library_empty_result demo_draws =
     ([Plt_figure, Plt_plot demo_t, Print_class_imbalance [1, 9998, 1]],
      Inr (demo_X, replicate 100 0, demo_t, demo_y))"
    "cell_graph demo_library_empty_result X =
     ([Graph_distance_scipy_spatial (transpose X) 10 ''euclidean'',
       Graph_adjacency 1 2, Astype_float32 3, Print_graph_size 100 1200, Plt_spy 3],
      Inr (1, 2, 3))"
    "cell_coarsen demo_library_empty_result 3 X1 X2 X3 =
     ([Coarsening_coarsen 3 3 False, Coarsening_perm_data X1 7,
       Coarsening_perm_data X2 7, Coarsening_perm_data X3 7],
      Inr ([3, 4, 5, 6], 7, map (rotate 7) X1, map (rotate 7) X2, map (rotate 7) X3))"
    "cell_laplacian demo_library_empty_result [3, 4, 5, 6] =
     ([Graph_laplacian 3 True, Graph_laplacian 4 True, Graph_laplacian 5 True,
       Graph_laplacian 6 True, Graph_plot_spectrum [13, 14, 15, 16]],
      Inr [13, 14, 15, 16])"
    "cell_fit demo_library_empty_result L ps X1 y1 X2 y2 =
     ([Models_cgcnn L ps, Model_fit 20 X1 y1 X2 y2], Inr (21, 21, 22, 1 / 2))"
    "cell_plot demo_library_empty_result accuracy loss =
     ([Plt_subplots, Ax1_plot accuracy, Ax1_set_ylabel ''validation accuracy'', Ax1_twinx,
       Ax2_plot loss, Ax2_set_ylabel ''training loss'', Plt_show], Inr ())"
    "cell_time demo_library_empty_result t_step
       = ([Print_time_per_step (t_step * 1000)], Inr ())"
    for X X1 X2 X3 L ps y1 y2 accuracy loss t_step
          apply (rule cell_data_demo_library, simp add: l)
         apply (rule cell_graph_demo; simp add: l)
        apply (rule cell_coarsen_demo; simp add: l)
       apply (rule cell_laplacian_demo; simp add: l)
      apply (rule cell_fit_demo; simp add: l)
     apply (rule cell_plot_demo; simp add: l)
    apply (rule cell_time_demo; simp add: l)
    done
  show ?thesis
    unfolding script_def Let_def
    by (simp add: c split_parts(1,2,3) [of demo_X] split_y_demo cell_params_demo e
        bind_run_def demo_trace_def demo_trace_graph_def)
qed

lemma make_t_flat:
  "make_t demo_draws_flat (make_X demo_draws_flat) (make_w demo_draws_flat) = replicate 10000 0"
proof -
  have w: "make_w demo_draws_flat = replicate d 0"
    by (simp add: make_w_def demo_draws_flat_def draw_vector_def map_replicate_const)
  have z: "draw_vector (normal_noise demo_draws_flat) n = replicate n 0"
    by (simp add: demo_draws_flat_def draw_vector_def map_replicate_const)
  have "make_t demo_draws_flat (make_X demo_draws_flat) (make_w demo_draws_flat)
      = replicate n 0"
    unfolding make_t_def w z dot_zero length_make_X
    by (simp add: map_replicate_const list_eq_iff_nth_eq)
  then show ?thesis unfolding n_def .
qed

lemma classify_flat: "classify (replicate k 0) = replicate k 1"
proof -
  have "np_mean (replicate k 0) = 0" "np_std (replicate k 0) = 0"
    by (simp_all add: np_mean_def np_std_def sum_list_replicate)
  then show ?thesis
    by (simp add: classify_map map_replicate_const)
qed

lemma np_unique_flat: "0 < k \<Longrightarrow> np_unique (replicate k 1) = [1]"
  by (simp add: np_unique_def)

lemma script_demo_flat:
  "script demo_library demo_draws_flat =
     ([Plt_figure, Plt_plot (replicate 10000 0), Print_class_imbalance [10000],
       Graph_distance_scipy_spatial (transpose (take 5000 (make_X demo_draws_flat))) 10
         ''euclidean'',
       Graph_adjacency 1 2, Astype_float32 3, Print_graph_size 100 1200, Plt_spy 3,
       Coarsening_coarsen 3 3 False,
       Coarsening_perm_data (take 5000 (make_X demo_draws_flat)) 7,
       Coarsening_perm_data (take 1000 (drop 5000 (make_X demo_draws_flat))) 7,
       Coarsening_perm_data (drop 6000 (make_X demo_draws_flat)) 7,
       Graph_laplacian 3 True, Graph_laplacian 4 True, Graph_laplacian 5 True,
       Graph_laplacian 6 True, Graph_plot_spectrum [13, 14, 15, 16]],
      Inl (AssertionError Class_count_assertion))"
proof -
  have u: "np_unique (replicate 10000 1) = [1]"
    by (rule np_unique_flat) simp
  have dt: "cell_data demo_library demo_draws_flat =
     ([Plt_figure, Plt_plot (replicate 10000 0), Print_class_imbalance [10000]],
      Inr (make_X demo_draws_flat, make_w demo_draws_flat, replicate 10000 0,
           replicate 10000 1))"
    by (simp add: cell_data_Inr make_t_flat classify_flat np_unique_counts_def u
        count_list_replicate demo_library_def)
  have p: "cell_params (replicate 10000 1) = ([], Inl (AssertionError Class_count_assertion))"
    by (rule cell_params_fail) (simp_all add: u)
  show ?thesis
    unfolding script_def Let_def
    by (simp add: dt split_parts cell_graph_demo cell_coarsen_demo cell_laplacian_demo p
        bind_run_def)
qed

text \<open>
  Claim C1. The script handles no error: it has no \<^verbatim>\<open>try ... except\<close> and no other
  handler, and its only checks are the two assertions, \<^verbatim>\<open>assert A.shape == (d, d)\<close> and
  \<^verbatim>\<open>assert C == np.unique(y).size\<close>. In terms of runs, for every library and all draws:

    \<^item> a call that raises, a \<^verbatim>\<open>print\<close> or a plot included, is the last call of the run, and
      its exception is what the run ends with;
    \<^item> the statement after the first assertion is reached only with a matrix of shape
      \<open>(d, d)\<close>, and a matrix of another shape ends the run with an \<^verbatim>\<open>AssertionError\<close>;
    \<^item> the call of \<^verbatim>\<open>models.cgcnn\<close>, the first call after the second assertion, is reached
      only when the class count agrees, and a class count that does not agree ends the
      run with an \<^verbatim>\<open>AssertionError\<close> once \<^verbatim>\<open>plot_spectrum\<close> has returned;
    \<^item> a run ends with an \<^verbatim>\<open>AssertionError\<close> only where one of the two conditions fails;
    \<^item> the error of Python itself that can occur, \<^verbatim>\<open>res[0]\<close> on an empty result, is not
      caught either: the result is printed only when there is one, an empty result ends
      the run with an \<^verbatim>\<open>IndexError\<close>, and no other error of this kind ends a run;
    \<^item> the script returns only when both conditions held, the result was not empty and
      no call raised.
\<close>

theorem no_error_handling:
  fixes lib :: "('v, 'x) library"
  shows
  "(let tr = fst (script lib rnd); r = snd (script lib rnd);
        y = classify (make_t rnd (make_X rnd) (make_w rnd))
    in
    stops_at_exception lib (script lib rnd) \<and>
    (\<forall>e x. e \<in> set tr \<and> raised_by lib e = Some x \<longrightarrow> r = Inl (Raised x) \<and> e = last tr) \<and>
    (\<forall>k m. Print_graph_size k m \<in> set tr \<longrightarrow>
       (\<exists>A0 A. Astype_float32 A0 \<in> set tr \<and>
          astype_float32 lib A0 = Inr A \<and> shape lib A = [d, d] \<and> k = d \<and> m = nnz lib A)) \<and>
    (\<forall>A0 A. Astype_float32 A0 \<in> set tr \<and> astype_float32 lib A0 = Inr A \<and>
          shape lib A \<noteq> [d, d] \<longrightarrow>
       r = Inl (AssertionError Shape_assertion)) \<and>
    (\<forall>L ps. Models_cgcnn L ps \<in> set tr \<longrightarrow>
       uint (Max (set y)) + 1 = int (length (np_unique y))) \<and>
    (\<forall>L. Graph_plot_spectrum L \<in> set tr \<and> plot_spectrum lib L = Inr () \<and>
          uint (Max (set y)) + 1 \<noteq> int (length (np_unique y)) \<longrightarrow>
       r = Inl (AssertionError Class_count_assertion)) \<and>
    (\<forall>a. r = Inl (AssertionError a) \<longrightarrow>
       a = Shape_assertion \<and>
         (\<exists>A0 A. Astype_float32 A0 \<in> set tr \<and>
            astype_float32 lib A0 = Inr A \<and> shape lib A \<noteq> [d, d]) \<or>
       a = Class_count_assertion \<and>
         uint (Max (set y)) + 1 \<noteq> int (length (np_unique y))) \<and>
    (\<forall>r0. Print_res r0 \<in> set tr \<longrightarrow>
       (\<exists>model X_test y_test res. Model_evaluate model X_test y_test \<in> set tr \<and>
          evaluate lib model X_test y_test = Inr res \<and> res \<noteq> [] \<and> r0 = hd res)) \<and>
    (\<forall>model X_test y_test. Model_evaluate model X_test y_test \<in> set tr \<and>
          evaluate lib model X_test y_test = Inr [] \<longrightarrow>
       r = Inl (Python_error ''IndexError'')) \<and>
    (\<forall>s. r = Inl (Python_error s) \<longrightarrow>
       s = ''IndexError'' \<and>
       (\<exists>model X_test y_test. Model_evaluate model X_test y_test \<in> set tr \<and>
          evaluate lib model X_test y_test = Inr [])) \<and>
    (\<forall>g. r = Inr g \<longrightarrow>
       shape lib (var_A g) = [d, d] \<and> var_y g = y \<and>
       var_C g = uint (Max (set (var_y g))) + 1 \<and>
       var_C g = int (length (np_unique (var_y g))) \<and> var_res g \<noteq> [] \<and>
       (\<forall>e\<in>set tr. raised_by lib e = None)))"
proof -
  let ?tr = "fst (script lib rnd)"
  let ?r = "snd (script lib rnd)"
  let ?y = "classify (make_t rnd (make_X rnd) (make_w rnd))"
  have "stops_at_exception lib (script lib rnd)"
    by (rule stops_script)
  moreover have "\<forall>e x. e \<in> set ?tr \<and> raised_by lib e = Some x \<longrightarrow>
      ?r = Inl (Raised x) \<and> e = last ?tr"
    using script_raised [of _ lib rnd] by blast
  moreover have "\<forall>k m. Print_graph_size k m \<in> set ?tr \<longrightarrow>
       (\<exists>A0 A. Astype_float32 A0 \<in> set ?tr \<and>
          astype_float32 lib A0 = Inr A \<and> shape lib A = [d, d] \<and> k = d \<and> m = nnz lib A)"
    using script_past_shape_assertion [of _ _ lib rnd] by blast
  moreover have "\<forall>A0 A. Astype_float32 A0 \<in> set ?tr \<and> astype_float32 lib A0 = Inr A \<and>
          shape lib A \<noteq> [d, d] \<longrightarrow>
       ?r = Inl (AssertionError Shape_assertion)"
    using script_shape_assertion_fails [of _ lib rnd] by blast
  moreover have "\<forall>L ps. Models_cgcnn L ps \<in> set ?tr \<longrightarrow>
       uint (Max (set ?y)) + 1 = int (length (np_unique ?y))"
    using script_past_class_count_assertion [of _ _ lib rnd] by blast
  moreover have "\<forall>L. Graph_plot_spectrum L \<in> set ?tr \<and> plot_spectrum lib L = Inr () \<and>
          uint (Max (set ?y)) + 1 \<noteq> int (length (np_unique ?y)) \<longrightarrow>
       ?r = Inl (AssertionError Class_count_assertion)"
    using script_class_count_assertion_fails [of _ lib rnd] by blast
  moreover have "\<forall>a. ?r = Inl (AssertionError a) \<longrightarrow>
       a = Shape_assertion \<and>
         (\<exists>A0 A. Astype_float32 A0 \<in> set ?tr \<and>
            astype_float32 lib A0 = Inr A \<and> shape lib A \<noteq> [d, d]) \<or>
       a = Class_count_assertion \<and>
         uint (Max (set ?y)) + 1 \<noteq> int (length (np_unique ?y))"
    using script_assertion_error [of lib rnd] by blast
  moreover have "\<forall>r0. Print_res r0 \<in> set ?tr \<longrightarrow>
       (\<exists>model X_test y_test res. Model_evaluate model X_test y_test \<in> set ?tr \<and>
          evaluate lib model X_test y_test = Inr res \<and> res \<noteq> [] \<and> r0 = hd res)"
    using script_past_index [of _ lib rnd] by blast
  moreover have "\<forall>model X_test y_test. Model_evaluate model X_test y_test \<in> set ?tr \<and>
          evaluate lib model X_test y_test = Inr [] \<longrightarrow>
       ?r = Inl (Python_error ''IndexError'')"
    using script_index_error [of _ _ _ lib rnd] by blast
  moreover have "\<forall>s. ?r = Inl (Python_error s) \<longrightarrow>
       s = ''IndexError'' \<and>
       (\<exists>model X_test y_test. Model_evaluate model X_test y_test \<in> set ?tr \<and>
          evaluate lib model X_test y_test = Inr [])"
    using script_python_error [of lib rnd] by blast
  moreover have "\<forall>g. ?r = Inr g \<longrightarrow>
       shape lib (var_A g) = [d, d] \<and> var_y g = ?y \<and>
       var_C g = uint (Max (set (var_y g))) + 1 \<and>
       var_C g = int (length (np_unique (var_y g))) \<and> var_res g \<noteq> [] \<and>
       (\<forall>e\<in>set ?tr. raised_by lib e = None)"
    using script_returns [of lib rnd] by blast
  ultimately show ?thesis
    unfolding Let_def by (intro conjI)
qed

theorem no_error_handling_witness:
  "snd (script demo_library demo_draws) = Inr demo_globals \<and>
   shape demo_library (var_A demo_globals) = [d, d] \<and>
   var_C demo_globals = int (length (np_unique (var_y demo_globals))) \<and>
   var_res demo_globals \<noteq> [] \<and>
   list_all (\<lambda>e. raised_by demo_library e = None) (fst (script demo_library demo_draws)) \<and>
   Print_graph_size 100 1200 \<in> set (fst (script demo_library demo_draws)) \<and>
   (\<exists>A0 A. Astype_float32 A0 \<in> set (fst (script demo_library demo_draws)) \<and>
      astype_float32 demo_library A0 = Inr A \<and> shape demo_library A = [d, d]) \<and>
   Print_res 30 \<in> set (fst (script demo_library demo_draws)) \<and>
   (\<exists>model X_test y_test res.
      Model_evaluate model X_test y_test \<in> set (fst (script demo_library demo_draws)) \<and>
      evaluate demo_library model X_test y_test = Inr res \<and> res \<noteq> [] \<and> 30 = hd res) \<and>
   raised_by demo_library_raising (Coarsening_coarsen 3 3 False) = Some ''MemoryError'' \<and>
   snd (script demo_library_raising demo_draws) = Inl (Raised ''MemoryError'') \<and>
   last (fst (script demo_library_raising demo_draws)) = Coarsening_coarsen 3 3 False \<and>
   raised_by demo_library_print_raises (Print_graph_size 100 1200) = Some ''BrokenPipeError'' \<and>
   snd (script demo_library_print_raises demo_draws) = Inl (Raised ''BrokenPipeError'') \<and>
   last (fst (script demo_library_print_raises demo_draws)) = Print_graph_size 100 1200 \<and>
   Astype_float32 3 \<in> set (fst (script demo_library_bad_shape demo_draws)) \<and>
   astype_float32 demo_library_bad_shape 3 = Inr 3 \<and>
   shape demo_library_bad_shape 3 = [100, 99] \<and>
   snd (script demo_library_bad_shape demo_draws) = Inl (AssertionError Shape_assertion) \<and>
   classify (make_t demo_draws_flat (make_X demo_draws_flat) (make_w demo_draws_flat))
     = replicate 10000 1 \<and>
   Graph_plot_spectrum [13, 14, 15, 16] \<in> set (fst (script demo_library demo_draws_flat)) \<and>
   plot_spectrum demo_library [13, 14, 15, 16] = Inr () \<and>
   snd (script demo_library demo_draws_flat) = Inl (AssertionError Class_count_assertion) \<and>
   Model_evaluate 21 (map (rotate 7) (drop 6000 demo_X)) (replicate 4000 1)
     \<in> set (fst (script demo_library_empty_result demo_draws)) \<and>
   evaluate demo_library_empty_result 21 (map (rotate 7) (drop 6000 demo_X)) (replicate 4000 1)
     = Inr [] \<and>
   snd (script demo_library_empty_result demo_draws) = Inl (Python_error ''IndexError'') \<and>
   list_all (\<lambda>e. \<forall>r0. e \<noteq> Print_res r0) (fst (script demo_library_empty_result demo_draws))"
proof -
  note ok = no_error_handling [of demo_library demo_draws, unfolded Let_def]
  note ra = no_error_handling [of demo_library_raising demo_draws, unfolded Let_def]
  note pr = no_error_handling [of demo_library_print_raises demo_draws, unfolded Let_def]
  note bs = no_error_handling [of demo_library_bad_shape demo_draws, unfolded Let_def]
  note fl = no_error_handling [of demo_library demo_draws_flat, unfolded Let_def]
  note em = no_error_handling [of demo_library_empty_result demo_draws, unfolded Let_def]
  have r: "snd (script demo_library demo_draws) = Inr demo_globals"
    by (simp add: script_demo)
  with ok have "shape demo_library (var_A demo_globals) = [d, d] \<and>
      var_y demo_globals
        = classify (make_t demo_draws (make_X demo_draws) (make_w demo_draws)) \<and>
      var_C demo_globals = uint (Max (set (var_y demo_globals))) + 1 \<and>
      var_C demo_globals = int (length (np_unique (var_y demo_globals))) \<and>
      var_res demo_globals \<noteq> [] \<and>
      (\<forall>e\<in>set (fst (script demo_library demo_draws)). raised_by demo_library e = None)"
    by blast
  then have 1: "shape demo_library (var_A demo_globals) = [d, d]"
    "var_C demo_globals = int (length (np_unique (var_y demo_globals)))"
    "var_res demo_globals \<noteq> []"
    "list_all (\<lambda>e. raised_by demo_library e = None) (fst (script demo_library demo_draws))"
    unfolding list_all_iff by blast+
  have 2: "Print_graph_size 100 1200 \<in> set (fst (script demo_library demo_draws))"
    "Print_res 30 \<in> set (fst (script demo_library demo_draws))"
    by (simp_all add: script_demo demo_trace_def demo_trace_graph_def)
  from 2(1) ok have 3: "\<exists>A0 A. Astype_float32 A0 \<in> set (fst (script demo_library demo_draws)) \<and>
      astype_float32 demo_library A0 = Inr A \<and> shape demo_library A = [d, d]"
    by blast
  from 2(2) ok have 4: "\<exists>model X_test y_test res.
      Model_evaluate model X_test y_test \<in> set (fst (script demo_library demo_draws)) \<and>
      evaluate demo_library model X_test y_test = Inr res \<and> res \<noteq> [] \<and> 30 = hd res"
    by blast
  have 5: "Coarsening_coarsen 3 3 False \<in> set (fst (script demo_library_raising demo_draws))"
    "raised_by demo_library_raising (Coarsening_coarsen 3 3 False) = Some ''MemoryError''"
     apply (simp add: script_demo_raising)
    apply (simp add: exception_of_def demo_library_raising_def)
    done
  with ra have 6: "snd (script demo_library_raising demo_draws) = Inl (Raised ''MemoryError'')"
    "last (fst (script demo_library_raising demo_draws)) = Coarsening_coarsen 3 3 False"
    by metis+
  have 7: "Print_graph_size 100 1200 \<in> set (fst (script demo_library_print_raises demo_draws))"
    "raised_by demo_library_print_raises (Print_graph_size 100 1200) = Some ''BrokenPipeError''"
     apply (simp add: script_demo_print_raises)
    apply (simp add: exception_of_def demo_library_print_raises_def)
    done
  with pr have 8:
    "snd (script demo_library_print_raises demo_draws) = Inl (Raised ''BrokenPipeError'')"
    "last (fst (script demo_library_print_raises demo_draws)) = Print_graph_size 100 1200"
    by metis+
  have 9: "Astype_float32 3 \<in> set (fst (script demo_library_bad_shape demo_draws))"
    "astype_float32 demo_library_bad_shape 3 = Inr 3"
    "shape demo_library_bad_shape 3 = [100, 99]"
      apply (simp add: script_demo_bad_shape demo_trace_graph_def)
     apply (simp_all add: demo_library_bad_shape_def demo_library_def)
    done
  then have "shape demo_library_bad_shape 3 \<noteq> [d, d]"
    by (simp add: d_def)
  with 9 bs have 10:
    "snd (script demo_library_bad_shape demo_draws) = Inl (AssertionError Shape_assertion)"
    by blast
  have 11: "classify (make_t demo_draws_flat (make_X demo_draws_flat) (make_w demo_draws_flat))
      = replicate 10000 1"
    by (simp add: make_t_flat classify_flat)
  have 12: "Graph_plot_spectrum [13, 14, 15, 16] \<in> set (fst (script demo_library demo_draws_flat))"
    "plot_spectrum demo_library [13, 14, 15, 16] = Inr ()"
     apply (simp add: script_demo_flat)
    apply (simp add: demo_library_def)
    done
  have "uint (Max (set (replicate 10000 (1 :: 8 word)))) + 1
      \<noteq> int (length (np_unique (replicate 10000 1)))"
    by (simp add: np_unique_flat)
  with 12 fl [unfolded 11] have 13:
    "snd (script demo_library demo_draws_flat) = Inl (AssertionError Class_count_assertion)"
    by blast
  have 14: "Model_evaluate 21 (map (rotate 7) (drop 6000 demo_X)) (replicate 4000 1)
      \<in> set (fst (script demo_library_empty_result demo_draws))"
    "evaluate demo_library_empty_result 21 (map (rotate 7) (drop 6000 demo_X))
       (replicate 4000 1) = Inr []"
     apply (simp add: script_demo_empty_result demo_trace_def demo_trace_graph_def)
    apply (simp add: demo_library_empty_result_def)
    done
  with em have 15:
    "snd (script demo_library_empty_result demo_draws) = Inl (Python_error ''IndexError'')"
    by blast
  have 16: "list_all (\<lambda>e. \<forall>r0. e \<noteq> Print_res r0)
      (fst (script demo_library_empty_result demo_draws))"
    by (simp add: script_demo_empty_result demo_trace_def demo_trace_graph_def)
  from r 1 2 3 4 5(2) 6 7(2) 8 9 10 11 12 13 14 15 16 show ?thesis
    by (intro conjI)
qed

subsection \<open>Training and evaluation\<close>

lemma count_fit_steps: "filter (\<lambda>s. s = ''model.fit'') (steps k) = [''model.fit'']"
  by (simp add: steps_def steps_defs)

lemma fit_at_most_once:
  "length [e \<leftarrow> fst (script lib rnd). callee e = ''model.fit''] \<le> 1"
proof -
  let ?tr = "fst (script lib rnd)"
  obtain k where "follows (script lib rnd) (steps k)"
    using follows_script by blast
  then have "prefix (map callee ?tr) (steps k)"
    by (auto simp: follows_def split: sum.splits)
  then obtain zs where "steps k = map callee ?tr @ zs"
    by (auto simp: prefix_def)
  then have "filter (\<lambda>s. s = ''model.fit'') (map callee ?tr)
      @ filter (\<lambda>s. s = ''model.fit'') zs = [''model.fit'']"
    using count_fit_steps [of k] by simp
  then have "length (filter (\<lambda>s. s = ''model.fit'') (map callee ?tr)
      @ filter (\<lambda>s. s = ''model.fit'') zs) = 1"
    by (simp only: list.size One_nat_def)
  then have "length (filter (\<lambda>s. s = ''model.fit'') (map callee ?tr)) \<le> 1"
    by (simp only: length_append)
  then show ?thesis
    by (simp add: filter_map o_def)
qed

text \<open>
  Claim C5. \<^verbatim>\<open>fit\<close> is called at most once in any run, and exactly once in a run that
  returns: on the object \<^verbatim>\<open>models.cgcnn\<close> returned, with the permuted training and
  validation data and their labels, in the order
  \<^verbatim>\<open>(X_train, y_train, X_val, y_val)\<close>, and its result is the triple
  \<^verbatim>\<open>(accuracy, loss, t_step)\<close>. \<^verbatim>\<open>evaluate\<close> is called later in the run, on the trained
  object, with \<^verbatim>\<open>(X_test, y_test)\<close>.
\<close>

theorem fit_once_then_evaluate:
  "length [e \<leftarrow> fst (script lib rnd). callee e = ''model.fit''] \<le> 1 \<and>
   (\<forall>tr g. script lib rnd = (tr, Inr g) \<longrightarrow>
      (\<exists>model0 tr1 tr2 tr3.
         cgcnn lib (var_L g) (var_params g) = Inr model0 \<and>
         perm_data lib (train_part (var_X g)) (var_perm g) = Inr (var_X_train g) \<and>
         perm_data lib (val_part (var_X g)) (var_perm g) = Inr (var_X_val g) \<and>
         perm_data lib (test_part (var_X g)) (var_perm g) = Inr (var_X_test g) \<and>
         var_y_train g = train_part (var_y g) \<and> var_y_val g = val_part (var_y g) \<and>
         var_y_test g = test_part (var_y g) \<and>
         fit lib model0 (var_X_train g) (var_y_train g) (var_X_val g) (var_y_val g)
           = Inr ((var_accuracy g, var_loss g, var_t_step g), var_model g) \<and>
         evaluate lib (var_model g) (var_X_test g) (var_y_test g) = Inr (var_res g) \<and>
         [e \<leftarrow> tr. callee e = ''model.fit'']
           = [Model_fit model0 (var_X_train g) (var_y_train g) (var_X_val g) (var_y_val g)] \<and>
         [e \<leftarrow> tr. callee e = ''model.evaluate'']
           = [Model_evaluate (var_model g) (var_X_test g) (var_y_test g)] \<and>
         tr = tr1 @ [Model_fit model0 (var_X_train g) (var_y_train g) (var_X_val g) (var_y_val g)]
              @ tr2 @ [Model_evaluate (var_model g) (var_X_test g) (var_y_test g)] @ tr3))"
proof (intro conjI allI impI)
  show "length [e \<leftarrow> fst (script lib rnd). callee e = ''model.fit''] \<le> 1"
    by (rule fit_at_most_once)
next
  fix tr g
  assume "script lib rnd = (tr, Inr g)"
  from script_Inr [OF this] obtain A0 model0 where
    calls: "cgcnn lib (var_L g) (var_params g) = Inr model0"
      "perm_data lib (train_part (var_X g)) (var_perm g) = Inr (var_X_train g)"
      "perm_data lib (val_part (var_X g)) (var_perm g) = Inr (var_X_val g)"
      "perm_data lib (test_part (var_X g)) (var_perm g) = Inr (var_X_test g)"
      "var_y_train g = train_part (var_y g)" "var_y_val g = val_part (var_y g)"
      "var_y_test g = test_part (var_y g)"
      "fit lib model0 (var_X_train g) (var_y_train g) (var_X_val g) (var_y_val g)
           = Inr ((var_accuracy g, var_loss g, var_t_step g), var_model g)"
      "evaluate lib (var_model g) (var_X_test g) (var_y_test g) = Inr (var_res g)"
    and tr: "tr = complete_trace lib g A0 model0"
    by blast
  let ?fit = "Model_fit model0 (var_X_train g) (var_y_train g) (var_X_val g) (var_y_val g)"
  let ?ev = "Model_evaluate (var_model g) (var_X_test g) (var_y_test g)"
  let ?tr1 = "[Plt_figure, Plt_plot (var_t g), Print_class_imbalance (np_unique_counts (var_y g)),
      Graph_distance_scipy_spatial (transpose (train_part (var_X g))) 10 ''euclidean'',
      Graph_adjacency (var_dist g) (var_idx g), Astype_float32 A0,
      Print_graph_size d (nnz lib (var_A g)), Plt_spy (var_A g),
      Coarsening_coarsen (var_A g) 3 False,
      Coarsening_perm_data (train_part (var_X g)) (var_perm g),
      Coarsening_perm_data (val_part (var_X g)) (var_perm g),
      Coarsening_perm_data (test_part (var_X g)) (var_perm g)]
     @ map (\<lambda>A. Graph_laplacian A True) (var_graphs g)
     @ [Graph_plot_spectrum (var_L g), Models_cgcnn (var_L g) (var_params g)]"
  let ?tr2 = "[Plt_subplots, Ax1_plot (var_accuracy g), Ax1_set_ylabel ''validation accuracy'',
        Ax1_twinx, Ax2_plot (var_loss g), Ax2_set_ylabel ''training loss'', Plt_show,
        Print_time_per_step (var_t_step g * 1000)]"
  have "tr = ?tr1 @ [?fit] @ ?tr2 @ [?ev] @ [Print_res (hd (var_res g))]"
    unfolding tr by (simp add: complete_trace_def)
  with calls show "\<exists>model0 tr1 tr2 tr3.
         cgcnn lib (var_L g) (var_params g) = Inr model0 \<and>
         perm_data lib (train_part (var_X g)) (var_perm g) = Inr (var_X_train g) \<and>
         perm_data lib (val_part (var_X g)) (var_perm g) = Inr (var_X_val g) \<and>
         perm_data lib (test_part (var_X g)) (var_perm g) = Inr (var_X_test g) \<and>
         var_y_train g = train_part (var_y g) \<and> var_y_val g = val_part (var_y g) \<and>
         var_y_test g = test_part (var_y g) \<and>
         fit lib model0 (var_X_train g) (var_y_train g) (var_X_val g) (var_y_val g)
           = Inr ((var_accuracy g, var_loss g, var_t_step g), var_model g) \<and>
         evaluate lib (var_model g) (var_X_test g) (var_y_test g) = Inr (var_res g) \<and>
         [e \<leftarrow> tr. callee e = ''model.fit'']
           = [Model_fit model0 (var_X_train g) (var_y_train g) (var_X_val g) (var_y_val g)] \<and>
         [e \<leftarrow> tr. callee e = ''model.evaluate'']
           = [Model_evaluate (var_model g) (var_X_test g) (var_y_test g)] \<and>
         tr = tr1 @ [Model_fit model0 (var_X_train g) (var_y_train g) (var_X_val g) (var_y_val g)]
              @ tr2 @ [Model_evaluate (var_model g) (var_X_test g) (var_y_test g)] @ tr3"
    using filter_complete_trace(10,11) [of lib g A0 model0] tr
    by (intro exI [of _ model0] exI [of _ ?tr1] exI [of _ ?tr2]
        exI [of _ "[Print_res (hd (var_res g))]"]) simp
qed

theorem fit_once_then_evaluate_witness:
  "script demo_library demo_draws = (demo_trace, Inr demo_globals) \<and>
   [e \<leftarrow> demo_trace. callee e = ''model.fit'']
     = [Model_fit 20 (var_X_train demo_globals) (var_y_train demo_globals)
          (var_X_val demo_globals) (var_y_val demo_globals)] \<and>
   fit demo_library 20 (var_X_train demo_globals) (var_y_train demo_globals)
       (var_X_val demo_globals) (var_y_val demo_globals)
     = Inr ((var_accuracy demo_globals, var_loss demo_globals, var_t_step demo_globals),
            var_model demo_globals) \<and>
   [e \<leftarrow> demo_trace. callee e = ''model.evaluate'']
     = [Model_evaluate (var_model demo_globals) (var_X_test demo_globals)
          (var_y_test demo_globals)] \<and>
   length [e \<leftarrow> fst (script demo_library_raising demo_draws). callee e = ''model.fit''] \<le> 1"
proof -
  from fit_once_then_evaluate [of demo_library demo_draws] script_demo
  obtain model0 where
    m: "cgcnn demo_library (var_L demo_globals) (var_params demo_globals) = Inr model0"
    and f: "fit demo_library model0 (var_X_train demo_globals) (var_y_train demo_globals)
       (var_X_val demo_globals) (var_y_val demo_globals)
     = Inr ((var_accuracy demo_globals, var_loss demo_globals, var_t_step demo_globals),
            var_model demo_globals)"
    and t: "[e \<leftarrow> demo_trace. callee e = ''model.fit'']
     = [Model_fit model0 (var_X_train demo_globals) (var_y_train demo_globals)
          (var_X_val demo_globals) (var_y_val demo_globals)]"
      "[e \<leftarrow> demo_trace. callee e = ''model.evaluate'']
     = [Model_evaluate (var_model demo_globals) (var_X_test demo_globals)
          (var_y_test demo_globals)]"
    by blast
  from m have "model0 = 20" by (simp add: demo_library_def)
  with f t script_demo fit_once_then_evaluate [of demo_library_raising demo_draws]
  show ?thesis by blast
qed

subsection \<open>One linear sequence\<close>

text \<open>
  Claim C6. The script is one sequence of steps. Every run makes the calls of \<open>steps\<close>
  in this order: the plots of the synthetic data, \<^verbatim>\<open>graph.distance_scipy_spatial\<close> and the
  adjacency matrix, \<^verbatim>\<open>coarsening.coarsen\<close> and the three permutations,
  \<^verbatim>\<open>graph.laplacian\<close> once for each graph, the model object, \<^verbatim>\<open>fit\<close>, the plots of the
  results, and the evaluation. A run that ends with an exception makes the first of them
  only; no run makes any other call or repeats a step. In a run that returns, the
  arguments of each call are the results of earlier calls, as the equations say.
\<close>

theorem linear_sequence:
  "steps k =
     [''plt.figure'', ''plt.plot'', ''print'',
      ''graph.distance_scipy_spatial'', ''graph.adjacency'', ''astype'', ''print'', ''plt.spy'',
      ''coarsening.coarsen'', ''coarsening.perm_data'', ''coarsening.perm_data'',
      ''coarsening.perm_data'']
     @ replicate k ''graph.laplacian''
     @ [''graph.plot_spectrum'', ''models.cgcnn'', ''model.fit'',
        ''plt.subplots'', ''ax1.plot'', ''ax1.set_ylabel'', ''ax1.twinx'', ''ax2.plot'',
        ''ax2.set_ylabel'', ''plt.show'', ''print'', ''model.evaluate'', ''print''] \<and>
   (\<exists>j. follows (script lib rnd) (steps j)) \<and>
   (\<forall>tr g. script lib rnd = (tr, Inr g) \<longrightarrow>
      map callee tr = steps (length (var_graphs g)) \<and>
      (\<exists>A0 model0.
         tr = complete_trace lib g A0 model0 \<and>
         var_X g = make_X rnd \<and> var_w g = make_w rnd \<and>
         var_t g = make_t rnd (var_X g) (var_w g) \<and> var_y g = classify (var_t g) \<and>
         var_y_train g = train_part (var_y g) \<and> var_y_val g = val_part (var_y g) \<and>
         var_y_test g = test_part (var_y g) \<and>
         distance_scipy_spatial lib (transpose (train_part (var_X g))) 10 ''euclidean''
           = Inr (var_dist g, var_idx g) \<and>
         adjacency lib (var_dist g) (var_idx g) = Inr A0 \<and>
         astype_float32 lib A0 = Inr (var_A g) \<and>
         coarsen lib (var_A g) 3 False = Inr (var_graphs g, var_perm g) \<and>
         perm_data lib (train_part (var_X g)) (var_perm g) = Inr (var_X_train g) \<and>
         perm_data lib (val_part (var_X g)) (var_perm g) = Inr (var_X_val g) \<and>
         perm_data lib (test_part (var_X g)) (var_perm g) = Inr (var_X_test g) \<and>
         map (\<lambda>A. laplacian lib A True) (var_graphs g) = map Inr (var_L g) \<and>
         plot_spectrum lib (var_L g) = Inr () \<and>
         var_params g = final_params (var_C g) \<and>
         cgcnn lib (var_L g) (var_params g) = Inr model0 \<and>
         fit lib model0 (var_X_train g) (var_y_train g) (var_X_val g) (var_y_val g)
           = Inr ((var_accuracy g, var_loss g, var_t_step g), var_model g) \<and>
         evaluate lib (var_model g) (var_X_test g) (var_y_test g) = Inr (var_res g)))"
proof (intro conjI allI impI)
  show "steps k =
     [''plt.figure'', ''plt.plot'', ''print'',
      ''graph.distance_scipy_spatial'', ''graph.adjacency'', ''astype'', ''print'', ''plt.spy'',
      ''coarsening.coarsen'', ''coarsening.perm_data'', ''coarsening.perm_data'',
      ''coarsening.perm_data'']
     @ replicate k ''graph.laplacian''
     @ [''graph.plot_spectrum'', ''models.cgcnn'', ''model.fit'',
        ''plt.subplots'', ''ax1.plot'', ''ax1.set_ylabel'', ''ax1.twinx'', ''ax2.plot'',
        ''ax2.set_ylabel'', ''plt.show'', ''print'', ''model.evaluate'', ''print'']"
    by (simp add: steps_def steps_defs)
next
  show "\<exists>j. follows (script lib rnd) (steps j)"
    by (rule follows_script)
next
  fix tr g
  assume run: "script lib rnd = (tr, Inr g)"
  from script_Inr [OF run] obtain A0 model0 where
    *: "tr = complete_trace lib g A0 model0"
    by blast
  then show "map callee tr = steps (length (var_graphs g))"
    by (simp add: callee_complete_trace)
  from script_Inr [OF run] show "\<exists>A0 model0.
         tr = complete_trace lib g A0 model0 \<and>
         var_X g = make_X rnd \<and> var_w g = make_w rnd \<and>
         var_t g = make_t rnd (var_X g) (var_w g) \<and> var_y g = classify (var_t g) \<and>
         var_y_train g = train_part (var_y g) \<and> var_y_val g = val_part (var_y g) \<and>
         var_y_test g = test_part (var_y g) \<and>
         distance_scipy_spatial lib (transpose (train_part (var_X g))) 10 ''euclidean''
           = Inr (var_dist g, var_idx g) \<and>
         adjacency lib (var_dist g) (var_idx g) = Inr A0 \<and>
         astype_float32 lib A0 = Inr (var_A g) \<and>
         coarsen lib (var_A g) 3 False = Inr (var_graphs g, var_perm g) \<and>
         perm_data lib (train_part (var_X g)) (var_perm g) = Inr (var_X_train g) \<and>
         perm_data lib (val_part (var_X g)) (var_perm g) = Inr (var_X_val g) \<and>
         perm_data lib (test_part (var_X g)) (var_perm g) = Inr (var_X_test g) \<and>
         map (\<lambda>A. laplacian lib A True) (var_graphs g) = map Inr (var_L g) \<and>
         plot_spectrum lib (var_L g) = Inr () \<and>
         var_params g = final_params (var_C g) \<and>
         cgcnn lib (var_L g) (var_params g) = Inr model0 \<and>
         fit lib model0 (var_X_train g) (var_y_train g) (var_X_val g) (var_y_val g)
           = Inr ((var_accuracy g, var_loss g, var_t_step g), var_model g) \<and>
         evaluate lib (var_model g) (var_X_test g) (var_y_test g) = Inr (var_res g)"
    by (elim exE conjE, intro exI conjI) assumption+
qed

theorem linear_sequence_witness:
  "script demo_library demo_draws = (demo_trace, Inr demo_globals) \<and>
   map callee demo_trace = steps 4 \<and>
   demo_trace = complete_trace demo_library demo_globals 3 20 \<and>
   prefix (map callee (fst (script demo_library_raising demo_draws))) (steps 0)"
proof -
  note th = linear_sequence [of _ demo_library demo_draws]
  from th script_demo
  have 1: "map callee demo_trace = steps (length (var_graphs demo_globals))"
    by blast
  have 2: "length (var_graphs demo_globals) = 4" by (simp add: demo_globals_def)
  from th script_demo obtain A0 model0 where
    3: "demo_trace = complete_trace demo_library demo_globals A0 model0"
      "adjacency demo_library (var_dist demo_globals) (var_idx demo_globals) = Inr A0"
      "cgcnn demo_library (var_L demo_globals) (var_params demo_globals) = Inr model0"
    by blast
  from 3(2,3) have "A0 = 3" "model0 = 20"
    by (simp_all add: demo_library_def demo_globals_def)
  with 3(1) have 4: "demo_trace = complete_trace demo_library demo_globals 3 20" by simp
  from linear_sequence [of _ demo_library_raising demo_draws]
  obtain j where "follows (script demo_library_raising demo_draws) (steps j)" by blast
  then have "prefix (map callee (fst (script demo_library_raising demo_draws))) (steps j)"
    by (simp add: follows_def script_demo_raising)
  then have 5: "prefix (map callee (fst (script demo_library_raising demo_draws))) (steps 0)"
    by (simp add: script_demo_raising demo_trace_graph_def steps_def steps_defs)
  from 1 2 4 5 script_demo show ?thesis by simp
qed

subsection \<open>The permutation\<close>

lemma relabel_event_other:
  "callee e \<noteq> ''coarsening.perm_data'' \<Longrightarrow> relabel_event f e = e"
  by (cases e) (simp_all add: relabel_event_def)

lemma relabel_trace_other:
  assumes "follows m ks" and "''coarsening.perm_data'' \<notin> set ks"
  shows "map (relabel_event f) (fst m) = fst m"
proof (rule map_idI)
  fix e assume "e \<in> set (fst m)"
  with assms(1) have "callee e \<in> set ks" by (rule mem_follows)
  with assms(2) have "callee e \<noteq> ''coarsening.perm_data''" by auto
  then show "relabel_event f e = e" by (rule relabel_event_other)
qed

lemma relabel_cells_same:
  "cell_graph (relabel_library f g lib) X = cell_graph lib X"
  "cell_fit (relabel_library f g lib) L ps X1 y1 X2 y2 = cell_fit lib L ps X1 y1 X2 y2"
  "cell_evaluate (relabel_library f g lib) model X3 y3 = cell_evaluate lib model X3 y3"
  "cell_data (relabel_library f g lib) rnd = cell_data lib rnd"
  "cell_plot (relabel_library f g lib) accuracy loss = cell_plot lib accuracy loss"
  "cell_time (relabel_library f g lib) t_step = cell_time lib t_step"
  by (simp_all add: cell_graph_def cell_fit_def cell_evaluate_def cell_data_def cell_plot_def
      cell_time_def emit_def relabel_library_def cong: list.case_cong)

lemma relabel_laplacians: "laplacians (relabel_library f g lib) gs = laplacians lib gs"
  by (induction gs) (simp_all add: relabel_library_def)

lemma relabel_cell_laplacian:
  "cell_laplacian (relabel_library f g lib) gs = cell_laplacian lib gs"
  by (simp add: cell_laplacian_def relabel_laplacians) (simp add: relabel_library_def)

lemma relabel_cell_coarsen:
  assumes "\<And>p. g (f p) = p"
  shows "cell_coarsen (relabel_library f g lib) A X1 X2 X3 =
     (map (relabel_event f) (fst (cell_coarsen lib A X1 X2 X3)),
      case snd (cell_coarsen lib A X1 X2 X3) of
        Inl e \<Rightarrow> Inl e
      | Inr (graphs, perm, Y1, Y2, Y3) \<Rightarrow> Inr (graphs, f perm, Y1, Y2, Y3))"
proof (cases "coarsen lib A 3 False")
  case (Inl x)
  then show ?thesis
    by (simp add: cell_coarsen_def relabel_library_def bind_run_def call_def relabel_event_def)
next
  case (Inr r)
  obtain graphs perm where r: "r = (graphs, perm)" by (cases r)
  show ?thesis
    using Inr r assms
    by (simp add: cell_coarsen_def relabel_library_def bind_run_def call_def relabel_event_def
        return_run_def split: sum.splits)
qed

lemma relabel_other_cells:
  "map (relabel_event f) (fst (cell_graph lib X)) = fst (cell_graph lib X)"
  "map (relabel_event f) (fst (cell_laplacian lib gs)) = fst (cell_laplacian lib gs)"
  "map (relabel_event f) (fst (cell_fit lib L ps X1 y1 X2 y2)) = fst (cell_fit lib L ps X1 y1 X2 y2)"
  "map (relabel_event f) (fst (cell_evaluate lib model X3 y3)) = fst (cell_evaluate lib model X3 y3)"
  "map (relabel_event f) (fst (cell_data lib rnd)) = fst (cell_data lib rnd)"
  "map (relabel_event f) (fst (cell_plot lib accuracy loss)) = fst (cell_plot lib accuracy loss)"
  "map (relabel_event f) (fst (cell_time lib t_step)) = fst (cell_time lib t_step)"
proof -
  show "map (relabel_event f) (fst (cell_data lib rnd)) = fst (cell_data lib rnd)"
    by (rule relabel_trace_other [OF follows_cell_data]) (simp add: steps_defs)
  show "map (relabel_event f) (fst (cell_plot lib accuracy loss))
      = fst (cell_plot lib accuracy loss)"
    by (rule relabel_trace_other [OF follows_cell_plot]) (simp add: steps_defs)
  show "map (relabel_event f) (fst (cell_time lib t_step)) = fst (cell_time lib t_step)"
    by (rule relabel_trace_other [OF follows_cell_time]) simp
  show "map (relabel_event f) (fst (cell_graph lib X)) = fst (cell_graph lib X)"
    by (rule relabel_trace_other [OF follows_cell_graph]) (simp add: steps_defs)
  show "map (relabel_event f) (fst (cell_laplacian lib gs)) = fst (cell_laplacian lib gs)"
    by (rule relabel_trace_other [OF follows_cell_laplacian]) (simp add: steps_defs)
  show "map (relabel_event f) (fst (cell_fit lib L ps X1 y1 X2 y2))
      = fst (cell_fit lib L ps X1 y1 X2 y2)"
    by (rule relabel_trace_other [OF follows_cell_fit]) (simp add: steps_defs)
  show "map (relabel_event f) (fst (cell_evaluate lib model X3 y3))
      = fst (cell_evaluate lib model X3 y3)"
    by (rule relabel_trace_other [OF follows_cell_evaluate]) (simp add: steps_defs)
qed

lemma script_relabel:
  assumes "\<And>p. g (f p) = p"
  shows "script (relabel_library f g lib) rnd = relabel_run f (script lib rnd)"
proof -
  note cc = relabel_cell_coarsen [of g f, OF assms]
  have 1: "fst (script (relabel_library f g lib) rnd) = fst (relabel_run f (script lib rnd))"
    unfolding script_def Let_def
    by (simp add: relabel_run_def run_proj relabel_cells_same relabel_cell_laplacian
        cc fst_cell_params relabel_other_cells split: sum.splits)
  have 2: "snd (script (relabel_library f g lib) rnd) = snd (relabel_run f (script lib rnd))"
    unfolding script_def Let_def
    by (simp add: relabel_run_def run_proj relabel_cells_same relabel_cell_laplacian
        cc split: sum.splits)
  from 1 2 show ?thesis by (rule prod_eqI)
qed

text \<open>
  Claim C3. In a run that returns, \<^verbatim>\<open>coarsening.coarsen(A, levels=3,
  self_connections=False)\<close> returned the pair \<^verbatim>\<open>(graphs, perm)\<close>, and this \<open>perm\<close> is the
  second argument of the three calls of \<^verbatim>\<open>coarsening.perm_data\<close>, whose results are the
  new \<^verbatim>\<open>X_train\<close>, \<^verbatim>\<open>X_val\<close> and \<^verbatim>\<open>X_test\<close>. It is used for nothing else: renaming the
  permutation between \<^verbatim>\<open>coarsen\<close> and \<^verbatim>\<open>perm_data\<close> changes no call and no variable of any
  run, but the argument of these three calls and the variable \<open>perm\<close>.
\<close>

theorem one_permutation:
  "(\<forall>tr g. script lib rnd = (tr, Inr g) \<longrightarrow>
      coarsen lib (var_A g) 3 False = Inr (var_graphs g, var_perm g) \<and>
      perm_data lib (train_part (var_X g)) (var_perm g) = Inr (var_X_train g) \<and>
      perm_data lib (val_part (var_X g)) (var_perm g) = Inr (var_X_val g) \<and>
      perm_data lib (test_part (var_X g)) (var_perm g) = Inr (var_X_test g) \<and>
      [e \<leftarrow> tr. callee e = ''coarsening.coarsen''] = [Coarsening_coarsen (var_A g) 3 False] \<and>
      [e \<leftarrow> tr. callee e = ''coarsening.perm_data'']
        = [Coarsening_perm_data (train_part (var_X g)) (var_perm g),
           Coarsening_perm_data (val_part (var_X g)) (var_perm g),
           Coarsening_perm_data (test_part (var_X g)) (var_perm g)]) \<and>
   ((\<forall>p. back (rename p) = p) \<longrightarrow>
      script (relabel_library rename back lib) rnd = relabel_run rename (script lib rnd))"
proof (intro conjI allI impI)
  fix tr g
  assume "script lib rnd = (tr, Inr g)"
  from script_Inr [OF this] obtain A0 model0 where
    calls: "coarsen lib (var_A g) 3 False = Inr (var_graphs g, var_perm g)"
      "perm_data lib (train_part (var_X g)) (var_perm g) = Inr (var_X_train g)"
      "perm_data lib (val_part (var_X g)) (var_perm g) = Inr (var_X_val g)"
      "perm_data lib (test_part (var_X g)) (var_perm g) = Inr (var_X_test g)"
    and tr: "tr = complete_trace lib g A0 model0"
    by blast
  from calls show "coarsen lib (var_A g) 3 False = Inr (var_graphs g, var_perm g)"
    "perm_data lib (train_part (var_X g)) (var_perm g) = Inr (var_X_train g)"
    "perm_data lib (val_part (var_X g)) (var_perm g) = Inr (var_X_val g)"
    "perm_data lib (test_part (var_X g)) (var_perm g) = Inr (var_X_test g)"
    by simp_all
  show "[e \<leftarrow> tr. callee e = ''coarsening.coarsen''] = [Coarsening_coarsen (var_A g) 3 False]"
    "[e \<leftarrow> tr. callee e = ''coarsening.perm_data'']
        = [Coarsening_perm_data (train_part (var_X g)) (var_perm g),
           Coarsening_perm_data (val_part (var_X g)) (var_perm g),
           Coarsening_perm_data (test_part (var_X g)) (var_perm g)]"
    unfolding tr by (simp_all only: filter_complete_trace)
next
  assume "\<forall>p. back (rename p) = p"
  then show "script (relabel_library rename back lib) rnd = relabel_run rename (script lib rnd)"
    by (intro script_relabel) simp
qed

theorem one_permutation_witness:
  "script demo_library demo_draws = (demo_trace, Inr demo_globals) \<and>
   var_perm demo_globals = 7 \<and>
   [e \<leftarrow> demo_trace. callee e = ''coarsening.perm_data'']
     = [Coarsening_perm_data (train_part (var_X demo_globals)) 7,
        Coarsening_perm_data (val_part (var_X demo_globals)) 7,
        Coarsening_perm_data (test_part (var_X demo_globals)) 7] \<and>
   (\<forall>p::nat. p + 100 - 100 = p) \<and>
   script (relabel_library (\<lambda>p. p + 100) (\<lambda>p. p - 100) demo_library) demo_draws
     = (map (relabel_event (\<lambda>p. p + 100)) demo_trace,
        Inr (demo_globals\<lparr>var_perm := 107\<rparr>))"
proof -
  have p: "var_perm demo_globals = 7" by (simp add: demo_globals_def)
  from one_permutation [of demo_library demo_draws] script_demo
  have 1: "[e \<leftarrow> demo_trace. callee e = ''coarsening.perm_data'']
        = [Coarsening_perm_data (train_part (var_X demo_globals)) (var_perm demo_globals),
           Coarsening_perm_data (val_part (var_X demo_globals)) (var_perm demo_globals),
           Coarsening_perm_data (test_part (var_X demo_globals)) (var_perm demo_globals)]"
    by blast
  have inv: "\<forall>p::nat. p + 100 - 100 = p" by simp
  with one_permutation [of demo_library demo_draws "\<lambda>p. p - 100" "\<lambda>p. p + 100"]
  have "script (relabel_library (\<lambda>p. p + 100) (\<lambda>p. p - 100) demo_library) demo_draws
     = relabel_run (\<lambda>p. p + 100) (script demo_library demo_draws)"
    by blast
  then have 2: "script (relabel_library (\<lambda>p. p + 100) (\<lambda>p. p - 100) demo_library) demo_draws
     = (map (relabel_event (\<lambda>p. p + 100)) demo_trace, Inr (demo_globals\<lparr>var_perm := 107\<rparr>))"
    by (simp add: script_demo relabel_run_def p)
  from 1 2 p inv script_demo show ?thesis by simp
qed

end
